theory Spec2Isabelle
  imports Complex_Main "HOL-Library.AList"
begin

section \<open>Data model shared by the storages\<close>

text \<open>
  The trial states and study directions of \<^verbatim>\<open>optuna.trial.TrialState\<close> and
  \<^verbatim>\<open>optuna.study.StudyDirection\<close>. Python exceptions are values of \<open>error\<close>; a method
  that can raise returns \<open>error + result\<close>, and a method that also mutates the storage
  returns the pair of that outcome and the storage as the call leaves it, since a Python
  exception does not undo the assignments made before it.
\<close>

datatype TrialState = RUNNING | COMPLETE | PRUNED | FAIL | WAITING

datatype StudyDirection = NOT_SET | MINIMIZE | MAXIMIZE

datatype error =
  KeyError | IndexError | RuntimeError | ValueError | AssertionError | TypeError
  | DuplicatedStudyError

text \<open>
  A Python \<^verbatim>\<open>float\<close> is a number, an infinity or NaN. The storages store floats and
  compare them with \<^verbatim>\<open><\<close> and \<^verbatim>\<open>>\<close>; they never compute with them, so a number is a real
  here. \<open>float_lt a b\<close> is \<^verbatim>\<open>a < b\<close>, and \<^verbatim>\<open>a > b\<close> is \<open>float_lt b a\<close>: every comparison
  with NaN is false.
\<close>

datatype pyfloat = Finite real | PosInf | NegInf | NaN

fun float_lt :: "pyfloat \<Rightarrow> pyfloat \<Rightarrow> bool" where
  "float_lt (Finite x) (Finite y) = (x < y)"
| "float_lt (Finite x) PosInf = True"
| "float_lt NegInf (Finite y) = True"
| "float_lt NegInf PosInf = True"
| "float_lt a b = False"

text \<open>
  A Python sequence is a list or a tuple. \<^verbatim>\<open>list(s)\<close>, \<^verbatim>\<open>len(s)\<close> and \<^verbatim>\<open>s[i]\<close> read its
  items \<open>seq_items s\<close>; a list and a tuple are never equal, whatever their items.
\<close>

datatype 'x py_sequence = PyList (seq_items: "'x list") | PyTuple (seq_items: "'x list")

text \<open>
  Modelled from the spec: \<^verbatim>\<open>TrialState.is_finished\<close> is declared in \<^verbatim>\<open>optuna.trial\<close>, which
  is not among the sources. Section 4.2: the states are WAITING, RUNNING, COMPLETE, FAIL,
  PRUNED, and "the latter three are finished".
\<close>

definition is_finished :: "TrialState \<Rightarrow> bool" where
  "is_finished s = (s \<noteq> RUNNING \<and> s \<noteq> WAITING)"

text \<open>
  A \<^verbatim>\<open>FrozenTrial\<close>. Floats are \<open>pyfloat\<close>, \<^verbatim>\<open>datetime\<close> values are reals (seconds), Python
  integers are \<open>int\<close>. Attribute values (\<^verbatim>\<open>Any\<close>), distributions and externally represented
  parameter values are the type parameters \<open>'a\<close>, \<open>'d\<close> and \<open>'p\<close>.
\<close>

record ('a, 'd, 'p) FrozenTrial =
  number :: int
  state :: TrialState
  trial_values :: "pyfloat list option"
  datetime_start :: "real option"
  datetime_complete :: "real option"
  params :: "string \<rightharpoonup> 'p"
  distributions :: "string \<rightharpoonup> 'd"
  user_attrs :: "string \<rightharpoonup> 'a"
  system_attrs :: "string \<rightharpoonup> 'a"
  intermediate_values :: "int \<rightharpoonup> pyfloat"
  trial_id :: int

text \<open>
  Modelled from the spec: the property \<^verbatim>\<open>FrozenTrial.value\<close> is declared in
  \<^verbatim>\<open>optuna.trial\<close>, which is not among the sources. Section 3: values are a "sequence of
  floats, one per objective, present only once finished with a value"; the value of a
  single-objective trial is the only element of that sequence, and there is no value
  when the sequence is absent. Reading it on several values is an error (section 4.4).
\<close>

definition "value" :: "('a, 'd, 'p) FrozenTrial \<Rightarrow> error + pyfloat option" where
  "value t =
     (case trial_values t of
        None \<Rightarrow> Inr None
      | Some vs \<Rightarrow>
          (if length vs > 1 then Inl RuntimeError
           else (case vs of [] \<Rightarrow> Inl IndexError | v # _ \<Rightarrow> Inr (Some v))))"

text \<open>
  The module \<^verbatim>\<open>optuna.distributions\<close> is not among the sources. The two functions of it
  that the storages call are parameters of the model:
  \<^verbatim>\<open>check_distribution_compatibility(old, new)\<close> (\<open>True\<close> when it returns, \<open>False\<close> when it
  raises \<^verbatim>\<open>ValueError\<close>) and \<^verbatim>\<open>distribution.to_external_repr(internal)\<close>.
\<close>

record ('d, 'p) distributions_module =
  check_distribution_compatibility :: "'d \<Rightarrow> 'd \<Rightarrow> bool"
  to_external_repr :: "'d \<Rightarrow> pyfloat \<Rightarrow> 'p"

text \<open>Python list indexing and item assignment: negative indices count from the end.\<close>

definition py_index :: "'x list \<Rightarrow> int \<Rightarrow> nat option" where
  "py_index xs i =
     (if 0 \<le> i \<and> i < int (length xs) then Some (nat i)
      else if i < 0 \<and> - int (length xs) \<le> i then Some (nat (int (length xs) + i))
      else None)"

definition list_get :: "'x list \<Rightarrow> int \<Rightarrow> error + 'x" where
  "list_get xs i = (case py_index xs i of None \<Rightarrow> Inl IndexError | Some j \<Rightarrow> Inr (xs ! j))"

definition list_set :: "'x list \<Rightarrow> int \<Rightarrow> 'x \<Rightarrow> error + 'x list" where
  "list_set xs i v =
     (case py_index xs i of None \<Rightarrow> Inl IndexError | Some j \<Rightarrow> Inr (xs[j := v]))"

text \<open>Dictionary subscription \<^verbatim>\<open>d[k]\<close>, which raises \<^verbatim>\<open>KeyError\<close> on a missing key.\<close>

definition dict_get :: "('k \<rightharpoonup> 'v) \<Rightarrow> 'k \<Rightarrow> error + 'v" where
  "dict_get d k = (case d k of None \<Rightarrow> Inl KeyError | Some v \<Rightarrow> Inr v)"

text \<open>Sequencing of calls that can raise.\<close>

definition bind :: "error + 'x \<Rightarrow> ('x \<Rightarrow> error + 'y) \<Rightarrow> error + 'y" where
  "bind m f = (case m of Inl e \<Rightarrow> Inl e | Inr x \<Rightarrow> f x)"

text \<open>
  Modelled from the spec: \<^verbatim>\<open>BaseStorage.check_trial_is_updatable\<close> is inherited from
  \<^verbatim>\<open>optuna.storages._base\<close>, which is not among the sources. Section 4.2: "Any mutation
  attempted on a trial already in a finished state fails with a not updatable error".
  The caching wrapper's own \<^verbatim>\<open>_check_trial_is_updatable\<close> (below, from the source) is the
  same check and raises \<^verbatim>\<open>RuntimeError\<close>.
\<close>

definition check_trial_is_updatable :: "int \<Rightarrow> TrialState \<Rightarrow> error + unit" where
  "check_trial_is_updatable tid trial_state =
     (if is_finished trial_state then Inl RuntimeError else Inr ())"

section \<open>InMemoryStorage\<close>

record ('a, 'd, 'p) StudyInfo =
  trials :: "('a, 'd, 'p) FrozenTrial list"
  param_distribution :: "string \<rightharpoonup> 'd"
  study_user_attrs :: "string \<rightharpoonup> 'a"
  study_system_attrs :: "string \<rightharpoonup> 'a"
  name :: string
  directions :: "StudyDirection list"
  best_trial_id :: "int option"

record ('a, 'd, 'p) InMemoryStorage =
  trial_id_to_study_id_and_number :: "int \<rightharpoonup> int \<times> int"
  study_name_to_id :: "string \<rightharpoonup> int"
  studies :: "int \<rightharpoonup> ('a, 'd, 'p) StudyInfo"
  max_study_id :: int
  max_trial_id :: int

definition check_study_id :: "('a, 'd, 'p) InMemoryStorage \<Rightarrow> int \<Rightarrow> error + unit" where
  "check_study_id s study_id =
     (if study_id \<in> dom (studies s) then Inr () else Inl KeyError)"

definition check_trial_id :: "('a, 'd, 'p) InMemoryStorage \<Rightarrow> int \<Rightarrow> error + unit" where
  "check_trial_id s tid =
     (if tid \<in> dom (trial_id_to_study_id_and_number s) then Inr () else Inl KeyError)"

definition get_trial_im ::
  "('a, 'd, 'p) InMemoryStorage \<Rightarrow> int \<Rightarrow> error + ('a, 'd, 'p) FrozenTrial" where
  "get_trial_im s tid =
     bind (check_trial_id s tid) (\<lambda>_.
     bind (dict_get (trial_id_to_study_id_and_number s) tid) (\<lambda>(study_id, trial_number).
     bind (dict_get (studies s) study_id) (\<lambda>study.
     list_get (trials study) trial_number)))"

definition set_trial_im ::
  "('a, 'd, 'p) InMemoryStorage \<Rightarrow> int \<Rightarrow> ('a, 'd, 'p) FrozenTrial
     \<Rightarrow> error + ('a, 'd, 'p) InMemoryStorage" where
  "set_trial_im s tid trial =
     bind (dict_get (trial_id_to_study_id_and_number s) tid) (\<lambda>(study_id, trial_number).
     bind (dict_get (studies s) study_id) (\<lambda>study.
     bind (list_set (trials study) trial_number trial) (\<lambda>ts.
     Inr (s\<lparr>studies := (studies s)(study_id \<mapsto> study\<lparr>trials := ts\<rparr>)\<rparr>))))"

definition get_study_directions_im ::
  "('a, 'd, 'p) InMemoryStorage \<Rightarrow> int \<Rightarrow> error + StudyDirection list" where
  "get_study_directions_im s study_id =
     bind (check_study_id s study_id) (\<lambda>_.
     bind (dict_get (studies s) study_id) (\<lambda>study. Inr (directions study)))"

definition set_best_trial_id_im ::
  "('a, 'd, 'p) InMemoryStorage \<Rightarrow> int \<Rightarrow> int \<Rightarrow> error + ('a, 'd, 'p) InMemoryStorage" where
  "set_best_trial_id_im s study_id tid =
     bind (dict_get (studies s) study_id) (\<lambda>study.
     Inr (s\<lparr>studies := (studies s)(study_id \<mapsto> study\<lparr>best_trial_id := Some tid\<rparr>)\<rparr>))"

text \<open>
  \<^verbatim>\<open>InMemoryStorage._update_cache\<close>: every assignment to the best-trial pointer is the last
  action of its branch, so an exception leaves the storage as it was.
\<close>

definition update_cache_im ::
  "('a, 'd, 'p) InMemoryStorage \<Rightarrow> int \<Rightarrow> int \<Rightarrow> error + ('a, 'd, 'p) InMemoryStorage" where
  "update_cache_im s tid study_id =
     bind (get_trial_im s tid) (\<lambda>trial.
     if state trial \<noteq> COMPLETE then Inr s
     else
     bind (dict_get (studies s) study_id) (\<lambda>study.
     case best_trial_id study of
       None \<Rightarrow> set_best_trial_id_im s study_id tid
     | Some best_id \<Rightarrow>
         bind (get_study_directions_im s study_id) (\<lambda>ds.
         if length ds > 1 then Inr s
         else
         bind (list_get ds 0) (\<lambda>direction.
         bind (get_trial_im s best_id) (\<lambda>best_trial.
         bind (value best_trial) (\<lambda>best_value_opt.
         case best_value_opt of
           None \<Rightarrow> set_best_trial_id_im s study_id tid
         | Some best_value \<Rightarrow>
             bind (value trial) (\<lambda>new_value_opt.
             case new_value_opt of
               None \<Rightarrow> Inl AssertionError
             | Some new_value \<Rightarrow>
                 if direction = MAXIMIZE then
                   (if float_lt best_value new_value then set_best_trial_id_im s study_id tid
                    else Inr s)
                 else
                   (if float_lt new_value best_value then set_best_trial_id_im s study_id tid
                    else Inr s))))))))"

text \<open>
  \<^verbatim>\<open>InMemoryStorage.set_trial_state\<close>; \<open>now\<close> is what \<^verbatim>\<open>datetime.now()\<close> returns during the
  call. The trial is stored before \<^verbatim>\<open>_update_cache\<close> runs, so an exception of
  \<^verbatim>\<open>_update_cache\<close> leaves the trial in its new state.
\<close>

definition set_trial_state_im ::
  "('a, 'd, 'p) InMemoryStorage \<Rightarrow> int \<Rightarrow> TrialState \<Rightarrow> real
     \<Rightarrow> (error + bool) \<times> ('a, 'd, 'p) InMemoryStorage" where
  "set_trial_state_im s tid st now =
     (case get_trial_im s tid of
        Inl e \<Rightarrow> (Inl e, s)
      | Inr trial \<Rightarrow>
          (case check_trial_is_updatable tid (state trial) of
             Inl e \<Rightarrow> (Inl e, s)
           | Inr _ \<Rightarrow>
               if st = RUNNING \<and> state trial \<noteq> WAITING then (Inr False, s)
               else
                 let trial1 = trial\<lparr>state := st\<rparr>;
                     trial2 = (if st = RUNNING then trial1\<lparr>datetime_start := Some now\<rparr>
                               else trial1)
                 in if is_finished st then
                      (case set_trial_im s tid (trial2\<lparr>datetime_complete := Some now\<rparr>) of
                         Inl e \<Rightarrow> (Inl e, s)
                       | Inr s1 \<Rightarrow>
                           (case dict_get (trial_id_to_study_id_and_number s1) tid of
                              Inl e \<Rightarrow> (Inl e, s1)
                            | Inr (study_id, _) \<Rightarrow>
                                (case update_cache_im s1 tid study_id of
                                   Inl e \<Rightarrow> (Inl e, s1)
                                 | Inr s2 \<Rightarrow> (Inr True, s2))))
                    else
                      (case set_trial_im s tid trial2 of
                         Inl e \<Rightarrow> (Inl e, s)
                       | Inr s1 \<Rightarrow> (Inr True, s1))))"

text \<open>
  \<^verbatim>\<open>InMemoryStorage.create_new_study\<close>. When no name is given the source builds one from a
  fresh UUID; \<open>generated_name\<close> is that name.
\<close>

definition create_new_study_im ::
  "('a, 'd, 'p) InMemoryStorage \<Rightarrow> string option \<Rightarrow> string
     \<Rightarrow> (error + int) \<times> ('a, 'd, 'p) InMemoryStorage" where
  "create_new_study_im s study_name generated_name =
     (let study_id = max_study_id s + 1;
          s1 = s\<lparr>max_study_id := max_study_id s + 1\<rparr>
      in if study_name \<noteq> None \<and> the study_name \<in> dom (study_name_to_id s1)
         then (Inl DuplicatedStudyError, s1)
         else
           let nm = (case study_name of None \<Rightarrow> generated_name | Some n \<Rightarrow> n)
           in (Inr study_id,
               s1\<lparr>studies := (studies s1)(study_id \<mapsto>
                      \<lparr>trials = [], param_distribution = Map.empty,
                       study_user_attrs = Map.empty, study_system_attrs = Map.empty,
                       name = nm, directions = [NOT_SET], best_trial_id = None\<rparr>),
                    study_name_to_id := (study_name_to_id s1)(nm \<mapsto> study_id)\<rparr>))"

text \<open>\<^verbatim>\<open>_create_running_trial\<close>, with the dummy id and number of the source.\<close>

definition create_running_trial :: "real \<Rightarrow> ('a, 'd, 'p) FrozenTrial" where
  "create_running_trial now =
     \<lparr>number = -1, state = RUNNING, trial_values = None, datetime_start = Some now,
      datetime_complete = None, params = Map.empty, distributions = Map.empty,
      user_attrs = Map.empty, system_attrs = Map.empty, intermediate_values = Map.empty,
      trial_id = -1\<rparr>"

definition create_new_trial_im ::
  "('a, 'd, 'p) InMemoryStorage \<Rightarrow> int \<Rightarrow> ('a, 'd, 'p) FrozenTrial option \<Rightarrow> real
     \<Rightarrow> (error + int) \<times> ('a, 'd, 'p) InMemoryStorage" where
  "create_new_trial_im s study_id template_trial now =
     (case bind (check_study_id s study_id) (\<lambda>_. dict_get (studies s) study_id) of
        Inl e \<Rightarrow> (Inl e, s)
      | Inr study \<Rightarrow>
          let trial = (case template_trial of None \<Rightarrow> create_running_trial now
                       | Some t \<Rightarrow> t);
              tid = max_trial_id s + 1;
              trial' = trial\<lparr>number := int (length (trials study)), trial_id := tid\<rparr>;
              s1 = s\<lparr>max_trial_id := max_trial_id s + 1,
                     trial_id_to_study_id_and_number :=
                       (trial_id_to_study_id_and_number s)(tid \<mapsto> (study_id, number trial')),
                     studies := (studies s)(study_id \<mapsto>
                       study\<lparr>trials := trials study @ [trial']\<rparr>)\<rparr>
          in (case update_cache_im s1 tid study_id of
                Inl e \<Rightarrow> (Inl e, s1)
              | Inr s2 \<Rightarrow> (Inr tid, s2)))"

text \<open>
  The field writes of \<^verbatim>\<open>InMemoryStorage\<close>. Each of them checks before it assigns, so an
  exception leaves the storage as it was.
\<close>

definition set_trial_param_im ::
  "('d, 'p) distributions_module \<Rightarrow> ('a, 'd, 'p) InMemoryStorage \<Rightarrow> int \<Rightarrow> string \<Rightarrow> pyfloat
     \<Rightarrow> 'd \<Rightarrow> error + ('a, 'd, 'p) InMemoryStorage" where
  "set_trial_param_im D s tid param_name param_value_internal distribution =
     bind (get_trial_im s tid) (\<lambda>trial.
     bind (check_trial_is_updatable tid (state trial)) (\<lambda>_.
     bind (dict_get (trial_id_to_study_id_and_number s) tid) (\<lambda>(study_id, _).
     bind (dict_get (studies s) study_id) (\<lambda>study.
     bind (case param_distribution study param_name of
             None \<Rightarrow> Inr ()
           | Some old \<Rightarrow>
               if check_distribution_compatibility D old distribution then Inr ()
               else Inl ValueError) (\<lambda>_.
     set_trial_im
       (s\<lparr>studies := (studies s)(study_id \<mapsto>
            study\<lparr>param_distribution :=
                    (param_distribution study)(param_name \<mapsto> distribution)\<rparr>)\<rparr>)
       tid
       (trial\<lparr>params := (params trial)
                 (param_name \<mapsto> to_external_repr D distribution param_value_internal),
              distributions := (distributions trial)(param_name \<mapsto> distribution)\<rparr>))))))"

definition set_trial_values_im ::
  "('a, 'd, 'p) InMemoryStorage \<Rightarrow> int \<Rightarrow> pyfloat list
     \<Rightarrow> error + ('a, 'd, 'p) InMemoryStorage" where
  "set_trial_values_im s tid vs =
     bind (get_trial_im s tid) (\<lambda>trial.
     bind (check_trial_is_updatable tid (state trial)) (\<lambda>_.
     bind (check_trial_is_updatable tid (state trial)) (\<lambda>_.
     set_trial_im s tid (trial\<lparr>trial_values := Some vs\<rparr>))))"

definition set_trial_intermediate_value_im ::
  "('a, 'd, 'p) InMemoryStorage \<Rightarrow> int \<Rightarrow> int \<Rightarrow> pyfloat
     \<Rightarrow> error + ('a, 'd, 'p) InMemoryStorage" where
  "set_trial_intermediate_value_im s tid step intermediate_value =
     bind (get_trial_im s tid) (\<lambda>trial.
     bind (check_trial_is_updatable tid (state trial)) (\<lambda>_.
     set_trial_im s tid
       (trial\<lparr>intermediate_values :=
                (intermediate_values trial)(step \<mapsto> intermediate_value)\<rparr>)))"

definition set_trial_user_attr_im ::
  "('a, 'd, 'p) InMemoryStorage \<Rightarrow> int \<Rightarrow> string \<Rightarrow> 'a
     \<Rightarrow> error + ('a, 'd, 'p) InMemoryStorage" where
  "set_trial_user_attr_im s tid k v =
     bind (check_trial_id s tid) (\<lambda>_.
     bind (get_trial_im s tid) (\<lambda>trial.
     bind (check_trial_is_updatable tid (state trial)) (\<lambda>_.
     bind (check_trial_is_updatable tid (state trial)) (\<lambda>_.
     set_trial_im s tid (trial\<lparr>user_attrs := (user_attrs trial)(k \<mapsto> v)\<rparr>)))))"

definition set_trial_system_attr_im ::
  "('a, 'd, 'p) InMemoryStorage \<Rightarrow> int \<Rightarrow> string \<Rightarrow> 'a
     \<Rightarrow> error + ('a, 'd, 'p) InMemoryStorage" where
  "set_trial_system_attr_im s tid k v =
     bind (get_trial_im s tid) (\<lambda>trial.
     bind (check_trial_is_updatable tid (state trial)) (\<lambda>_.
     bind (check_trial_is_updatable tid (state trial)) (\<lambda>_.
     set_trial_im s tid (trial\<lparr>system_attrs := (system_attrs trial)(k \<mapsto> v)\<rparr>))))"

text \<open>
  \<^verbatim>\<open>InMemoryStorage.set_study_directions\<close>, which compares and stores \<^verbatim>\<open>list(directions)\<close>,
  and \<^verbatim>\<open>get_all_trials\<close>.
\<close>

definition set_study_directions_im ::
  "('a, 'd, 'p) InMemoryStorage \<Rightarrow> int \<Rightarrow> StudyDirection py_sequence
     \<Rightarrow> error + ('a, 'd, 'p) InMemoryStorage" where
  "set_study_directions_im s study_id ds =
     bind (check_study_id s study_id) (\<lambda>_.
     bind (dict_get (studies s) study_id) (\<lambda>study.
     bind (list_get (directions study) 0) (\<lambda>d0.
     if d0 \<noteq> NOT_SET \<and> directions study \<noteq> seq_items ds then Inl ValueError
     else Inr (s\<lparr>studies := (studies s)(study_id \<mapsto> study\<lparr>directions := seq_items ds\<rparr>)\<rparr>))))"

definition get_all_trials_im ::
  "('a, 'd, 'p) InMemoryStorage \<Rightarrow> int \<Rightarrow> TrialState list option
     \<Rightarrow> error + ('a, 'd, 'p) FrozenTrial list" where
  "get_all_trials_im s study_id states =
     bind (check_study_id s study_id) (\<lambda>_.
     bind (dict_get (studies s) study_id) (\<lambda>study.
     Inr (if states = None then trials study
          else filter (\<lambda>t. state t \<in> set (the states)) (trials study))))"

section \<open>RedisStorage\<close>

text \<open>
  The Redis database is the family of keys the storage uses, one field per key
  pattern: a dictionary from the id in the key to the unpickled value (\<^verbatim>\<open>pickle.loads\<close>
  of \<^verbatim>\<open>pickle.dumps\<close> is the identity). A hash is an association list, a Redis list is a
  list. The heartbeat hash is keyed by \<^verbatim>\<open>str(trial_id)\<close> and read back with \<^verbatim>\<open>int\<close>, so
  its keys are the trial ids. The constructor's configuration is part of the record.
\<close>

record ('a, 'd, 'p) StudySummary =
  summary_study_name :: string
  summary_directions :: "StudyDirection list"
  summary_best_trial :: "('a, 'd, 'p) FrozenTrial option"
  summary_user_attrs :: "string \<rightharpoonup> 'a"
  summary_system_attrs :: "string \<rightharpoonup> 'a"
  summary_n_trials :: nat
  summary_datetime_start :: "real option"
  summary_study_id :: int

record ('a, 'd, 'p) RedisStorage =
  heartbeat_interval :: "int option"
  grace_period :: "int option"
  key_study_name :: "string \<rightharpoonup> int"
  key_study_id_study_name :: "int \<rightharpoonup> string"
  key_study_direction :: "int \<rightharpoonup> StudyDirection py_sequence"
  key_study_summary :: "int \<rightharpoonup> ('a, 'd, 'p) StudySummary"
  key_study_list :: "int list"
  key_study_counter :: "int option"
  key_study_trial_number :: "int \<rightharpoonup> int"
  key_trial_counter :: "int option"
  key_trial :: "int \<rightharpoonup> ('a, 'd, 'p) FrozenTrial"
  key_trial_study_id :: "int \<rightharpoonup> int"
  key_study_trial_list :: "int \<rightharpoonup> int list"
  key_best_trial :: "int \<rightharpoonup> int"
  key_study_param_distribution :: "int \<rightharpoonup> (string \<rightharpoonup> 'd)"
  key_study_heartbeats :: "int \<rightharpoonup> (int \<times> real) list"

definition check_study_id_r :: "('a, 'd, 'p) RedisStorage \<Rightarrow> int \<Rightarrow> error + unit" where
  "check_study_id_r r study_id =
     (if study_id \<in> dom (key_study_id_study_name r) then Inr () else Inl KeyError)"

definition check_trial_id_r :: "('a, 'd, 'p) RedisStorage \<Rightarrow> int \<Rightarrow> error + unit" where
  "check_trial_id_r r tid = (if tid \<in> dom (key_trial r) then Inr () else Inl KeyError)"

definition get_trial_r ::
  "('a, 'd, 'p) RedisStorage \<Rightarrow> int \<Rightarrow> error + ('a, 'd, 'p) FrozenTrial" where
  "get_trial_r r tid =
     bind (check_trial_id_r r tid) (\<lambda>_.
     case key_trial r tid of None \<Rightarrow> Inl AssertionError | Some t \<Rightarrow> Inr t)"

definition get_study_id_from_trial_id_r ::
  "('a, 'd, 'p) RedisStorage \<Rightarrow> int \<Rightarrow> error + int" where
  "get_study_id_from_trial_id_r r tid = dict_get (key_trial_study_id r) tid"

definition get_study_directions_r ::
  "('a, 'd, 'p) RedisStorage \<Rightarrow> int \<Rightarrow> error + StudyDirection list" where
  "get_study_directions_r r study_id =
     bind (dict_get (key_study_direction r) study_id) (\<lambda>ds. Inr (seq_items ds))"

definition get_study_summary_r ::
  "('a, 'd, 'p) RedisStorage \<Rightarrow> int \<Rightarrow> error + ('a, 'd, 'p) StudySummary" where
  "get_study_summary_r r study_id =
     (case key_study_summary r study_id of None \<Rightarrow> Inl AssertionError | Some x \<Rightarrow> Inr x)"

definition get_study_trials_r :: "('a, 'd, 'p) RedisStorage \<Rightarrow> int \<Rightarrow> error + int list" where
  "get_study_trials_r r study_id =
     bind (check_study_id_r r study_id) (\<lambda>_.
     Inr (case key_study_trial_list r study_id of None \<Rightarrow> [] | Some l \<Rightarrow> l))"

text \<open>The loop of \<^verbatim>\<open>get_all_trials\<close> over the trial ids of the study.\<close>

fun get_all_trials_loop ::
  "('a, 'd, 'p) RedisStorage \<Rightarrow> TrialState list option \<Rightarrow> int list
     \<Rightarrow> error + ('a, 'd, 'p) FrozenTrial list" where
  "get_all_trials_loop r states [] = Inr []"
| "get_all_trials_loop r states (tid # tids) =
     bind (get_trial_r r tid) (\<lambda>frozen_trial.
     bind (get_all_trials_loop r states tids) (\<lambda>rest.
     Inr (if states = None \<or> state frozen_trial \<in> set (the states)
          then frozen_trial # rest else rest)))"

definition get_all_trials_r ::
  "('a, 'd, 'p) RedisStorage \<Rightarrow> int \<Rightarrow> TrialState list option
     \<Rightarrow> error + ('a, 'd, 'p) FrozenTrial list" where
  "get_all_trials_r r study_id states =
     bind (check_study_id_r r study_id) (\<lambda>_.
     bind (get_study_trials_r r study_id) (\<lambda>trial_ids.
     get_all_trials_loop r states trial_ids))"

text \<open>
  \<^verbatim>\<open>_set_best_trial\<close>: both keys are written by one \<^verbatim>\<open>MULTI\<close> pipeline, and the reads that
  can raise happen before \<^verbatim>\<open>execute\<close>.
\<close>

definition set_best_trial_r ::
  "('a, 'd, 'p) RedisStorage \<Rightarrow> int \<Rightarrow> int \<Rightarrow> error + ('a, 'd, 'p) RedisStorage" where
  "set_best_trial_r r study_id tid =
     bind (get_study_summary_r r study_id) (\<lambda>study_summary.
     bind (get_trial_r r tid) (\<lambda>t.
     Inr (r\<lparr>key_best_trial := (key_best_trial r)(study_id \<mapsto> tid),
            key_study_summary := (key_study_summary r)
              (study_id \<mapsto> study_summary\<lparr>summary_best_trial := Some t\<rparr>)\<rparr>)))"

text \<open>
  Python's \<^verbatim>\<open>max(items, key=...)\<close> and \<^verbatim>\<open>min(items, key=...)\<close> on a non-empty list, with the
  key \<^verbatim>\<open>t.value\<close>: the first item starts as the result, every later item replaces it when
  its key is strictly greater (strictly less for \<^verbatim>\<open>min\<close>), and comparing with \<^verbatim>\<open>None\<close>
  raises \<^verbatim>\<open>TypeError\<close>.
\<close>

fun py_extremum_loop ::
  "bool \<Rightarrow> ('a, 'd, 'p) FrozenTrial \<Rightarrow> pyfloat option \<Rightarrow> ('a, 'd, 'p) FrozenTrial list
     \<Rightarrow> error + ('a, 'd, 'p) FrozenTrial" where
  "py_extremum_loop is_max item val [] = Inr item"
| "py_extremum_loop is_max item val (x # xs) =
     bind (value x) (\<lambda>k.
       case (k, val) of
         (Some kv, Some v) \<Rightarrow>
           (if (if is_max then float_lt v kv else float_lt kv v)
            then py_extremum_loop is_max x k xs
            else py_extremum_loop is_max item val xs)
       | _ \<Rightarrow> Inl TypeError)"

definition py_extremum ::
  "bool \<Rightarrow> ('a, 'd, 'p) FrozenTrial list \<Rightarrow> error + ('a, 'd, 'p) FrozenTrial" where
  "py_extremum is_max items =
     (case items of
        [] \<Rightarrow> Inl ValueError
      | x # xs \<Rightarrow> bind (value x) (\<lambda>k. py_extremum_loop is_max x k xs))"

text \<open>
  The full scan of \<^verbatim>\<open>get_best_trial\<close>, taken when the study has no best-trial key: the
  best of the COMPLETE trials among \<open>all_trials\<close>, which the caller lists in the order of
  the study's trial list.
\<close>

definition best_trial_by_scan ::
  "StudyDirection list \<Rightarrow> ('a, 'd, 'p) FrozenTrial list
     \<Rightarrow> error + ('a, 'd, 'p) FrozenTrial" where
  "best_trial_by_scan ds all_trials =
     (let completed = filter (\<lambda>t. state t = COMPLETE) all_trials
      in if length completed = 0 then Inl ValueError
         else if length ds > 1 then Inl ValueError
         else bind (list_get ds 0) (\<lambda>direction.
              if direction = MAXIMIZE then py_extremum True completed
              else py_extremum False completed))"

definition get_best_trial_r ::
  "('a, 'd, 'p) RedisStorage \<Rightarrow> int
     \<Rightarrow> error + ('a, 'd, 'p) FrozenTrial \<times> ('a, 'd, 'p) RedisStorage" where
  "get_best_trial_r r study_id =
     (case key_best_trial r study_id of
        None \<Rightarrow>
          bind (get_all_trials_r r study_id None) (\<lambda>all_trials.
          if length (filter (\<lambda>t. state t = COMPLETE) all_trials) = 0 then Inl ValueError
          else
          bind (get_study_directions_r r study_id) (\<lambda>ds.
          bind (best_trial_by_scan ds all_trials) (\<lambda>best_trial.
          bind (set_best_trial_r r study_id (number best_trial)) (\<lambda>r'.
          Inr (best_trial, r')))))
      | Some best_id \<Rightarrow> bind (get_trial_r r best_id) (\<lambda>t. Inr (t, r)))"

text \<open>\<^verbatim>\<open>RedisStorage._update_cache\<close>.\<close>

definition update_cache_r ::
  "('a, 'd, 'p) RedisStorage \<Rightarrow> int \<Rightarrow> (error + unit) \<times> ('a, 'd, 'p) RedisStorage" where
  "update_cache_r r tid =
     (case get_trial_r r tid of
        Inl e \<Rightarrow> (Inl e, r)
      | Inr trial \<Rightarrow>
          if state trial \<noteq> COMPLETE then (Inr (), r)
          else
          (case bind (get_study_id_from_trial_id_r r tid) (\<lambda>study_id.
                bind (get_study_directions_r r study_id) (\<lambda>ds. Inr (study_id, ds))) of
             Inl e \<Rightarrow> (Inl e, r)
           | Inr (study_id, ds) \<Rightarrow>
               if length ds > 1 then (Inr (), r)
               else
               (case list_get ds 0 of
                  Inl e \<Rightarrow> (Inl e, r)
                | Inr direction \<Rightarrow>
                    if study_id \<notin> dom (key_best_trial r) then
                      (case set_best_trial_r r study_id tid of
                         Inl e \<Rightarrow> (Inl e, r)
                       | Inr r' \<Rightarrow> (Inr (), r'))
                    else
                    (case get_best_trial_r r study_id of
                       Inl e \<Rightarrow> (Inl e, r)
                     | Inr (best_trial, r1) \<Rightarrow>
                         (case value best_trial of
                            Inl e \<Rightarrow> (Inl e, r1)
                          | Inr None \<Rightarrow> (Inl AssertionError, r1)
                          | Inr (Some best_value) \<Rightarrow>
                              (case value trial of
                                 Inl e \<Rightarrow> (Inl e, r1)
                               | Inr None \<Rightarrow> (Inl AssertionError, r1)
                               | Inr (Some new_value) \<Rightarrow>
                                   if (if direction = MAXIMIZE
                                       then float_lt best_value new_value
                                       else float_lt new_value best_value)
                                   then (case set_best_trial_r r1 study_id tid of
                                           Inl e \<Rightarrow> (Inl e, r1)
                                         | Inr r' \<Rightarrow> (Inr (), r'))
                                   else (Inr (), r1)))))))"

text \<open>
  \<^verbatim>\<open>RedisStorage.set_trial_state\<close>. \<open>hdel\<close> of a hash removes the field; the hash of a study
  without heartbeats is the empty hash.
\<close>

definition hdel :: "(int \<rightharpoonup> (int \<times> real) list) \<Rightarrow> int \<Rightarrow> int \<Rightarrow> (int \<rightharpoonup> (int \<times> real) list)" where
  "hdel h study_id field =
     (case h study_id of
        None \<Rightarrow> h
      | Some kvs \<Rightarrow> h(study_id \<mapsto> AList.delete field kvs))"

definition hset ::
  "(int \<rightharpoonup> (int \<times> real) list) \<Rightarrow> int \<Rightarrow> int \<Rightarrow> real \<Rightarrow> (int \<rightharpoonup> (int \<times> real) list)" where
  "hset h study_id field v =
     h(study_id \<mapsto> AList.update field v (case h study_id of None \<Rightarrow> [] | Some kvs \<Rightarrow> kvs))"

definition hgetall :: "(int \<rightharpoonup> (int \<times> real) list) \<Rightarrow> int \<Rightarrow> (int \<times> real) list" where
  "hgetall h study_id = (case h study_id of None \<Rightarrow> [] | Some kvs \<Rightarrow> kvs)"

definition set_trial_state_r ::
  "('a, 'd, 'p) RedisStorage \<Rightarrow> int \<Rightarrow> TrialState \<Rightarrow> real
     \<Rightarrow> (error + bool) \<times> ('a, 'd, 'p) RedisStorage" where
  "set_trial_state_r r tid st now =
     (case bind (check_trial_id_r r tid) (\<lambda>_.
           bind (get_trial_r r tid) (\<lambda>trial.
           bind (check_trial_is_updatable tid (state trial)) (\<lambda>_. Inr trial))) of
        Inl e \<Rightarrow> (Inl e, r)
      | Inr trial \<Rightarrow>
          if st = RUNNING \<and> state trial \<noteq> WAITING then (Inr False, r)
          else
            let trial1 = trial\<lparr>state := st\<rparr>;
                trial2 = (if st = RUNNING then trial1\<lparr>datetime_start := Some now\<rparr>
                          else trial1)
            in if is_finished st then
                 let r1 = r\<lparr>key_trial :=
                            (key_trial r)(tid \<mapsto> trial2\<lparr>datetime_complete := Some now\<rparr>)\<rparr>
                 in (case update_cache_r r1 tid of
                       (Inl e, r2) \<Rightarrow> (Inl e, r2)
                     | (Inr _, r2) \<Rightarrow>
                         (case get_study_id_from_trial_id_r r2 tid of
                            Inl e \<Rightarrow> (Inl e, r2)
                          | Inr study_id \<Rightarrow>
                              (Inr True,
                               r2\<lparr>key_study_heartbeats :=
                                    hdel (key_study_heartbeats r2) study_id tid\<rparr>)))
               else (Inr True, r\<lparr>key_trial := (key_trial r)(tid \<mapsto> trial2)\<rparr>))"

text \<open>
  \<^verbatim>\<open>RedisStorage.create_new_study\<close>; \<open>generated_name\<close> is the name the source formats from
  the new study id when no name is given. \<^verbatim>\<open>INCR\<close> of a missing key counts from 0.
\<close>

definition incr :: "int option \<Rightarrow> int" where
  "incr c = (case c of None \<Rightarrow> 0 | Some n \<Rightarrow> n) + 1"

definition create_new_study_r ::
  "('a, 'd, 'p) RedisStorage \<Rightarrow> string option \<Rightarrow> string
     \<Rightarrow> (error + int) \<times> ('a, 'd, 'p) RedisStorage" where
  "create_new_study_r r study_name generated_name =
     (if study_name \<noteq> None \<and> the study_name \<in> dom (key_study_name r)
      then (Inl DuplicatedStudyError, r)
      else
        let c = (if key_study_counter r = None then Some (-1) else key_study_counter r);
            study_id = incr c;
            nm = (case study_name of None \<Rightarrow> generated_name | Some n \<Rightarrow> n)
        in (Inr study_id,
            r\<lparr>key_study_counter := Some study_id,
              key_study_trial_number := (key_study_trial_number r)(study_id \<mapsto> -1),
              key_study_name := (key_study_name r)(nm \<mapsto> study_id),
              key_study_id_study_name := (key_study_id_study_name r)(study_id \<mapsto> nm),
              key_study_direction := (key_study_direction r)(study_id \<mapsto> PyList [NOT_SET]),
              key_study_list := key_study_list r @ [study_id],
              key_study_summary := (key_study_summary r)(study_id \<mapsto>
                \<lparr>summary_study_name = nm, summary_directions = [NOT_SET],
                 summary_best_trial = None, summary_user_attrs = Map.empty,
                 summary_system_attrs = Map.empty, summary_n_trials = 0,
                 summary_datetime_start = None, summary_study_id = study_id\<rparr>)\<rparr>))"

text \<open>
  \<^verbatim>\<open>RedisStorage.create_new_trial\<close>: the first pipeline stores the trial, the second one
  refreshes the study summary, then a finished template goes through \<^verbatim>\<open>_update_cache\<close>.
\<close>

definition min_datetime_start :: "('a, 'd, 'p) FrozenTrial list \<Rightarrow> real option" where
  "min_datetime_start ts =
     (case List.map_filter datetime_start ts of [] \<Rightarrow> None | x # xs \<Rightarrow> Some (fold min xs x))"

definition create_new_trial_r ::
  "('a, 'd, 'p) RedisStorage \<Rightarrow> int \<Rightarrow> ('a, 'd, 'p) FrozenTrial option \<Rightarrow> real
     \<Rightarrow> (error + int) \<times> ('a, 'd, 'p) RedisStorage" where
  "create_new_trial_r r study_id template_trial now =
     (case check_study_id_r r study_id of
        Inl e \<Rightarrow> (Inl e, r)
      | Inr _ \<Rightarrow>
          let trial = (case template_trial of None \<Rightarrow> create_running_trial now
                       | Some t \<Rightarrow> t);
              c = (if key_trial_counter r = None then Some (-1) else key_trial_counter r);
              tid = incr c;
              trial_number = incr (key_study_trial_number r study_id);
              trial' = trial\<lparr>number := trial_number, trial_id := tid\<rparr>;
              r1 = r\<lparr>key_trial_counter := Some tid,
                     key_study_trial_number :=
                       (key_study_trial_number r)(study_id \<mapsto> trial_number),
                     key_trial := (key_trial r)(tid \<mapsto> trial'),
                     key_trial_study_id := (key_trial_study_id r)(tid \<mapsto> study_id),
                     key_study_trial_list := (key_study_trial_list r)(study_id \<mapsto>
                       (case key_study_trial_list r study_id of None \<Rightarrow> [] | Some l \<Rightarrow> l)
                         @ [tid])\<rparr>
          in (case bind (get_study_summary_r r1 study_id) (\<lambda>study_summary.
                   bind (get_study_trials_r r1 study_id) (\<lambda>tids.
                   bind (get_all_trials_r r1 study_id None) (\<lambda>all_trials.
                   Inr (study_summary\<lparr>summary_n_trials := length tids,
                          summary_datetime_start := min_datetime_start all_trials\<rparr>)))) of
                Inl e \<Rightarrow> (Inl e, r1)
              | Inr study_summary \<Rightarrow>
                  let r2 = r1\<lparr>key_study_summary :=
                                (key_study_summary r1)(study_id \<mapsto> study_summary)\<rparr>
                  in if is_finished (state trial') then
                       (case update_cache_r r2 tid of
                          (Inl e, r3) \<Rightarrow> (Inl e, r3)
                        | (Inr _, r3) \<Rightarrow> (Inr tid, r3))
                     else (Inr tid, r2)))"

text \<open>
  The field writes of \<^verbatim>\<open>RedisStorage\<close>. Each of them checks before it writes, so an
  exception leaves the database as it was.
\<close>

definition updatable_trial_r ::
  "('a, 'd, 'p) RedisStorage \<Rightarrow> int \<Rightarrow> error + ('a, 'd, 'p) FrozenTrial" where
  "updatable_trial_r r tid =
     bind (check_trial_id_r r tid) (\<lambda>_.
     bind (get_trial_r r tid) (\<lambda>trial.
     bind (check_trial_is_updatable tid (state trial)) (\<lambda>_. Inr trial)))"


definition set_trial_values_r ::
  "('a, 'd, 'p) RedisStorage \<Rightarrow> int \<Rightarrow> pyfloat list \<Rightarrow> error + ('a, 'd, 'p) RedisStorage" where
  "set_trial_values_r r tid vs =
     bind (updatable_trial_r r tid) (\<lambda>trial.
     Inr (r\<lparr>key_trial := (key_trial r)(tid \<mapsto> trial\<lparr>trial_values := Some vs\<rparr>)\<rparr>))"




text \<open>
  \<^verbatim>\<open>RedisStorage.set_study_directions\<close>. The key holds the pickled argument, a list or a
  tuple, and \<^verbatim>\<open>current_directions != directions\<close> compares the stored sequence with the
  argument as Python does; the study summary gets \<^verbatim>\<open>list(directions)\<close>.
\<close>

definition set_study_directions_r ::
  "('a, 'd, 'p) RedisStorage \<Rightarrow> int \<Rightarrow> StudyDirection py_sequence
     \<Rightarrow> error + ('a, 'd, 'p) RedisStorage" where
  "set_study_directions_r r study_id ds =
     bind (check_study_id_r r study_id) (\<lambda>_.
     bind (case key_study_direction r study_id of
             None \<Rightarrow> Inr ()
           | Some current \<Rightarrow>
               bind (list_get (seq_items current) 0) (\<lambda>d0.
               if d0 \<noteq> NOT_SET \<and> current \<noteq> ds then Inl ValueError else Inr ())) (\<lambda>_.
     bind (get_study_summary_r r study_id) (\<lambda>study_summary.
     Inr (r\<lparr>key_study_direction := (key_study_direction r)(study_id \<mapsto> ds),
            key_study_summary := (key_study_summary r)
              (study_id \<mapsto> study_summary\<lparr>summary_directions := seq_items ds\<rparr>)\<rparr>))))"

subsection \<open>Heartbeats\<close>

text \<open>
  \<open>redis_time\<close> is what \<^verbatim>\<open>_get_redis_time\<close> returns during the call, in seconds.
  \<^verbatim>\<open>fail_stale_trials\<close> calls \<^verbatim>\<open>set_trial_state\<close> once per stale trial; \<open>now\<close> is
  \<^verbatim>\<open>datetime.now()\<close> during those calls. An exception of \<^verbatim>\<open>set_trial_state\<close> ends the
  loop and leaves the method.
\<close>

definition record_heartbeat_r ::
  "('a, 'd, 'p) RedisStorage \<Rightarrow> int \<Rightarrow> real \<Rightarrow> error + ('a, 'd, 'p) RedisStorage" where
  "record_heartbeat_r r tid redis_time =
     bind (get_study_id_from_trial_id_r r tid) (\<lambda>study_id.
     Inr (r\<lparr>key_study_heartbeats := hset (key_study_heartbeats r) study_id tid redis_time\<rparr>))"

definition get_stale_trial_ids_r ::
  "('a, 'd, 'p) RedisStorage \<Rightarrow> int \<Rightarrow> real \<Rightarrow> error + int list" where
  "get_stale_trial_ids_r r study_id redis_time =
     (case heartbeat_interval r of
        None \<Rightarrow> Inl AssertionError
      | Some interval \<Rightarrow>
          let grace = (case grace_period r of None \<Rightarrow> 2 * interval | Some g \<Rightarrow> g);
              heartbeats = hgetall (key_study_heartbeats r) study_id
          in Inr (map fst
                   (filter (\<lambda>(trial_id_raw, last_heartbeat).
                              redis_time - last_heartbeat > real_of_int grace) heartbeats)))"

fun fail_stale_trials_loop ::
  "('a, 'd, 'p) RedisStorage \<Rightarrow> int list \<Rightarrow> real \<Rightarrow> int list
     \<Rightarrow> (error + int list) \<times> ('a, 'd, 'p) RedisStorage" where
  "fail_stale_trials_loop r [] now confirmed = (Inr confirmed, r)"
| "fail_stale_trials_loop r (tid # tids) now confirmed =
     (case set_trial_state_r r tid FAIL now of
        (Inl e, r') \<Rightarrow> (Inl e, r')
      | (Inr ok, r') \<Rightarrow>
          fail_stale_trials_loop r' tids now (if ok then confirmed @ [tid] else confirmed))"

definition fail_stale_trials_r ::
  "('a, 'd, 'p) RedisStorage \<Rightarrow> int \<Rightarrow> real \<Rightarrow> real
     \<Rightarrow> (error + int list) \<times> ('a, 'd, 'p) RedisStorage" where
  "fail_stale_trials_r r study_id redis_time now =
     (case get_stale_trial_ids_r r study_id redis_time of
        Inl e \<Rightarrow> (Inl e, r)
      | Inr stale \<Rightarrow> fail_stale_trials_loop r stale now [])"

section \<open>The backend behind the caching wrapper\<close>

text \<open>
  \<^verbatim>\<open>_TrialUpdate\<close> of \<^verbatim>\<open>_cached_storage.py\<close>: the pending, not yet flushed field updates of
  one trial. Buffered parameter values are in internal representation.
\<close>

record ('a, 'd) TrialUpdate =
  upd_state :: "TrialState option"
  upd_values :: "pyfloat list option"
  upd_intermediate_values :: "int \<rightharpoonup> pyfloat"
  upd_user_attrs :: "string \<rightharpoonup> 'a"
  upd_system_attrs :: "string \<rightharpoonup> 'a"
  upd_params :: "string \<rightharpoonup> pyfloat"
  upd_distributions :: "string \<rightharpoonup> 'd"
  upd_datetime_complete :: "real option"
  upd_datetime_start :: "real option"

definition new_TrialUpdate :: "('a, 'd) TrialUpdate" where
  "new_TrialUpdate =
     \<lparr>upd_state = None, upd_values = None, upd_intermediate_values = Map.empty,
      upd_user_attrs = Map.empty, upd_system_attrs = Map.empty, upd_params = Map.empty,
      upd_distributions = Map.empty, upd_datetime_complete = None,
      upd_datetime_start = None\<rparr>"

text \<open>
  Modelled from the spec: the wrapper is written against \<^verbatim>\<open>RDBStorage\<close>, which is not among
  the sources, and calls four private methods of it. The backend of the model is the
  reference in-memory backend (section 1) with these four methods added as section 4.1
  describes them. \<^verbatim>\<open>_update_trial\<close> is the "merged update call accepting any subset of
  state, values, intermediate values, params+distributions, user attrs, system attrs,
  start time, completion time to be applied as one unit": \<open>merge_update\<close> overwrites
  exactly the fields the update carries. As every mutation it fails on a finished trial
  (section 4.2), it returns false on a claim of a trial that is not WAITING, and a finish
  runs the best-trial tracker (section 4.2).
\<close>

definition merge_update ::
  "('d, 'p) distributions_module \<Rightarrow> ('a, 'd) TrialUpdate \<Rightarrow> ('a, 'd, 'p) FrozenTrial
     \<Rightarrow> ('a, 'd, 'p) FrozenTrial" where
  "merge_update D u t =
     t\<lparr>state := (case upd_state u of None \<Rightarrow> state t | Some st \<Rightarrow> st),
       trial_values := (case upd_values u of None \<Rightarrow> trial_values t | Some vs \<Rightarrow> Some vs),
       intermediate_values := intermediate_values t ++ upd_intermediate_values u,
       params := (\<lambda>n. case (upd_params u n, upd_distributions u n) of
                         (Some v, Some d) \<Rightarrow> Some (to_external_repr D d v)
                       | _ \<Rightarrow> params t n),
       distributions := distributions t ++ upd_distributions u,
       user_attrs := user_attrs t ++ upd_user_attrs u,
       system_attrs := system_attrs t ++ upd_system_attrs u,
       datetime_start := (case upd_datetime_start u of None \<Rightarrow> datetime_start t
                          | Some x \<Rightarrow> Some x),
       datetime_complete := (case upd_datetime_complete u of None \<Rightarrow> datetime_complete t
                             | Some x \<Rightarrow> Some x)\<rparr>"

definition update_trial_backend ::
  "('d, 'p) distributions_module \<Rightarrow> ('a, 'd, 'p) InMemoryStorage \<Rightarrow> int
     \<Rightarrow> ('a, 'd) TrialUpdate \<Rightarrow> (error + bool) \<times> ('a, 'd, 'p) InMemoryStorage" where
  "update_trial_backend D b tid u =
     (case bind (get_trial_im b tid) (\<lambda>trial.
           bind (check_trial_is_updatable tid (state trial)) (\<lambda>_. Inr trial)) of
        Inl e \<Rightarrow> (Inl e, b)
      | Inr trial \<Rightarrow>
          if upd_state u = Some RUNNING \<and> state trial \<noteq> WAITING then (Inr False, b)
          else
            (case set_trial_im b tid (merge_update D u trial) of
               Inl e \<Rightarrow> (Inl e, b)
             | Inr b1 \<Rightarrow>
                 if upd_state u \<noteq> None \<and> is_finished (the (upd_state u)) then
                   (case dict_get (trial_id_to_study_id_and_number b1) tid of
                      Inl e \<Rightarrow> (Inl e, b1)
                    | Inr (study_id, _) \<Rightarrow>
                        (case update_cache_im b1 tid study_id of
                           Inl e \<Rightarrow> (Inl e, b1)
                         | Inr b2 \<Rightarrow> (Inr True, b2)))
                 else (Inr True, b1)))"

text \<open>
  Modelled from the spec: \<^verbatim>\<open>_check_and_set_param_distribution\<close> of \<^verbatim>\<open>RDBStorage\<close> is the
  atomic register-and-check of sections 4.1 and 4.5: "if unseen, register and succeed; if
  seen and compatible, succeed as a no-op; if seen and incompatible, fail"; it
  "immediately commits the parameter value too" (section 4.3).
\<close>

definition check_and_set_param_distribution_backend ::
  "('d, 'p) distributions_module \<Rightarrow> ('a, 'd, 'p) InMemoryStorage \<Rightarrow> int \<Rightarrow> int \<Rightarrow> string
     \<Rightarrow> pyfloat \<Rightarrow> 'd \<Rightarrow> error + ('a, 'd, 'p) InMemoryStorage" where
  "check_and_set_param_distribution_backend D b study_id tid param_name
       param_value_internal distribution =
     bind (get_trial_im b tid) (\<lambda>trial.
     bind (check_trial_is_updatable tid (state trial)) (\<lambda>_.
     bind (dict_get (studies b) study_id) (\<lambda>study.
     bind (case param_distribution study param_name of
             None \<Rightarrow> Inr ((param_distribution study)(param_name \<mapsto> distribution))
           | Some old \<Rightarrow>
               if check_distribution_compatibility D old distribution
               then Inr (param_distribution study)
               else Inl ValueError) (\<lambda>registry.
     set_trial_im
       (b\<lparr>studies := (studies b)(study_id \<mapsto> study\<lparr>param_distribution := registry\<rparr>)\<rparr>)
       tid
       (trial\<lparr>params := (params trial)
                 (param_name \<mapsto> to_external_repr D distribution param_value_internal),
              distributions := (distributions trial)(param_name \<mapsto> distribution)\<rparr>)))))"

text \<open>
  Modelled from the spec: \<^verbatim>\<open>_create_new_trial\<close> of \<^verbatim>\<open>RDBStorage\<close> creates the trial
  (section 4.1, "create trial (optionally cloned from a template)") and returns its
  record; \<^verbatim>\<open>_get_trials\<close> fetches all trials of a study, "optionally filtered by state,
  optionally excluding a given id set".
\<close>

definition create_new_trial_backend ::
  "('a, 'd, 'p) InMemoryStorage \<Rightarrow> int \<Rightarrow> ('a, 'd, 'p) FrozenTrial option \<Rightarrow> real
     \<Rightarrow> (error + ('a, 'd, 'p) FrozenTrial) \<times> ('a, 'd, 'p) InMemoryStorage" where
  "create_new_trial_backend b study_id template_trial now =
     (case create_new_trial_im b study_id template_trial now of
        (Inl e, b') \<Rightarrow> (Inl e, b')
      | (Inr tid, b') \<Rightarrow> (get_trial_im b' tid, b'))"

definition get_trials_backend ::
  "('a, 'd, 'p) InMemoryStorage \<Rightarrow> int \<Rightarrow> TrialState list option \<Rightarrow> int set
     \<Rightarrow> error + ('a, 'd, 'p) FrozenTrial list" where
  "get_trials_backend b study_id states excluded_trial_ids =
     bind (check_study_id b study_id) (\<lambda>_.
     bind (dict_get (studies b) study_id) (\<lambda>study.
     Inr (filter (\<lambda>t. trial_id t \<notin> excluded_trial_ids \<and>
                       (states = None \<or> state t \<in> set (the states)))
            (trials study))))"

section \<open>The caching wrapper\<close>

text \<open>
  \<^verbatim>\<open>_StudyInfo\<close> and \<^verbatim>\<open>_CachedStorage\<close> of \<^verbatim>\<open>_cached_storage.py\<close>. The wrapped backend is a
  field of the wrapper, as \<^verbatim>\<open>self._backend\<close> is. The lock is not modelled: every method
  runs to its end before the next one starts.
\<close>

record ('a, 'd, 'p) CachedStudyInfo =
  cached_trials :: "int \<rightharpoonup> ('a, 'd, 'p) FrozenTrial"
  owned_or_finished_trial_ids :: "int set"
  updates :: "int \<rightharpoonup> ('a, 'd) TrialUpdate"
  cached_param_distribution :: "string \<rightharpoonup> 'd"
  cached_directions :: "StudyDirection list"
  cached_name :: "string option"

record ('a, 'd, 'p) CachedStorage =
  backend :: "('a, 'd, 'p) InMemoryStorage"
  cached_studies :: "int \<rightharpoonup> ('a, 'd, 'p) CachedStudyInfo"
  cached_trial_id_to_study_id_and_number :: "int \<rightharpoonup> int \<times> int"

definition new_CachedStudyInfo :: "('a, 'd, 'p) CachedStudyInfo" where
  "new_CachedStudyInfo =
     \<lparr>cached_trials = Map.empty, owned_or_finished_trial_ids = {}, updates = Map.empty,
      cached_param_distribution = Map.empty, cached_directions = [NOT_SET],
      cached_name = None\<rparr>"

definition new_CachedStorage :: "('a, 'd, 'p) InMemoryStorage \<Rightarrow> ('a, 'd, 'p) CachedStorage" where
  "new_CachedStorage b =
     \<lparr>backend = b, cached_studies = Map.empty,
      cached_trial_id_to_study_id_and_number = Map.empty\<rparr>"

definition check_trial_is_updatable_cached :: "('a, 'd, 'p) FrozenTrial \<Rightarrow> error + unit" where
  "check_trial_is_updatable_cached trial =
     (if is_finished (state trial) then Inl RuntimeError else Inr ())"

fun add_trials_loop ::
  "int \<Rightarrow> ('a, 'd, 'p) FrozenTrial list \<Rightarrow> ('a, 'd, 'p) CachedStorage
     \<Rightarrow> error + ('a, 'd, 'p) CachedStorage" where
  "add_trials_loop study_id [] w = Inr w"
| "add_trials_loop study_id (trial # rest) w =
     bind (dict_get (cached_studies w) study_id) (\<lambda>study.
     add_trials_loop study_id rest
       (w\<lparr>cached_trial_id_to_study_id_and_number :=
            (cached_trial_id_to_study_id_and_number w)
              (trial_id trial \<mapsto> (study_id, number trial)),
          cached_studies := (cached_studies w)(study_id \<mapsto>
            study\<lparr>cached_trials := (cached_trials study)(number trial \<mapsto> trial)\<rparr>)\<rparr>))"

definition add_trials_to_cache ::
  "('a, 'd, 'p) CachedStorage \<Rightarrow> int \<Rightarrow> ('a, 'd, 'p) FrozenTrial list
     \<Rightarrow> error + ('a, 'd, 'p) CachedStorage" where
  "add_trials_to_cache w study_id ts =
     bind (dict_get (cached_studies w) study_id) (\<lambda>_. add_trials_loop study_id ts w)"

definition get_cached_trial ::
  "('a, 'd, 'p) CachedStorage \<Rightarrow> int \<Rightarrow> error + ('a, 'd, 'p) FrozenTrial option" where
  "get_cached_trial w tid =
     (case cached_trial_id_to_study_id_and_number w tid of
        None \<Rightarrow> Inr None
      | Some (study_id, num) \<Rightarrow>
          bind (dict_get (cached_studies w) study_id) (\<lambda>study.
          if tid \<in> owned_or_finished_trial_ids study
          then bind (dict_get (cached_trials study) num) (\<lambda>t. Inr (Some t))
          else Inr None))"

text \<open>
  \<^verbatim>\<open>_get_updates\<close> returns the pending update of the trial and creates an empty one when
  there is none. The source then assigns to fields of the returned object and of the
  cached trial; \<open>store_updates\<close> and \<open>store_cached_trial\<close> write the changed objects back
  to where the source holds them.
\<close>

definition get_updates ::
  "('a, 'd, 'p) CachedStorage \<Rightarrow> int
     \<Rightarrow> error + ('a, 'd) TrialUpdate \<times> ('a, 'd, 'p) CachedStorage" where
  "get_updates w tid =
     bind (dict_get (cached_trial_id_to_study_id_and_number w) tid) (\<lambda>(study_id, num).
     bind (dict_get (cached_studies w) study_id) (\<lambda>study.
     case updates study num of
       Some u \<Rightarrow> Inr (u, w)
     | None \<Rightarrow>
         Inr (new_TrialUpdate,
              w\<lparr>cached_studies := (cached_studies w)(study_id \<mapsto>
                   study\<lparr>updates := (updates study)(num \<mapsto> new_TrialUpdate)\<rparr>)\<rparr>)))"

definition store_updates ::
  "('a, 'd, 'p) CachedStorage \<Rightarrow> int \<Rightarrow> ('a, 'd) TrialUpdate
     \<Rightarrow> error + ('a, 'd, 'p) CachedStorage" where
  "store_updates w tid u =
     bind (dict_get (cached_trial_id_to_study_id_and_number w) tid) (\<lambda>(study_id, num).
     bind (dict_get (cached_studies w) study_id) (\<lambda>study.
     Inr (w\<lparr>cached_studies := (cached_studies w)(study_id \<mapsto>
              study\<lparr>updates := (updates study)(num \<mapsto> u)\<rparr>)\<rparr>)))"

definition store_cached_trial ::
  "('a, 'd, 'p) CachedStorage \<Rightarrow> int \<Rightarrow> ('a, 'd, 'p) FrozenTrial
     \<Rightarrow> error + ('a, 'd, 'p) CachedStorage" where
  "store_cached_trial w tid t =
     bind (dict_get (cached_trial_id_to_study_id_and_number w) tid) (\<lambda>(study_id, num).
     bind (dict_get (cached_studies w) study_id) (\<lambda>study.
     Inr (w\<lparr>cached_studies := (cached_studies w)(study_id \<mapsto>
              study\<lparr>cached_trials := (cached_trials study)(num \<mapsto> t)\<rparr>)\<rparr>)))"

text \<open>
  \<^verbatim>\<open>_flush_trial\<close>: the pending update is deleted before the backend is called, so it is
  gone also when the backend raises.
\<close>

definition flush_trial ::
  "('d, 'p) distributions_module \<Rightarrow> ('a, 'd, 'p) CachedStorage \<Rightarrow> int
     \<Rightarrow> (error + bool) \<times> ('a, 'd, 'p) CachedStorage" where
  "flush_trial D w tid =
     (case cached_trial_id_to_study_id_and_number w tid of
        None \<Rightarrow> (Inr True, w)
      | Some (study_id, num) \<Rightarrow>
          (case dict_get (cached_studies w) study_id of
             Inl e \<Rightarrow> (Inl e, w)
           | Inr study \<Rightarrow>
               (case updates study num of
                  None \<Rightarrow> (Inr True, w)
                | Some u \<Rightarrow>
                    let w1 = w\<lparr>cached_studies := (cached_studies w)(study_id \<mapsto>
                                 study\<lparr>updates := (updates study)(num := None)\<rparr>)\<rparr>
                    in (case update_trial_backend D (backend w1) tid u of
                          (res, b') \<Rightarrow> (res, w1\<lparr>backend := b'\<rparr>)))))"

text \<open>
  The assignments every cached write makes after its checks: the changed trial object
  goes to the cache and the changed pending update to the buffer.
\<close>

definition apply_and_buffer ::
  "('a, 'd, 'p) CachedStorage \<Rightarrow> int \<Rightarrow> ('a, 'd, 'p) FrozenTrial
     \<Rightarrow> (('a, 'd) TrialUpdate \<Rightarrow> ('a, 'd) TrialUpdate) \<Rightarrow> error + ('a, 'd, 'p) CachedStorage" where
  "apply_and_buffer w tid cached_trial' change =
     bind (get_updates w tid) (\<lambda>(u, w1).
     bind (store_cached_trial w1 tid cached_trial') (\<lambda>w2.
     store_updates w2 tid (change u)))"

definition add_owned ::
  "('a, 'd, 'p) CachedStorage \<Rightarrow> int \<Rightarrow> int \<Rightarrow> error + ('a, 'd, 'p) CachedStorage" where
  "add_owned w study_id tid =
     bind (dict_get (cached_studies w) study_id) (\<lambda>study.
     Inr (w\<lparr>cached_studies := (cached_studies w)(study_id \<mapsto>
              study\<lparr>owned_or_finished_trial_ids :=
                      insert tid (owned_or_finished_trial_ids study)\<rparr>)\<rparr>))"

definition ensure_study :: "('a, 'd, 'p) CachedStorage \<Rightarrow> int \<Rightarrow> ('a, 'd, 'p) CachedStorage" where
  "ensure_study w study_id =
     (if study_id \<notin> dom (cached_studies w)
      then w\<lparr>cached_studies := (cached_studies w)(study_id \<mapsto> new_CachedStudyInfo)\<rparr>
      else w)"

definition create_new_study_c ::
  "('a, 'd, 'p) CachedStorage \<Rightarrow> string option \<Rightarrow> string
     \<Rightarrow> (error + int) \<times> ('a, 'd, 'p) CachedStorage" where
  "create_new_study_c w study_name generated_name =
     (case create_new_study_im (backend w) study_name generated_name of
        (Inl e, b') \<Rightarrow> (Inl e, w\<lparr>backend := b'\<rparr>)
      | (Inr study_id, b') \<Rightarrow>
          (Inr study_id,
           w\<lparr>backend := b',
             cached_studies := (cached_studies w)(study_id \<mapsto>
               new_CachedStudyInfo\<lparr>cached_name := study_name\<rparr>)\<rparr>))"

definition create_new_trial_c ::
  "('a, 'd, 'p) CachedStorage \<Rightarrow> int \<Rightarrow> ('a, 'd, 'p) FrozenTrial option \<Rightarrow> real
     \<Rightarrow> (error + int) \<times> ('a, 'd, 'p) CachedStorage" where
  "create_new_trial_c w study_id template_trial now =
     (case create_new_trial_backend (backend w) study_id template_trial now of
        (Inl e, b') \<Rightarrow> (Inl e, w\<lparr>backend := b'\<rparr>)
      | (Inr frozen_trial, b') \<Rightarrow>
          let w1 = ensure_study (w\<lparr>backend := b'\<rparr>) study_id
          in (case add_trials_to_cache w1 study_id [frozen_trial] of
                Inl e \<Rightarrow> (Inl e, w1)
              | Inr w2 \<Rightarrow>
                  if state frozen_trial \<noteq> WAITING then
                    (case add_owned w2 study_id (trial_id frozen_trial) of
                       Inl e \<Rightarrow> (Inl e, w2)
                     | Inr w3 \<Rightarrow> (Inr (trial_id frozen_trial), w3))
                  else (Inr (trial_id frozen_trial), w2)))"

text \<open>
  \<^verbatim>\<open>_CachedStorage.set_trial_state\<close>; \<open>now\<close> is \<^verbatim>\<open>datetime.now()\<close> during the call, read
  by the wrapper on the cached branch and by the backend on the other one.
\<close>

definition set_trial_state_c ::
  "('d, 'p) distributions_module \<Rightarrow> ('a, 'd, 'p) CachedStorage \<Rightarrow> int \<Rightarrow> TrialState \<Rightarrow> real
     \<Rightarrow> (error + bool) \<times> ('a, 'd, 'p) CachedStorage" where
  "set_trial_state_c D w tid st now =
     (case get_cached_trial w tid of
        Inl e \<Rightarrow> (Inl e, w)
      | Inr (Some cached_trial) \<Rightarrow>
          if state cached_trial = WAITING then (Inl AssertionError, w)
          else
          (case check_trial_is_updatable_cached cached_trial of
             Inl e \<Rightarrow> (Inl e, w)
           | Inr _ \<Rightarrow>
               (case apply_and_buffer w tid
                       (if is_finished st
                        then cached_trial\<lparr>state := st, datetime_complete := Some now\<rparr>
                        else cached_trial\<lparr>state := st\<rparr>)
                       (\<lambda>u. if is_finished st
                            then u\<lparr>upd_state := Some st, upd_datetime_complete := Some now\<rparr>
                            else u\<lparr>upd_state := Some st\<rparr>) of
                  Inl e \<Rightarrow> (Inl e, w)
                | Inr w1 \<Rightarrow> flush_trial D w1 tid))
      | Inr None \<Rightarrow>
          (case set_trial_state_im (backend w) tid st now of
             (Inl e, b') \<Rightarrow> (Inl e, w\<lparr>backend := b'\<rparr>)
           | (Inr ret, b') \<Rightarrow>
               let w1 = w\<lparr>backend := b'\<rparr>
               in if ret \<and> st = RUNNING \<and> tid \<in> dom (cached_trial_id_to_study_id_and_number w1)
                  then
                    (case bind (dict_get (cached_trial_id_to_study_id_and_number w1) tid)
                            (\<lambda>(study_id, _).
                          bind (get_trial_im (backend w1) tid) (\<lambda>t.
                          bind (add_trials_to_cache w1 study_id [t]) (\<lambda>w2.
                          add_owned w2 study_id tid))) of
                       Inl e \<Rightarrow> (Inl e, w1)
                     | Inr w3 \<Rightarrow> (Inr ret, w3))
                  else (Inr ret, w1)))"

definition set_trial_param_c ::
  "('d, 'p) distributions_module \<Rightarrow> ('a, 'd, 'p) CachedStorage \<Rightarrow> int \<Rightarrow> string \<Rightarrow> pyfloat
     \<Rightarrow> 'd \<Rightarrow> (error + unit) \<times> ('a, 'd, 'p) CachedStorage" where
  "set_trial_param_c D w tid param_name param_value_internal distribution =
     (case get_cached_trial w tid of
        Inl e \<Rightarrow> (Inl e, w)
      | Inr (Some cached_trial) \<Rightarrow>
          (case bind (check_trial_is_updatable_cached cached_trial) (\<lambda>_.
                bind (dict_get (cached_trial_id_to_study_id_and_number w) tid)
                  (\<lambda>(study_id, _).
                bind (dict_get (cached_studies w) study_id) (\<lambda>study.
                Inr (study_id, study)))) of
             Inl e \<Rightarrow> (Inl e, w)
           | Inr (study_id, study) \<Rightarrow>
               let cached_trial' =
                     cached_trial\<lparr>params := (params cached_trial)(param_name \<mapsto>
                         to_external_repr D distribution param_value_internal),
                       distributions := (distributions cached_trial)
                         (param_name \<mapsto> distribution)\<rparr>
               in
               (case cached_param_distribution study param_name of
                  Some cached_dist \<Rightarrow>
                    if \<not> check_distribution_compatibility D cached_dist distribution
                    then (Inl ValueError, w)
                    else
                      (case apply_and_buffer w tid cached_trial'
                              (\<lambda>u. u\<lparr>upd_params := (upd_params u)
                                        (param_name \<mapsto> param_value_internal),
                                     upd_distributions := (upd_distributions u)
                                        (param_name \<mapsto> distribution)\<rparr>) of
                         Inl e \<Rightarrow> (Inl e, w)
                       | Inr w1 \<Rightarrow>
                           (case flush_trial D w1 tid of
                              (Inl e, w2) \<Rightarrow> (Inl e, w2)
                            | (Inr _, w2) \<Rightarrow> (Inr (), w2)))
                | None \<Rightarrow>
                    (case check_and_set_param_distribution_backend D (backend w) study_id tid
                            param_name param_value_internal distribution of
                       Inl e \<Rightarrow> (Inl e, w)
                     | Inr b' \<Rightarrow>
                         (case store_cached_trial
                                 (w\<lparr>backend := b',
                                    cached_studies := (cached_studies w)(study_id \<mapsto>
                                      study\<lparr>cached_param_distribution :=
                                        (cached_param_distribution study)
                                          (param_name \<mapsto> distribution)\<rparr>)\<rparr>)
                                 tid cached_trial' of
                            Inl e \<Rightarrow> (Inl e, w\<lparr>backend := b'\<rparr>)
                          | Inr w1 \<Rightarrow> (Inr (), w1)))))
      | Inr None \<Rightarrow>
          (case set_trial_param_im D (backend w) tid param_name param_value_internal
                  distribution of
             Inl e \<Rightarrow> (Inl e, w)
           | Inr b' \<Rightarrow> (Inr (), w\<lparr>backend := b'\<rparr>)))"

definition set_trial_values_c ::
  "('d, 'p) distributions_module \<Rightarrow> ('a, 'd, 'p) CachedStorage \<Rightarrow> int \<Rightarrow> pyfloat list
     \<Rightarrow> (error + unit) \<times> ('a, 'd, 'p) CachedStorage" where
  "set_trial_values_c D w tid vs =
     (case get_cached_trial w tid of
        Inl e \<Rightarrow> (Inl e, w)
      | Inr (Some cached_trial) \<Rightarrow>
          (case bind (check_trial_is_updatable_cached cached_trial) (\<lambda>_.
                apply_and_buffer w tid (cached_trial\<lparr>trial_values := Some vs\<rparr>)
                  (\<lambda>u. u\<lparr>upd_values := Some vs\<rparr>)) of
             Inl e \<Rightarrow> (Inl e, w)
           | Inr w1 \<Rightarrow> (Inr (), w1))
      | Inr None \<Rightarrow>
          (case update_trial_backend D (backend w) tid
                  (new_TrialUpdate\<lparr>upd_values := Some vs\<rparr>) of
             (Inl e, b') \<Rightarrow> (Inl e, w\<lparr>backend := b'\<rparr>)
           | (Inr _, b') \<Rightarrow> (Inr (), w\<lparr>backend := b'\<rparr>)))"

definition set_trial_intermediate_value_c ::
  "('d, 'p) distributions_module \<Rightarrow> ('a, 'd, 'p) CachedStorage \<Rightarrow> int \<Rightarrow> int \<Rightarrow> pyfloat
     \<Rightarrow> (error + unit) \<times> ('a, 'd, 'p) CachedStorage" where
  "set_trial_intermediate_value_c D w tid step intermediate_value =
     (case get_cached_trial w tid of
        Inl e \<Rightarrow> (Inl e, w)
      | Inr (Some cached_trial) \<Rightarrow>
          (case bind (check_trial_is_updatable_cached cached_trial) (\<lambda>_.
                apply_and_buffer w tid
                  (cached_trial\<lparr>intermediate_values :=
                     (intermediate_values cached_trial)(step \<mapsto> intermediate_value)\<rparr>)
                  (\<lambda>u. u\<lparr>upd_intermediate_values :=
                     (upd_intermediate_values u)(step \<mapsto> intermediate_value)\<rparr>)) of
             Inl e \<Rightarrow> (Inl e, w)
           | Inr w1 \<Rightarrow>
               (case flush_trial D w1 tid of
                  (Inl e, w2) \<Rightarrow> (Inl e, w2)
                | (Inr _, w2) \<Rightarrow> (Inr (), w2)))
      | Inr None \<Rightarrow>
          (case set_trial_intermediate_value_im (backend w) tid step intermediate_value of
             Inl e \<Rightarrow> (Inl e, w)
           | Inr b' \<Rightarrow> (Inr (), w\<lparr>backend := b'\<rparr>)))"

definition set_trial_user_attr_c ::
  "('d, 'p) distributions_module \<Rightarrow> ('a, 'd, 'p) CachedStorage \<Rightarrow> int \<Rightarrow> string \<Rightarrow> 'a
     \<Rightarrow> (error + unit) \<times> ('a, 'd, 'p) CachedStorage" where
  "set_trial_user_attr_c D w tid k v =
     (case get_cached_trial w tid of
        Inl e \<Rightarrow> (Inl e, w)
      | Inr (Some cached_trial) \<Rightarrow>
          (case bind (check_trial_is_updatable_cached cached_trial) (\<lambda>_.
                apply_and_buffer w tid
                  (cached_trial\<lparr>user_attrs := (user_attrs cached_trial)(k \<mapsto> v)\<rparr>)
                  (\<lambda>u. u\<lparr>upd_user_attrs := (upd_user_attrs u)(k \<mapsto> v)\<rparr>)) of
             Inl e \<Rightarrow> (Inl e, w)
           | Inr w1 \<Rightarrow>
               (case flush_trial D w1 tid of
                  (Inl e, w2) \<Rightarrow> (Inl e, w2)
                | (Inr _, w2) \<Rightarrow> (Inr (), w2)))
      | Inr None \<Rightarrow>
          (case update_trial_backend D (backend w) tid
                  (new_TrialUpdate\<lparr>upd_user_attrs := [k \<mapsto> v]\<rparr>) of
             (Inl e, b') \<Rightarrow> (Inl e, w\<lparr>backend := b'\<rparr>)
           | (Inr _, b') \<Rightarrow> (Inr (), w\<lparr>backend := b'\<rparr>)))"

definition set_trial_system_attr_c ::
  "('d, 'p) distributions_module \<Rightarrow> ('a, 'd, 'p) CachedStorage \<Rightarrow> int \<Rightarrow> string \<Rightarrow> 'a
     \<Rightarrow> (error + unit) \<times> ('a, 'd, 'p) CachedStorage" where
  "set_trial_system_attr_c D w tid k v =
     (case get_cached_trial w tid of
        Inl e \<Rightarrow> (Inl e, w)
      | Inr (Some cached_trial) \<Rightarrow>
          (case bind (check_trial_is_updatable_cached cached_trial) (\<lambda>_.
                apply_and_buffer w tid
                  (cached_trial\<lparr>system_attrs := (system_attrs cached_trial)(k \<mapsto> v)\<rparr>)
                  (\<lambda>u. u\<lparr>upd_system_attrs := (upd_system_attrs u)(k \<mapsto> v)\<rparr>)) of
             Inl e \<Rightarrow> (Inl e, w)
           | Inr w1 \<Rightarrow>
               (case flush_trial D w1 tid of
                  (Inl e, w2) \<Rightarrow> (Inl e, w2)
                | (Inr _, w2) \<Rightarrow> (Inr (), w2)))
      | Inr None \<Rightarrow>
          (case update_trial_backend D (backend w) tid
                  (new_TrialUpdate\<lparr>upd_system_attrs := [k \<mapsto> v]\<rparr>) of
             (Inl e, b') \<Rightarrow> (Inl e, w\<lparr>backend := b'\<rparr>)
           | (Inr _, b') \<Rightarrow> (Inr (), w\<lparr>backend := b'\<rparr>)))"

definition get_trial_c ::
  "('a, 'd, 'p) CachedStorage \<Rightarrow> int \<Rightarrow> error + ('a, 'd, 'p) FrozenTrial" where
  "get_trial_c w tid =
     bind (get_cached_trial w tid) (\<lambda>trial.
     case trial of Some t \<Rightarrow> Inr t | None \<Rightarrow> get_trial_im (backend w) tid)"

fun add_finished_loop ::
  "int \<Rightarrow> ('a, 'd, 'p) FrozenTrial list \<Rightarrow> ('a, 'd, 'p) CachedStorage
     \<Rightarrow> error + ('a, 'd, 'p) CachedStorage" where
  "add_finished_loop study_id [] w = Inr w"
| "add_finished_loop study_id (trial # rest) w =
     (if is_finished (state trial)
      then bind (add_owned w study_id (trial_id trial)) (add_finished_loop study_id rest)
      else add_finished_loop study_id rest w)"

definition read_trials_from_remote_storage_c ::
  "('a, 'd, 'p) CachedStorage \<Rightarrow> int \<Rightarrow> (error + unit) \<times> ('a, 'd, 'p) CachedStorage" where
  "read_trials_from_remote_storage_c w study_id =
     (let w1 = ensure_study w study_id
      in case bind (dict_get (cached_studies w1) study_id) (\<lambda>study.
              get_trials_backend (backend w1) study_id None
                (owned_or_finished_trial_ids study)) of
           Inl e \<Rightarrow> (Inl e, w1)
         | Inr ts \<Rightarrow>
             if ts = [] then (Inr (), w1)
             else
               (case bind (add_trials_to_cache w1 study_id ts)
                       (add_finished_loop study_id ts) of
                  Inl e \<Rightarrow> (Inl e, w1)
                | Inr w2 \<Rightarrow> (Inr (), w2)))"

text \<open>The wrapper's field writes return nothing: they drop the result of the flush and keep its exception.\<close>

definition unit_result :: "error + 'x \<Rightarrow> error + unit" where
  "unit_result res = (case res of Inl e \<Rightarrow> Inl e | Inr _ \<Rightarrow> Inr ())"


section \<open>Sequences of completions\<close>

text \<open>
  The comparison of \<^verbatim>\<open>_update_cache\<close>: under MAXIMIZE a new value replaces the best one
  when the best one is less than it, under any other direction when it is less than the
  best one.
\<close>

definition better :: "bool \<Rightarrow> pyfloat \<Rightarrow> pyfloat \<Rightarrow> bool" where
  "better is_max new best = (if is_max then float_lt best new else float_lt new best)"

text \<open>
  A trial enters COMPLETE in one of two ways, and both run \<^verbatim>\<open>_update_cache\<close>:
  \<^verbatim>\<open>set_trial_state(trial_id, COMPLETE)\<close> at time \<open>now\<close>, and \<^verbatim>\<open>create_new_trial\<close> with a
  template trial that is COMPLETE. \<open>complete\<close> makes the call and returns the id of the
  trial that is now COMPLETE; \<open>complete_all\<close> makes the calls of a sequence in turn, stops
  at the first exception, and returns the ids in the order of completion.
\<close>

datatype ('a, 'd, 'p) completion =
    Finish int real
  | Seed "('a, 'd, 'p) FrozenTrial" real

fun complete_r ::
  "('a, 'd, 'p) RedisStorage \<Rightarrow> int \<Rightarrow> ('a, 'd, 'p) completion
     \<Rightarrow> (error + int) \<times> ('a, 'd, 'p) RedisStorage" where
  "complete_r r study_id (Finish tid now) =
     (case set_trial_state_r r tid COMPLETE now of
        (Inl e, r') \<Rightarrow> (Inl e, r')
      | (Inr _, r') \<Rightarrow> (Inr tid, r'))"
| "complete_r r study_id (Seed template_trial now) =
     create_new_trial_r r study_id (Some template_trial) now"

fun complete_all_r ::
  "('a, 'd, 'p) RedisStorage \<Rightarrow> int \<Rightarrow> ('a, 'd, 'p) completion list
     \<Rightarrow> (error + int list) \<times> ('a, 'd, 'p) RedisStorage" where
  "complete_all_r r study_id [] = (Inr [], r)"
| "complete_all_r r study_id (c # cs) =
     (case complete_r r study_id c of
        (Inl e, r') \<Rightarrow> (Inl e, r')
      | (Inr tid, r') \<Rightarrow>
          (case complete_all_r r' study_id cs of
             (Inl e, r'') \<Rightarrow> (Inl e, r'')
           | (Inr tids, r'') \<Rightarrow> (Inr (tid # tids), r'')))"

fun complete_im ::
  "('a, 'd, 'p) InMemoryStorage \<Rightarrow> int \<Rightarrow> ('a, 'd, 'p) completion
     \<Rightarrow> (error + int) \<times> ('a, 'd, 'p) InMemoryStorage" where
  "complete_im s study_id (Finish tid now) =
     (case set_trial_state_im s tid COMPLETE now of
        (Inl e, s') \<Rightarrow> (Inl e, s')
      | (Inr _, s') \<Rightarrow> (Inr tid, s'))"
| "complete_im s study_id (Seed template_trial now) =
     create_new_trial_im s study_id (Some template_trial) now"

fun complete_all_im ::
  "('a, 'd, 'p) InMemoryStorage \<Rightarrow> int \<Rightarrow> ('a, 'd, 'p) completion list
     \<Rightarrow> (error + int list) \<times> ('a, 'd, 'p) InMemoryStorage" where
  "complete_all_im s study_id [] = (Inr [], s)"
| "complete_all_im s study_id (c # cs) =
     (case complete_im s study_id c of
        (Inl e, s') \<Rightarrow> (Inl e, s')
      | (Inr tid, s') \<Rightarrow>
          (case complete_all_im s' study_id cs of
             (Inl e, s'') \<Rightarrow> (Inl e, s'')
           | (Inr tids, s'') \<Rightarrow> (Inr (tid # tids), s'')))"

text \<open>
  The trials with the given ids, as \<^verbatim>\<open>get_trial\<close> of the in-memory storage returns them
  one after the other. For Redis this is \<open>get_all_trials_loop\<close>.
\<close>

fun get_trials_im ::
  "('a, 'd, 'p) InMemoryStorage \<Rightarrow> int list \<Rightarrow> error + ('a, 'd, 'p) FrozenTrial list" where
  "get_trials_im s [] = Inr []"
| "get_trials_im s (tid # tids) =
     bind (get_trial_im s tid) (\<lambda>t. bind (get_trials_im s tids) (\<lambda>ts. Inr (t # ts)))"

text \<open>
  When a completion can be made. \<^verbatim>\<open>set_trial_state(trial_id, COMPLETE)\<close> needs a trial of
  the study that is stored under its own id, is not finished and holds exactly one
  value. A COMPLETE template holds exactly one value, and the id that the storage is
  about to give to the new trial is not the id of a stored trial. A sequence is
  admissible when every completion of it can be made when its turn comes.
\<close>

definition study_trial_list_r :: "('a, 'd, 'p) RedisStorage \<Rightarrow> int \<Rightarrow> int list" where
  "study_trial_list_r r sid = (case key_study_trial_list r sid of None \<Rightarrow> [] | Some l \<Rightarrow> l)"

definition next_trial_id_r :: "('a, 'd, 'p) RedisStorage \<Rightarrow> int" where
  "next_trial_id_r r = incr (if key_trial_counter r = None then Some (-1) else key_trial_counter r)"

definition ready_to_complete_r :: "('a, 'd, 'p) RedisStorage \<Rightarrow> int \<Rightarrow> int \<Rightarrow> bool" where
  "ready_to_complete_r r sid tid =
     (tid \<in> set (study_trial_list_r r sid) \<and>
      (case key_trial r tid of
         None \<Rightarrow> False
       | Some t \<Rightarrow> \<not> is_finished (state t) \<and> trial_id t = tid \<and>
                   map_option length (trial_values t) = Some 1 \<and>
                   key_trial_study_id r tid = Some sid))"

fun completion_ok_r ::
  "('a, 'd, 'p) RedisStorage \<Rightarrow> int \<Rightarrow> ('a, 'd, 'p) completion \<Rightarrow> bool" where
  "completion_ok_r r sid (Finish tid now) = ready_to_complete_r r sid tid"
| "completion_ok_r r sid (Seed template_trial now) =
     (state template_trial = COMPLETE \<and>
      map_option length (trial_values template_trial) = Some 1 \<and>
      key_trial r (next_trial_id_r r) = None)"

fun admissible_r ::
  "('a, 'd, 'p) RedisStorage \<Rightarrow> int \<Rightarrow> ('a, 'd, 'p) completion list \<Rightarrow> bool" where
  "admissible_r r sid [] = True"
| "admissible_r r sid (c # cs) =
     (completion_ok_r r sid c \<and> admissible_r (snd (complete_r r sid c)) sid cs)"

definition ready_to_complete_im :: "('a, 'd, 'p) InMemoryStorage \<Rightarrow> int \<Rightarrow> int \<Rightarrow> bool" where
  "ready_to_complete_im s sid tid =
     (case trial_id_to_study_id_and_number s tid of
        None \<Rightarrow> False
      | Some (sid', n) \<Rightarrow>
          sid' = sid \<and>
          (case studies s sid of
             None \<Rightarrow> False
           | Some st \<Rightarrow>
               0 \<le> n \<and> n < int (length (trials st)) \<and>
               \<not> is_finished (state (trials st ! nat n)) \<and>
               trial_id (trials st ! nat n) = tid \<and>
               map_option length (trial_values (trials st ! nat n)) = Some 1))"

fun completion_ok_im ::
  "('a, 'd, 'p) InMemoryStorage \<Rightarrow> int \<Rightarrow> ('a, 'd, 'p) completion \<Rightarrow> bool" where
  "completion_ok_im s sid (Finish tid now) = ready_to_complete_im s sid tid"
| "completion_ok_im s sid (Seed template_trial now) =
     (state template_trial = COMPLETE \<and>
      map_option length (trial_values template_trial) = Some 1 \<and>
      trial_id_to_study_id_and_number s (max_trial_id s + 1) = None)"

fun admissible_im ::
  "('a, 'd, 'p) InMemoryStorage \<Rightarrow> int \<Rightarrow> ('a, 'd, 'p) completion list \<Rightarrow> bool" where
  "admissible_im s sid [] = True"
| "admissible_im s sid (c # cs) =
     (completion_ok_im s sid c \<and> admissible_im (snd (complete_im s sid c)) sid cs)"

text \<open>
  A study has no completed trial when it has the one direction \<open>d\<close>, no best-trial
  pointer, and no COMPLETE trial among its trials.
\<close>

definition no_completed_trial_r :: "('a, 'd, 'p) RedisStorage \<Rightarrow> int \<Rightarrow> StudyDirection \<Rightarrow> bool" where
  "no_completed_trial_r r sid d =
     (get_study_directions_r r sid = Inr [d] \<and> sid \<in> dom (key_study_summary r) \<and>
      sid \<in> dom (key_study_id_study_name r) \<and> key_best_trial r sid = None \<and>
      (\<forall>tid\<in>set (study_trial_list_r r sid).
         case key_trial r tid of None \<Rightarrow> False | Some t \<Rightarrow> state t \<noteq> COMPLETE))"

definition no_completed_trial_im :: "('a, 'd, 'p) InMemoryStorage \<Rightarrow> int \<Rightarrow> StudyDirection \<Rightarrow> bool" where
  "no_completed_trial_im s sid d =
     (case studies s sid of
        None \<Rightarrow> False
      | Some st \<Rightarrow> directions st = [d] \<and> best_trial_id st = None \<and>
                   (\<forall>t\<in>set (trials st). state t \<noteq> COMPLETE))"

text \<open>
  What holds of a study after the completions \<open>H\<close>, listed in their order: the COMPLETE
  trials of the study are the trials of \<open>H\<close>, each of them holds one value and is stored
  under its id, and the best-trial pointer names the trial that Python's \<^verbatim>\<open>max\<close> or \<^verbatim>\<open>min\<close>
  returns on \<open>H\<close>.
\<close>

definition tracked_r ::
  "('a, 'd, 'p) RedisStorage \<Rightarrow> int \<Rightarrow> StudyDirection \<Rightarrow> ('a, 'd, 'p) FrozenTrial list \<Rightarrow> bool" where
  "tracked_r r sid d H =
     (get_study_directions_r r sid = Inr [d] \<and> key_study_summary r sid \<noteq> None \<and>
      key_study_id_study_name r sid \<noteq> None \<and>
      (\<forall>tid\<in>set (study_trial_list_r r sid). key_trial r tid \<noteq> None) \<and>
      (\<forall>t. t \<in> set H \<longleftrightarrow>
           (\<exists>tid\<in>set (study_trial_list_r r sid). key_trial r tid = Some t \<and> state t = COMPLETE)) \<and>
      (\<forall>t\<in>set H. \<exists>v. trial_values t = Some [v]) \<and>
      (\<forall>t\<in>set H. key_trial r (trial_id t) = Some t) \<and>
      (if H = [] then key_best_trial r sid = None
       else \<exists>m. py_extremum (d = MAXIMIZE) H = Inr m \<and>
                key_best_trial r sid = Some (trial_id m)))"

definition tracked_im ::
  "('a, 'd, 'p) InMemoryStorage \<Rightarrow> int \<Rightarrow> StudyDirection \<Rightarrow> ('a, 'd, 'p) FrozenTrial list
     \<Rightarrow> bool" where
  "tracked_im s sid d H =
     (\<exists>st. studies s sid = Some st \<and> directions st = [d] \<and>
        (\<forall>t. t \<in> set H \<longleftrightarrow> t \<in> set (trials st) \<and> state t = COMPLETE) \<and>
        (\<forall>t\<in>set H. \<exists>v. trial_values t = Some [v]) \<and>
        (\<forall>t\<in>set H. \<exists>n<length (trials st).
            trial_id_to_study_id_and_number s (trial_id t) = Some (sid, int n) \<and>
            trials st ! n = t) \<and>
        (if H = [] then best_trial_id st = None
         else \<exists>m. py_extremum (d = MAXIMIZE) H = Inr m \<and>
                  best_trial_id st = Some (trial_id m)))"

section \<open>Runs of field writes\<close>

text \<open>
  A field write is one call of \<^verbatim>\<open>set_trial_values\<close>, \<^verbatim>\<open>set_trial_intermediate_value\<close>,
  \<^verbatim>\<open>set_trial_param\<close>, \<^verbatim>\<open>set_trial_user_attr\<close> or \<^verbatim>\<open>set_trial_system_attr\<close> with its
  arguments. \<open>write_cached\<close> makes the call on the caching wrapper, \<open>write_direct\<close> on the
  in-memory storage with no wrapper around it.
\<close>

datatype ('a, 'd) field_write =
    WriteValues "pyfloat list"
  | WriteIntermediateValue int pyfloat
  | WriteParam string pyfloat 'd
  | WriteUserAttr string 'a
  | WriteSystemAttr string 'a

fun write_cached ::
  "('d, 'p) distributions_module \<Rightarrow> ('a, 'd, 'p) CachedStorage \<Rightarrow> int \<Rightarrow> ('a, 'd) field_write
     \<Rightarrow> (error + unit) \<times> ('a, 'd, 'p) CachedStorage" where
  "write_cached D w tid (WriteValues vs) = set_trial_values_c D w tid vs"
| "write_cached D w tid (WriteIntermediateValue step x) =
     set_trial_intermediate_value_c D w tid step x"
| "write_cached D w tid (WriteParam n v d) = set_trial_param_c D w tid n v d"
| "write_cached D w tid (WriteUserAttr k a) = set_trial_user_attr_c D w tid k a"
| "write_cached D w tid (WriteSystemAttr k a) = set_trial_system_attr_c D w tid k a"

fun write_direct ::
  "('d, 'p) distributions_module \<Rightarrow> ('a, 'd, 'p) InMemoryStorage \<Rightarrow> int \<Rightarrow> ('a, 'd) field_write
     \<Rightarrow> error + ('a, 'd, 'p) InMemoryStorage" where
  "write_direct D b tid (WriteValues vs) = set_trial_values_im b tid vs"
| "write_direct D b tid (WriteIntermediateValue step x) =
     set_trial_intermediate_value_im b tid step x"
| "write_direct D b tid (WriteParam n v d) = set_trial_param_im D b tid n v d"
| "write_direct D b tid (WriteUserAttr k a) = set_trial_user_attr_im b tid k a"
| "write_direct D b tid (WriteSystemAttr k a) = set_trial_system_attr_im b tid k a"

text \<open>
  A run is a sequence of field writes of one trial followed by \<^verbatim>\<open>set_trial_state\<close>, as a
  caller makes them one after the other: the first call that raises ends the run with
  its exception.
\<close>

fun run_cached ::
  "('d, 'p) distributions_module \<Rightarrow> ('a, 'd, 'p) CachedStorage \<Rightarrow> int
     \<Rightarrow> ('a, 'd) field_write list \<Rightarrow> TrialState \<Rightarrow> real
     \<Rightarrow> (error + bool) \<times> ('a, 'd, 'p) CachedStorage" where
  "run_cached D w tid [] st now = set_trial_state_c D w tid st now"
| "run_cached D w tid (x # xs) st now =
     (case write_cached D w tid x of
        (Inl e, w') \<Rightarrow> (Inl e, w')
      | (Inr _, w') \<Rightarrow> run_cached D w' tid xs st now)"

fun run_direct ::
  "('d, 'p) distributions_module \<Rightarrow> ('a, 'd, 'p) InMemoryStorage \<Rightarrow> int
     \<Rightarrow> ('a, 'd) field_write list \<Rightarrow> TrialState \<Rightarrow> real
     \<Rightarrow> (error + bool) \<times> ('a, 'd, 'p) InMemoryStorage" where
  "run_direct D b tid [] st now = set_trial_state_im b tid st now"
| "run_direct D b tid (x # xs) st now =
     (case write_direct D b tid x of
        Inl e \<Rightarrow> (Inl e, b)
      | Inr b' \<Rightarrow> run_direct D b' tid xs st now)"

text \<open>
  What one field write assigns to the record of the trial in \<^verbatim>\<open>InMemoryStorage\<close>.
\<close>

fun written ::
  "('d, 'p) distributions_module \<Rightarrow> ('a, 'd) field_write \<Rightarrow> ('a, 'd, 'p) FrozenTrial
     \<Rightarrow> ('a, 'd, 'p) FrozenTrial" where
  "written D (WriteValues vs) t = t\<lparr>trial_values := Some vs\<rparr>"
| "written D (WriteIntermediateValue step x) t =
     t\<lparr>intermediate_values := (intermediate_values t)(step \<mapsto> x)\<rparr>"
| "written D (WriteParam n v d) t =
     t\<lparr>params := (params t)(n \<mapsto> to_external_repr D d v),
       distributions := (distributions t)(n \<mapsto> d)\<rparr>"
| "written D (WriteUserAttr k a) t = t\<lparr>user_attrs := (user_attrs t)(k \<mapsto> a)\<rparr>"
| "written D (WriteSystemAttr k a) t = t\<lparr>system_attrs := (system_attrs t)(k \<mapsto> a)\<rparr>"

text \<open>
  \<open>with_registries \<rho> b\<close> is the storage \<open>b\<close> with \<open>\<rho> study_id\<close> as the distribution registry
  of every study. \<^verbatim>\<open>InMemoryStorage.set_trial_param\<close> overwrites the registry entry of the
  parameter with the new distribution, the register-and-check called by the wrapper
  keeps the entry that is there, and a parameter write that the wrapper answers from its
  own cache of distributions does not reach the registry at all. \<open>registries_agree\<close>
  relates the three registries of a study that come up when a run through the wrapper is
  compared with a direct one: the registry \<open>rd\<close> of the direct run, the registry \<open>rw\<close> of
  the wrapper's backend and the wrapper's cache \<open>rc\<close> know the same parameter names with
  compatible distributions, the cache possibly fewer names.
\<close>

definition with_registries ::
  "(int \<Rightarrow> (string \<rightharpoonup> 'd)) \<Rightarrow> ('a, 'd, 'p) InMemoryStorage \<Rightarrow> ('a, 'd, 'p) InMemoryStorage" where
  "with_registries \<rho> b =
     b\<lparr>studies := (\<lambda>sid. map_option (\<lambda>st. st\<lparr>param_distribution := \<rho> sid\<rparr>) (studies b sid))\<rparr>"

definition registries_agree ::
  "('d \<Rightarrow> 'd \<Rightarrow> bool) \<Rightarrow> (string \<rightharpoonup> 'd) \<Rightarrow> (string \<rightharpoonup> 'd) \<Rightarrow> (string \<rightharpoonup> 'd) \<Rightarrow> bool" where
  "registries_agree C rd rw rc =
     (\<forall>n. (rd n = None \<longleftrightarrow> rw n = None) \<and>
          (\<forall>a b. rd n = Some a \<longrightarrow> rw n = Some b \<longrightarrow> C a b) \<and>
          (\<forall>c. rc n = Some c \<longrightarrow> (\<exists>b. rw n = Some b \<and> C b c)))"

text \<open>
  The relation that holds between the wrapper \<open>w\<close> and the storage \<open>bd\<close> of the direct run
  after the same successful writes to the trial \<open>tid\<close> of study \<open>sid\<close>: the wrapper owns
  the trial as RUNNING, the pending update of the trial holds at most buffered values
  \<open>x\<close>, and \<open>bd\<close> is the wrapper's backend with the pending update applied to the trial,
  up to the registries.
\<close>

definition in_sync ::
  "('d, 'p) distributions_module \<Rightarrow> int \<Rightarrow> int \<Rightarrow> ('a, 'd, 'p) CachedStorage
     \<Rightarrow> ('a, 'd, 'p) InMemoryStorage \<Rightarrow> bool" where
  "in_sync D tid sid w bd =
     (\<exists>num study c x tw k bst \<rho> bw1.
        cached_trial_id_to_study_id_and_number w tid = Some (sid, num) \<and>
        cached_studies w sid = Some study \<and>
        tid \<in> owned_or_finished_trial_ids study \<and>
        cached_trials study num = Some c \<and> state c = RUNNING \<and>
        (case updates study num of None \<Rightarrow> x = None
         | Some u \<Rightarrow> u = new_TrialUpdate\<lparr>upd_values := x\<rparr>) \<and>
        get_trial_im (backend w) tid = Inr tw \<and> \<not> is_finished (state tw) \<and>
        trial_id_to_study_id_and_number (backend w) tid = Some (sid, k) \<and>
        studies (backend w) sid = Some bst \<and>
        set_trial_im (backend w) tid (merge_update D (new_TrialUpdate\<lparr>upd_values := x\<rparr>) tw)
          = Inr bw1 \<and>
        bd = with_registries \<rho> bw1 \<and>
        registries_agree (check_distribution_compatibility D) (\<rho> sid)
          (param_distribution bst) (cached_param_distribution study))"

section \<open>Example storages\<close>

text \<open>
  Storages reached from the empty ones of the constructors by the methods above, with
  strings as attribute values and as distributions and floats as parameter values. Two
  example distributions are compatible when they are equal.
\<close>

definition example_distributions :: "(string, pyfloat) distributions_module" where
  "example_distributions =
     \<lparr>check_distribution_compatibility = (\<lambda>old new. old = new),
      to_external_repr = (\<lambda>d v. v)\<rparr>"

definition waiting_template :: "(string, string, pyfloat) FrozenTrial" where
  "waiting_template = (create_running_trial 0)\<lparr>state := WAITING, datetime_start := None\<rparr>"

definition empty_InMemoryStorage :: "(string, string, pyfloat) InMemoryStorage" where
  "empty_InMemoryStorage =
     \<lparr>trial_id_to_study_id_and_number = Map.empty, study_name_to_id = Map.empty,
      studies = Map.empty, max_study_id = -1, max_trial_id = -1\<rparr>"

definition im_study :: "(string, string, pyfloat) InMemoryStorage" where
  "im_study = snd (create_new_study_im empty_InMemoryStorage (Some ''s'') [])"

definition im_waiting :: "(string, string, pyfloat) InMemoryStorage" where
  "im_waiting = snd (create_new_trial_im im_study 0 (Some waiting_template) 1)"

definition im_running :: "(string, string, pyfloat) InMemoryStorage" where
  "im_running = snd (create_new_trial_im im_study 0 None 1)"

definition empty_RedisStorage :: "int option \<Rightarrow> int option \<Rightarrow> (string, string, pyfloat) RedisStorage" where
  "empty_RedisStorage interval grace =
     \<lparr>heartbeat_interval = interval, grace_period = grace, key_study_name = Map.empty,
      key_study_id_study_name = Map.empty, key_study_direction = Map.empty,
      key_study_summary = Map.empty, key_study_list = [], key_study_counter = None,
      key_study_trial_number = Map.empty, key_trial_counter = None, key_trial = Map.empty,
      key_trial_study_id = Map.empty, key_study_trial_list = Map.empty,
      key_best_trial = Map.empty, key_study_param_distribution = Map.empty,
      key_study_heartbeats = Map.empty\<rparr>"

definition redis_study :: "(string, string, pyfloat) RedisStorage" where
  "redis_study = snd (create_new_study_r (empty_RedisStorage (Some 5) None) (Some ''s'') [])"

definition redis_waiting :: "(string, string, pyfloat) RedisStorage" where
  "redis_waiting = snd (create_new_trial_r redis_study 0 (Some waiting_template) 1)"

definition redis_running :: "(string, string, pyfloat) RedisStorage" where
  "redis_running = snd (create_new_trial_r redis_study 0 None 1)"


definition redis_complete :: "(string, string, pyfloat) RedisStorage" where
  "redis_complete = snd (set_trial_state_r redis_running 0 COMPLETE 2)"

definition cached_study :: "(string, string, pyfloat) CachedStorage" where
  "cached_study = snd (create_new_study_c (new_CachedStorage empty_InMemoryStorage) (Some ''s'') [])"

definition cached_running :: "(string, string, pyfloat) CachedStorage" where
  "cached_running = snd (create_new_trial_c cached_study 0 None 1)"


text \<open>The trial that \<^verbatim>\<open>create_new_trial\<close> stores at time 1 as trial 0 of study 0.\<close>

definition running_trial :: "(string, string, pyfloat) FrozenTrial" where
  "running_trial = (create_running_trial 1)\<lparr>number := 0, trial_id := 0\<rparr>"

definition study_info :: "(string, string, pyfloat) FrozenTrial list \<Rightarrow> int option \<Rightarrow> (string, string, pyfloat) StudyInfo" where
  "study_info ts best = \<lparr>trials = ts, param_distribution = Map.empty,
                        study_user_attrs = Map.empty, study_system_attrs = Map.empty,
                        name = ''s'', directions = [NOT_SET], best_trial_id = best\<rparr>"



definition redis_lingering :: "(string, string, pyfloat) RedisStorage" where
  "redis_lingering = projr (record_heartbeat_r redis_complete 0 50)"

definition cached_running_study :: "(string, string, pyfloat) CachedStudyInfo" where
  "cached_running_study =
     new_CachedStudyInfo\<lparr>cached_name := Some ''s'', cached_trials := [0 \<mapsto> running_trial],
       owned_or_finished_trial_ids := {0}\<rparr>"

definition cached_waiting :: "(string, string, pyfloat) CachedStorage" where
  "cached_waiting = snd (set_trial_state_c example_distributions cached_running 0 WAITING 2)"


text \<open>
  Two RUNNING trials of a MAXIMIZE study, trial 0 with the value \<open>v0\<close> and trial 1 with the
  value \<open>v1\<close>.
\<close>

definition redis_two :: "pyfloat \<Rightarrow> pyfloat \<Rightarrow> (string, string, pyfloat) RedisStorage" where
  "redis_two v0 v1 =
     projr (set_trial_values_r
       (projr (set_trial_values_r
          (snd (create_new_trial_r
             (snd (create_new_trial_r
                (projr (set_study_directions_r redis_study 0 (PyList [MAXIMIZE]))) 0 None 1))
             0 None 1))
          0 [v0]))
       1 [v1])"

definition im_two :: "pyfloat \<Rightarrow> pyfloat \<Rightarrow> (string, string, pyfloat) InMemoryStorage" where
  "im_two v0 v1 =
     projr (set_trial_values_im
       (projr (set_trial_values_im
          (snd (create_new_trial_im
             (snd (create_new_trial_im
                (projr (set_study_directions_im im_study 0 (PyList [MAXIMIZE]))) 0 None 1))
             0 None 1))
          0 [v0]))
       1 [v1])"

text \<open>Trial 1 completes before trial 0, both at time 2.\<close>

definition later_first :: "(string, string, pyfloat) completion list" where
  "later_first = [Finish 1 2, Finish 0 2]"

text \<open>Both trials hold the value 5.\<close>

definition redis_tie_completed :: "(string, string, pyfloat) RedisStorage" where
  "redis_tie_completed = snd (complete_all_r (redis_two (Finite 5) (Finite 5)) 0 later_first)"

definition im_tie_completed :: "(string, string, pyfloat) InMemoryStorage" where
  "im_tie_completed = snd (complete_all_im (im_two (Finite 5) (Finite 5)) 0 later_first)"

text \<open>Trial 0 holds the value 1 and trial 1 holds NaN.\<close>

definition redis_nan_completed :: "(string, string, pyfloat) RedisStorage" where
  "redis_nan_completed = snd (complete_all_r (redis_two (Finite 1) NaN) 0 later_first)"

definition im_nan_completed :: "(string, string, pyfloat) InMemoryStorage" where
  "im_nan_completed = snd (complete_all_im (im_two (Finite 1) NaN) 0 later_first)"

text \<open>
  Trial 1 completes at time 2, then a COMPLETE trial with the value 6 is created from a
  template at time 3, then trial 0 completes at time 4.
\<close>

definition complete_template :: "(string, string, pyfloat) FrozenTrial" where
  "complete_template =
     (create_running_trial 3)\<lparr>state := COMPLETE, trial_values := Some [Finite 6],
                              datetime_complete := Some 3\<rparr>"

definition with_seed :: "(string, string, pyfloat) completion list" where
  "with_seed = [Finish 1 2, Seed complete_template 3, Finish 0 4]"

section \<open>Basic facts\<close>

lemma bind_simps [simp]: "bind (Inl e) f = Inl e" "bind (Inr x) f = f x"
  by (simp_all add: bind_def)

lemma bind_eq_Inr: "bind m f = Inr y \<longleftrightarrow> (\<exists>x. m = Inr x \<and> f x = Inr y)"
  by (cases m) simp_all

lemma list_get_set:
  "list_get xs i = Inr x \<Longrightarrow>
     \<exists>ys. list_set xs i v = Inr ys \<and> list_get ys i = Inr v \<and> length ys = length xs"
  by (auto simp: list_get_def list_set_def py_index_def split: if_splits)

lemma get_trial_im_Inr:
  "get_trial_im s tid = Inr t \<longleftrightarrow>
     (\<exists>sid n st. trial_id_to_study_id_and_number s tid = Some (sid, n) \<and>
        studies s sid = Some st \<and> list_get (trials st) n = Inr t)"
  by (auto simp: get_trial_im_def check_trial_id_def dict_get_def bind_eq_Inr
           split: option.splits if_splits)

lemma set_trial_im_get:
  assumes "get_trial_im s tid = Inr t"
  shows "\<exists>s'. set_trial_im s tid t' = Inr s' \<and> get_trial_im s' tid = Inr t'"
proof -
  from assms obtain sid n st where
    m: "trial_id_to_study_id_and_number s tid = Some (sid, n)" and
    st: "studies s sid = Some st" and g: "list_get (trials st) n = Inr t"
    by (auto simp: get_trial_im_Inr)
  from list_get_set [OF g, of t'] obtain ys where
    ys: "list_set (trials st) n t' = Inr ys" "list_get ys n = Inr t'" by blast
  show ?thesis
    using m st ys by (simp add: set_trial_im_def dict_get_def get_trial_im_Inr)
qed

lemma get_trial_r_Inr: "get_trial_r r tid = Inr t \<longleftrightarrow> key_trial r tid = Some t"
  by (auto simp: get_trial_r_def check_trial_id_r_def split: option.splits)

lemmas im_defs = create_new_study_im_def create_new_trial_im_def check_study_id_def dict_get_def
  update_cache_im_def get_trial_im_def check_trial_id_def list_get_def list_set_def py_index_def
  set_trial_im_def create_running_trial_def get_study_directions_im_def
  set_best_trial_id_im_def value_def set_trial_state_im_def check_trial_is_updatable_def
  is_finished_def

lemmas r_defs = create_new_study_r_def create_new_trial_r_def check_study_id_r_def dict_get_def
  update_cache_r_def get_trial_r_def check_trial_id_r_def list_get_def py_index_def
  create_running_trial_def get_study_directions_r_def get_study_summary_r_def
  get_study_trials_r_def get_all_trials_r_def set_best_trial_r_def value_def
  set_trial_state_r_def check_trial_is_updatable_def is_finished_def incr_def
  get_study_id_from_trial_id_r_def min_datetime_start_def List.map_filter_def
  hdel_def hset_def hgetall_def

lemma im_study_eq:
  "im_study =
     \<lparr>trial_id_to_study_id_and_number = Map.empty, study_name_to_id = [''s'' \<mapsto> 0],
      studies = [0 \<mapsto> \<lparr>trials = [], param_distribution = Map.empty,
                        study_user_attrs = Map.empty, study_system_attrs = Map.empty,
                        name = ''s'', directions = [NOT_SET], best_trial_id = None\<rparr>],
      max_study_id = 0, max_trial_id = -1\<rparr>"
  by (simp add: im_study_def empty_InMemoryStorage_def im_defs Let_def)

lemma im_waiting_get:
  "get_trial_im im_waiting 0 = Inr (waiting_template\<lparr>number := 0, trial_id := 0\<rparr>)"
  by (simp add: im_waiting_def im_study_eq waiting_template_def im_defs Let_def)

lemma im_running_get:
  "get_trial_im im_running 0 = Inr ((create_running_trial 1)\<lparr>number := 0, trial_id := 0\<rparr>)"
  by (simp add: im_running_def im_study_eq im_defs Let_def)

lemma redis_study_eq:
  "redis_study =
     (empty_RedisStorage (Some 5) None)
       \<lparr>key_study_counter := Some 0, key_study_trial_number := [0 \<mapsto> -1],
        key_study_name := [''s'' \<mapsto> 0], key_study_id_study_name := [0 \<mapsto> ''s''],
        key_study_direction := [0 \<mapsto> PyList [NOT_SET]], key_study_list := [0],
        key_study_summary := [0 \<mapsto>
          \<lparr>summary_study_name = ''s'', summary_directions = [NOT_SET],
           summary_best_trial = None, summary_user_attrs = Map.empty,
           summary_system_attrs = Map.empty, summary_n_trials = 0,
           summary_datetime_start = None, summary_study_id = 0\<rparr>]\<rparr>"
  by (simp add: redis_study_def empty_RedisStorage_def r_defs Let_def)

lemma redis_waiting_get:
  "get_trial_r redis_waiting 0 = Inr (waiting_template\<lparr>number := 0, trial_id := 0\<rparr>)"
  by (simp add: redis_waiting_def redis_study_eq empty_RedisStorage_def waiting_template_def
        r_defs Let_def)

lemma redis_running_get:
  "get_trial_r redis_running 0 = Inr ((create_running_trial 1)\<lparr>number := 0, trial_id := 0\<rparr>)"
  by (simp add: redis_running_def redis_study_eq empty_RedisStorage_def r_defs Let_def)

lemma im_running_eq:
  "im_running =
     \<lparr>trial_id_to_study_id_and_number = [0 \<mapsto> (0, 0)], study_name_to_id = [''s'' \<mapsto> 0],
      studies = [0 \<mapsto> study_info [running_trial] None],
      max_study_id = 0, max_trial_id = 0\<rparr>"
  by (simp add: im_running_def im_study_eq im_defs Let_def running_trial_def study_info_def)




lemmas c_defs = create_new_study_c_def create_new_trial_c_def create_new_trial_backend_def
  new_CachedStorage_def new_CachedStudyInfo_def ensure_study_def add_trials_to_cache_def
  add_owned_def get_cached_trial_def get_updates_def store_updates_def store_cached_trial_def
  flush_trial_def apply_and_buffer_def update_trial_backend_def merge_update_def
  new_TrialUpdate_def check_trial_is_updatable_cached_def set_trial_state_c_def get_trial_c_def

lemma cached_study_eq:
  "cached_study = \<lparr>backend = im_study,
      cached_studies = [0 \<mapsto> new_CachedStudyInfo\<lparr>cached_name := Some ''s''\<rparr>],
      cached_trial_id_to_study_id_and_number = Map.empty\<rparr>"
  by (simp add: cached_study_def c_defs im_study_def empty_InMemoryStorage_def im_defs Let_def)

lemma cached_running_eq:
  "cached_running = \<lparr>backend = im_running,
      cached_studies = [0 \<mapsto> new_CachedStudyInfo\<lparr>cached_name := Some ''s'',
         cached_trials := [0 \<mapsto> running_trial], owned_or_finished_trial_ids := {0}\<rparr>],
      cached_trial_id_to_study_id_and_number = [0 \<mapsto> (0, 0)]\<rparr>"
  by (simp add: cached_running_def cached_study_eq im_running_def im_study_eq im_defs c_defs
        Let_def running_trial_def study_info_def)



lemma redis_running_eq:
  "redis_running =
     redis_study
       \<lparr>key_trial_counter := Some 0, key_study_trial_number := [0 \<mapsto> 0],
        key_trial := [0 \<mapsto> running_trial], key_trial_study_id := [0 \<mapsto> 0],
        key_study_trial_list := [0 \<mapsto> [0]],
        key_study_summary := [0 \<mapsto>
          \<lparr>summary_study_name = ''s'', summary_directions = [NOT_SET],
           summary_best_trial = None, summary_user_attrs = Map.empty,
           summary_system_attrs = Map.empty, summary_n_trials = 1,
           summary_datetime_start = Some 1, summary_study_id = 0\<rparr>]\<rparr>"
  by (simp add: redis_running_def redis_study_eq empty_RedisStorage_def r_defs Let_def
        running_trial_def)


lemma redis_lingering_facts:
  "heartbeat_interval redis_lingering = Some 5"
  "grace_period redis_lingering = None"
  "key_study_heartbeats redis_lingering 0 = Some [(0, 50)]"
  "key_trial redis_lingering 0
     = Some (running_trial\<lparr>state := COMPLETE, datetime_complete := Some 2\<rparr>)"
  by (simp_all add: redis_lingering_def redis_complete_def redis_running_eq redis_study_eq
        empty_RedisStorage_def r_defs Let_def running_trial_def record_heartbeat_r_def)

lemma cached_running_facts:
  "cached_trial_id_to_study_id_and_number cached_running 0 = Some (0, 0)"
  "cached_studies cached_running 0 = Some cached_running_study"
  "0 \<in> owned_or_finished_trial_ids cached_running_study"
  "cached_trials cached_running_study 0 = Some running_trial"
  "\<not> is_finished (state running_trial)"
  "new_TrialUpdate = (case updates cached_running_study 0 of None \<Rightarrow> new_TrialUpdate | Some x \<Rightarrow> x)"
  "backend cached_running = im_running"
  by (simp_all add: cached_running_eq cached_running_study_def new_CachedStudyInfo_def
        running_trial_def create_running_trial_def is_finished_def)

section \<open>The trial state machine of the backends\<close>

lemma set_trial_state_im_running:
  assumes "get_trial_im s tid = Inr t" and "\<not> is_finished (state t)"
  shows "fst (set_trial_state_im s tid RUNNING now) = Inr (state t = WAITING)"
    and "state t = WAITING \<Longrightarrow>
           get_trial_im (snd (set_trial_state_im s tid RUNNING now)) tid
             = Inr (t\<lparr>state := RUNNING, datetime_start := Some now\<rparr>)"
    and "state t \<noteq> WAITING \<Longrightarrow> snd (set_trial_state_im s tid RUNNING now) = s"
proof -
  let ?t' = "t\<lparr>state := RUNNING, datetime_start := Some now\<rparr>"
  from set_trial_im_get [OF assms(1), of ?t'] obtain s' where
    s': "set_trial_im s tid ?t' = Inr s'" "get_trial_im s' tid = Inr ?t'" by blast
  show "fst (set_trial_state_im s tid RUNNING now) = Inr (state t = WAITING)"
    using assms s'
    by (simp add: set_trial_state_im_def check_trial_is_updatable_def is_finished_def)
  show "state t = WAITING \<Longrightarrow>
           get_trial_im (snd (set_trial_state_im s tid RUNNING now)) tid = Inr ?t'"
    using assms s'
    by (simp add: set_trial_state_im_def check_trial_is_updatable_def is_finished_def)
  show "state t \<noteq> WAITING \<Longrightarrow> snd (set_trial_state_im s tid RUNNING now) = s"
    using assms
    by (simp add: set_trial_state_im_def check_trial_is_updatable_def is_finished_def)
qed

lemma set_trial_state_r_running:
  assumes "get_trial_r r tid = Inr t" and "\<not> is_finished (state t)"
  shows "fst (set_trial_state_r r tid RUNNING now) = Inr (state t = WAITING)"
    and "state t = WAITING \<Longrightarrow>
           get_trial_r (snd (set_trial_state_r r tid RUNNING now)) tid
             = Inr (t\<lparr>state := RUNNING, datetime_start := Some now\<rparr>)"
    and "state t \<noteq> WAITING \<Longrightarrow> snd (set_trial_state_r r tid RUNNING now) = r"
proof -
  from assms(1) have k: "key_trial r tid = Some t" by (simp add: get_trial_r_Inr)
  have c: "check_trial_id_r r tid = Inr ()" using k by (simp add: check_trial_id_r_def domIff)
  have u: "check_trial_is_updatable tid (state t) = Inr ()"
    using assms(2) by (simp add: check_trial_is_updatable_def)
  show "fst (set_trial_state_r r tid RUNNING now) = Inr (state t = WAITING)"
    using assms(1) c u by (simp add: set_trial_state_r_def is_finished_def)
  show "state t = WAITING \<Longrightarrow>
           get_trial_r (snd (set_trial_state_r r tid RUNNING now)) tid
             = Inr (t\<lparr>state := RUNNING, datetime_start := Some now\<rparr>)"
    using assms(1) c u
    by (simp add: set_trial_state_r_def is_finished_def)
       (simp add: get_trial_r_def check_trial_id_r_def)
  show "state t \<noteq> WAITING \<Longrightarrow> snd (set_trial_state_r r tid RUNNING now) = r"
    using assms(1) c u by (simp add: set_trial_state_r_def is_finished_def)
qed

text \<open>
  C2. On either backend, for an existing trial that is not finished,
  \<^verbatim>\<open>set_trial_state(trial_id, RUNNING)\<close> returns true exactly when the trial is WAITING;
  then the stored trial is the old one with state RUNNING and the start timestamp set to
  the current time, and otherwise (the trial is RUNNING) the call returns false and the
  storage is as before.
\<close>

theorem claim_succeeds_exactly_from_WAITING:
  "(get_trial_im s tid = Inr t \<and> \<not> is_finished (state t) \<longrightarrow>
      fst (set_trial_state_im s tid RUNNING now) = Inr (state t = WAITING) \<and>
      (state t = WAITING \<longrightarrow>
         get_trial_im (snd (set_trial_state_im s tid RUNNING now)) tid
           = Inr (t\<lparr>state := RUNNING, datetime_start := Some now\<rparr>)) \<and>
      (state t \<noteq> WAITING \<longrightarrow> snd (set_trial_state_im s tid RUNNING now) = s)) \<and>
   (get_trial_r r rid = Inr u \<and> \<not> is_finished (state u) \<longrightarrow>
      fst (set_trial_state_r r rid RUNNING now) = Inr (state u = WAITING) \<and>
      (state u = WAITING \<longrightarrow>
         get_trial_r (snd (set_trial_state_r r rid RUNNING now)) rid
           = Inr (u\<lparr>state := RUNNING, datetime_start := Some now\<rparr>)) \<and>
      (state u \<noteq> WAITING \<longrightarrow> snd (set_trial_state_r r rid RUNNING now) = r))"
  using set_trial_state_im_running [of s tid t now] set_trial_state_r_running [of r rid u now]
  by blast

theorem claim_succeeds_exactly_from_WAITING_witness:
  "fst (set_trial_state_im im_waiting 0 RUNNING 5) = Inr True \<and>
   get_trial_im (snd (set_trial_state_im im_waiting 0 RUNNING 5)) 0
     = Inr (waiting_template\<lparr>number := 0, trial_id := 0, state := RUNNING,
                             datetime_start := Some 5\<rparr>) \<and>
   fst (set_trial_state_r redis_running 0 RUNNING 5) = Inr False \<and>
   snd (set_trial_state_r redis_running 0 RUNNING 5) = redis_running"
proof -
  have a: "\<not> is_finished (state (waiting_template\<lparr>number := 0, trial_id := 0\<rparr>))"
    by (simp add: waiting_template_def is_finished_def)
  have b: "\<not> is_finished (state ((create_running_trial 1)\<lparr>number := 0, trial_id := 0\<rparr>
             :: (string, string, pyfloat) FrozenTrial))"
    by (simp add: create_running_trial_def is_finished_def)
  show ?thesis
    using claim_succeeds_exactly_from_WAITING
      [of im_waiting 0 "waiting_template\<lparr>number := 0, trial_id := 0\<rparr>" 5
          redis_running 0 "(create_running_trial 1)\<lparr>number := 0, trial_id := 0\<rparr>"]
      im_waiting_get a redis_running_get b
    by (simp add: waiting_template_def create_running_trial_def)
qed

lemma set_trial_state_im_False:
  "set_trial_state_im s tid st now = (Inr False, s') \<Longrightarrow> s' = s"
  by (auto simp: set_trial_state_im_def Let_def split: sum.splits if_splits prod.splits)

lemma set_trial_state_r_False:
  "set_trial_state_r r tid st now = (Inr False, r') \<Longrightarrow> r' = r"
  by (auto simp: set_trial_state_r_def Let_def split: sum.splits if_splits prod.splits)

text \<open>
  C10. When \<^verbatim>\<open>set_trial_state\<close> of a backend returns false, the whole storage, and with it
  the stored trial record, is what it was before the call.
\<close>

theorem rejected_transition_changes_nothing:
  "(set_trial_state_im s tid st now = (Inr False, s') \<longrightarrow> s' = s) \<and>
   (set_trial_state_r r rid st now = (Inr False, r') \<longrightarrow> r' = r)"
  using set_trial_state_im_False set_trial_state_r_False by blast

theorem rejected_transition_changes_nothing_witness:
  "set_trial_state_im im_running 0 RUNNING 5 = (Inr False, im_running) \<and>
   set_trial_state_r redis_running 0 RUNNING 5 = (Inr False, redis_running)"
proof -
  have s: "state ((create_running_trial 1)\<lparr>number := 0, trial_id := 0\<rparr>
             :: (string, string, pyfloat) FrozenTrial) = RUNNING"
    by (simp add: create_running_trial_def)
  have n: "\<not> is_finished RUNNING" by (simp add: is_finished_def)
  have a: "fst (set_trial_state_im im_running 0 RUNNING 5) = Inr False"
    using set_trial_state_im_running(1) [OF im_running_get, of 5] s n by simp
  have b: "fst (set_trial_state_r redis_running 0 RUNNING 5) = Inr False"
    using set_trial_state_r_running(1) [OF redis_running_get, of 5] s n by simp
  have a': "set_trial_state_im im_running 0 RUNNING 5
             = (Inr False, snd (set_trial_state_im im_running 0 RUNNING 5))"
    using a by (metis prod.collapse)
  have b': "set_trial_state_r redis_running 0 RUNNING 5
             = (Inr False, snd (set_trial_state_r redis_running 0 RUNNING 5))"
    using b by (metis prod.collapse)
  from rejected_transition_changes_nothing
      [of im_running 0 RUNNING 5 "snd (set_trial_state_im im_running 0 RUNNING 5)"
          redis_running 0 "snd (set_trial_state_r redis_running 0 RUNNING 5)"] a' b'
  have "snd (set_trial_state_im im_running 0 RUNNING 5) = im_running"
       "snd (set_trial_state_r redis_running 0 RUNNING 5) = redis_running"
    by blast+
  with a' b' show ?thesis by simp
qed

section \<open>Finished trials are frozen\<close>







section \<open>Heartbeats and stale trials\<close>





text \<open>
  What \<^verbatim>\<open>set_trial_state\<close> does for heartbeats: a finish that is accepted removes the
  heartbeat of the trial from the hash of its study.
\<close>

lemma set_best_trial_r_frame:
  "set_best_trial_r r sid tid = Inr r' \<Longrightarrow>
     key_study_heartbeats r' = key_study_heartbeats r \<and>
     key_trial_study_id r' = key_trial_study_id r \<and> key_trial r' = key_trial r"
  by (auto simp: set_best_trial_r_def bind_eq_Inr)

lemma get_best_trial_r_frame:
  "get_best_trial_r r sid = Inr (t, r') \<Longrightarrow>
     key_study_heartbeats r' = key_study_heartbeats r \<and>
     key_trial_study_id r' = key_trial_study_id r \<and> key_trial r' = key_trial r"
  by (auto simp: get_best_trial_r_def bind_eq_Inr split: option.splits if_splits
           dest: set_best_trial_r_frame)

lemma update_cache_r_frame:
  "update_cache_r r tid = (res, r') \<Longrightarrow>
     key_study_heartbeats r' = key_study_heartbeats r \<and>
     key_trial_study_id r' = key_trial_study_id r \<and> key_trial r' = key_trial r"
  unfolding update_cache_r_def
  by (auto split: sum.splits if_splits prod.splits option.splits
           dest!: set_best_trial_r_frame get_best_trial_r_frame)

lemma finish_removes_heartbeat:
  assumes "is_finished st" and "set_trial_state_r r tid st now = (Inr True, r')"
      and "key_trial_study_id r tid = Some sid"
  shows "map_of (hgetall (key_study_heartbeats r') sid) tid = None"
proof -
  from assms(1) have ns: "st \<noteq> RUNNING" by (auto simp: is_finished_def)
  from assms(2) obtain trial r2 res where
    uc: "update_cache_r (r\<lparr>key_trial := (key_trial r)
           (tid \<mapsto> trial\<lparr>state := st, datetime_complete := Some now\<rparr>)\<rparr>) tid = (res, r2)" and
    r': "r' = r2\<lparr>key_study_heartbeats := hdel (key_study_heartbeats r2) sid tid\<rparr>"
    using assms(1,3) ns
    apply (simp add: set_trial_state_r_def Let_def split: sum.splits prod.splits)
    apply (frule update_cache_r_frame)
    apply (auto simp: get_study_id_from_trial_id_r_def dict_get_def)
    done
  show ?thesis
    by (simp add: r' hgetall_def hdel_def AList.delete_eq map_of_eq_None_iff image_iff
             split: option.splits)
qed

text \<open>
  C6. The claim says that \<^verbatim>\<open>fail_stale_trials\<close> does not raise on a stale heartbeat whose
  trial is already finished. On the Redis storage reached by creating a study and a trial,
  finishing the trial as COMPLETE and recording a heartbeat for it afterwards at time 50,
  \<^verbatim>\<open>fail_stale_trials\<close> at time 100 raises \<^verbatim>\<open>RuntimeError\<close>: \<^verbatim>\<open>set_trial_state\<close> raises on a
  finished trial instead of returning false, and the loop does not catch it.
\<close>

theorem fail_stale_trials_raises_on_finished_trial:
  "get_trial_r redis_lingering 0
     = Inr (running_trial\<lparr>state := COMPLETE, datetime_complete := Some 2\<rparr>) \<and>
   fail_stale_trials_r redis_lingering 0 100 3 = (Inl RuntimeError, redis_lingering)"
  by (simp add: fail_stale_trials_r_def get_stale_trial_ids_r_def hgetall_def
        redis_lingering_facts set_trial_state_r_def get_trial_r_def check_trial_id_r_def
        check_trial_is_updatable_def is_finished_def domIff)

text \<open>
  C8. The claim says that the heartbeat hash never holds a finished trial, also when a
  heartbeat call follows the finish. \<^verbatim>\<open>record_heartbeat\<close> does not look at the state of the
  trial: after finishing trial 0 as COMPLETE (accepted) and recording a heartbeat for it at
  time 50, the hash of the study holds trial 0, and the staleness scan at time 100
  returns it.
\<close>

theorem heartbeat_lingers_after_finish:
  "redis_lingering = projr (record_heartbeat_r (snd (set_trial_state_r redis_running 0 COMPLETE 2)) 0 50) \<and>
   fst (set_trial_state_r redis_running 0 COMPLETE 2) = Inr True \<and>
   map_option state (key_trial redis_lingering 0) = Some COMPLETE \<and>
   hgetall (key_study_heartbeats redis_lingering) 0 = [(0, 50)] \<and>
   get_stale_trial_ids_r redis_lingering 0 100 = Inr [0]"
  apply (intro conjI)
      apply (simp add: redis_lingering_def redis_complete_def)
     apply (simp add: redis_running_eq redis_study_eq empty_RedisStorage_def r_defs Let_def running_trial_def)
    apply (simp add: redis_lingering_facts)
   apply (simp add: hgetall_def redis_lingering_facts)
  apply (simp add: get_stale_trial_ids_r_def hgetall_def redis_lingering_facts)
  done

section \<open>The write path of the caching wrapper\<close>

lemma owned_cached:
  assumes "cached_trial_id_to_study_id_and_number w tid = Some (sid, num)"
      and "cached_studies w sid = Some study"
      and "tid \<in> owned_or_finished_trial_ids study"
      and "cached_trials study num = Some c"
  shows "get_cached_trial w tid = Inr (Some c)"
  using assms by (simp add: get_cached_trial_def dict_get_def)

lemma apply_and_buffer_eq:
  assumes "cached_trial_id_to_study_id_and_number w tid = Some (sid, num)"
      and "cached_studies w sid = Some study"
  shows "apply_and_buffer w tid c' f =
           Inr (w\<lparr>cached_studies := (cached_studies w)(sid \<mapsto>
                  study\<lparr>cached_trials := (cached_trials study)(num \<mapsto> c'),
                        updates := (updates study)(num \<mapsto>
                          f (case updates study num of None \<Rightarrow> new_TrialUpdate
                             | Some u \<Rightarrow> u))\<rparr>)\<rparr>)"
  using assms
  by (cases "updates study num")
     (simp_all add: apply_and_buffer_def get_updates_def store_cached_trial_def
        store_updates_def dict_get_def)

lemma flush_after_buffer:
  assumes "cached_trial_id_to_study_id_and_number w tid = Some (sid, num)"
      and "cached_studies w sid = Some study"
  shows "flush_trial D
           (w\<lparr>cached_studies := (cached_studies w)(sid \<mapsto>
                  study\<lparr>cached_trials := ct, updates := (updates study)(num \<mapsto> u)\<rparr>)\<rparr>) tid =
         (fst (update_trial_backend D (backend w) tid u),
          w\<lparr>backend := snd (update_trial_backend D (backend w) tid u),
            cached_studies := (cached_studies w)(sid \<mapsto>
                  study\<lparr>cached_trials := ct, updates := (updates study)(num := None)\<rparr>)\<rparr>)"
  using assms
  by (simp add: flush_trial_def dict_get_def Let_def split: prod.splits)

lemma buffered_writes:
  assumes m: "cached_trial_id_to_study_id_and_number w tid = Some (sid, num)"
      and s: "cached_studies w sid = Some study"
      and o: "tid \<in> owned_or_finished_trial_ids study"
      and c: "cached_trials study num = Some c"
      and n: "\<not> is_finished (state c)"
      and u: "u = (case updates study num of None \<Rightarrow> new_TrialUpdate | Some x \<Rightarrow> x)"
  shows "set_trial_values_c D w tid vs =
           (Inr (), w\<lparr>cached_studies := (cached_studies w)(sid \<mapsto>
              study\<lparr>cached_trials := (cached_trials study)(num \<mapsto> c\<lparr>trial_values := Some vs\<rparr>),
                    updates := (updates study)(num \<mapsto> u\<lparr>upd_values := Some vs\<rparr>)\<rparr>)\<rparr>)"
    and "set_trial_intermediate_value_c D w tid step x =
           (let u' = u\<lparr>upd_intermediate_values := (upd_intermediate_values u)(step \<mapsto> x)\<rparr>
            in (unit_result (fst (update_trial_backend D (backend w) tid u')),
                w\<lparr>backend := snd (update_trial_backend D (backend w) tid u'),
                  cached_studies := (cached_studies w)(sid \<mapsto>
                    study\<lparr>cached_trials := (cached_trials study)(num \<mapsto>
                             c\<lparr>intermediate_values := (intermediate_values c)(step \<mapsto> x)\<rparr>),
                          updates := (updates study)(num := None)\<rparr>)\<rparr>))"
    and "set_trial_user_attr_c D w tid k v =
           (let u' = u\<lparr>upd_user_attrs := (upd_user_attrs u)(k \<mapsto> v)\<rparr>
            in (unit_result (fst (update_trial_backend D (backend w) tid u')),
                w\<lparr>backend := snd (update_trial_backend D (backend w) tid u'),
                  cached_studies := (cached_studies w)(sid \<mapsto>
                    study\<lparr>cached_trials := (cached_trials study)(num \<mapsto>
                             c\<lparr>user_attrs := (user_attrs c)(k \<mapsto> v)\<rparr>),
                          updates := (updates study)(num := None)\<rparr>)\<rparr>))"
    and "set_trial_system_attr_c D w tid k v =
           (let u' = u\<lparr>upd_system_attrs := (upd_system_attrs u)(k \<mapsto> v)\<rparr>
            in (unit_result (fst (update_trial_backend D (backend w) tid u')),
                w\<lparr>backend := snd (update_trial_backend D (backend w) tid u'),
                  cached_studies := (cached_studies w)(sid \<mapsto>
                    study\<lparr>cached_trials := (cached_trials study)(num \<mapsto>
                             c\<lparr>system_attrs := (system_attrs c)(k \<mapsto> v)\<rparr>),
                          updates := (updates study)(num := None)\<rparr>)\<rparr>))"
proof -
  note g = owned_cached [OF m s o c]
  have k: "check_trial_is_updatable_cached c = Inr ()"
    using n by (simp add: check_trial_is_updatable_cached_def)
  note ab = apply_and_buffer_eq [OF m s]
  note fl = flush_after_buffer [OF m s]
  show "set_trial_values_c D w tid vs =
           (Inr (), w\<lparr>cached_studies := (cached_studies w)(sid \<mapsto>
              study\<lparr>cached_trials := (cached_trials study)(num \<mapsto> c\<lparr>trial_values := Some vs\<rparr>),
                    updates := (updates study)(num \<mapsto> u\<lparr>upd_values := Some vs\<rparr>)\<rparr>)\<rparr>)"
    by (simp add: set_trial_values_c_def g k ab u)
  show "set_trial_intermediate_value_c D w tid step x =
           (let u' = u\<lparr>upd_intermediate_values := (upd_intermediate_values u)(step \<mapsto> x)\<rparr>
            in (unit_result (fst (update_trial_backend D (backend w) tid u')),
                w\<lparr>backend := snd (update_trial_backend D (backend w) tid u'),
                  cached_studies := (cached_studies w)(sid \<mapsto>
                    study\<lparr>cached_trials := (cached_trials study)(num \<mapsto>
                             c\<lparr>intermediate_values := (intermediate_values c)(step \<mapsto> x)\<rparr>),
                          updates := (updates study)(num := None)\<rparr>)\<rparr>))"
    by (simp add: set_trial_intermediate_value_c_def g k ab fl u Let_def unit_result_def
          split: sum.splits)
  show "set_trial_user_attr_c D w tid k v =
           (let u' = u\<lparr>upd_user_attrs := (upd_user_attrs u)(k \<mapsto> v)\<rparr>
            in (unit_result (fst (update_trial_backend D (backend w) tid u')),
                w\<lparr>backend := snd (update_trial_backend D (backend w) tid u'),
                  cached_studies := (cached_studies w)(sid \<mapsto>
                    study\<lparr>cached_trials := (cached_trials study)(num \<mapsto>
                             c\<lparr>user_attrs := (user_attrs c)(k \<mapsto> v)\<rparr>),
                          updates := (updates study)(num := None)\<rparr>)\<rparr>))"
    by (simp add: set_trial_user_attr_c_def g k ab fl u Let_def unit_result_def
          split: sum.splits)
  show "set_trial_system_attr_c D w tid k v =
           (let u' = u\<lparr>upd_system_attrs := (upd_system_attrs u)(k \<mapsto> v)\<rparr>
            in (unit_result (fst (update_trial_backend D (backend w) tid u')),
                w\<lparr>backend := snd (update_trial_backend D (backend w) tid u'),
                  cached_studies := (cached_studies w)(sid \<mapsto>
                    study\<lparr>cached_trials := (cached_trials study)(num \<mapsto>
                             c\<lparr>system_attrs := (system_attrs c)(k \<mapsto> v)\<rparr>),
                          updates := (updates study)(num := None)\<rparr>)\<rparr>))"
    by (simp add: set_trial_system_attr_c_def g k ab fl u Let_def unit_result_def
          split: sum.splits)
qed

lemma param_writes:
  assumes m: "cached_trial_id_to_study_id_and_number w tid = Some (sid, num)"
      and s: "cached_studies w sid = Some study"
      and o: "tid \<in> owned_or_finished_trial_ids study"
      and c: "cached_trials study num = Some c"
      and n: "\<not> is_finished (state c)"
      and u: "u = (case updates study num of None \<Rightarrow> new_TrialUpdate | Some x \<Rightarrow> x)"
      and c': "c' = c\<lparr>params := (params c)(pname \<mapsto> to_external_repr D d v),
                      distributions := (distributions c)(pname \<mapsto> d)\<rparr>"
  shows "cached_param_distribution study pname = Some dc \<Longrightarrow>
         \<not> check_distribution_compatibility D dc d \<Longrightarrow>
           set_trial_param_c D w tid pname v d = (Inl ValueError, w)"
    and "cached_param_distribution study pname = Some dc \<Longrightarrow>
         check_distribution_compatibility D dc d \<Longrightarrow>
           set_trial_param_c D w tid pname v d =
           (let u' = u\<lparr>upd_params := (upd_params u)(pname \<mapsto> v),
                       upd_distributions := (upd_distributions u)(pname \<mapsto> d)\<rparr>
            in (unit_result (fst (update_trial_backend D (backend w) tid u')),
                w\<lparr>backend := snd (update_trial_backend D (backend w) tid u'),
                  cached_studies := (cached_studies w)(sid \<mapsto>
                    study\<lparr>cached_trials := (cached_trials study)(num \<mapsto> c'),
                          updates := (updates study)(num := None)\<rparr>)\<rparr>))"
    and "cached_param_distribution study pname = None \<Longrightarrow>
           set_trial_param_c D w tid pname v d =
           (case check_and_set_param_distribution_backend D (backend w) sid tid pname v d of
              Inl e \<Rightarrow> (Inl e, w)
            | Inr b' \<Rightarrow>
                (Inr (), w\<lparr>backend := b',
                   cached_studies := (cached_studies w)(sid \<mapsto>
                     study\<lparr>cached_param_distribution :=
                             (cached_param_distribution study)(pname \<mapsto> d),
                           cached_trials := (cached_trials study)(num \<mapsto> c')\<rparr>)\<rparr>))"
proof -
  note g = owned_cached [OF m s o c]
  have k: "check_trial_is_updatable_cached c = Inr ()"
    using n by (simp add: check_trial_is_updatable_cached_def)
  note ab = apply_and_buffer_eq [OF m s]
  note fl = flush_after_buffer [OF m s]
  show "cached_param_distribution study pname = Some dc \<Longrightarrow>
         \<not> check_distribution_compatibility D dc d \<Longrightarrow>
           set_trial_param_c D w tid pname v d = (Inl ValueError, w)"
    using m s by (simp add: set_trial_param_c_def g k dict_get_def)
  show "cached_param_distribution study pname = Some dc \<Longrightarrow>
         check_distribution_compatibility D dc d \<Longrightarrow>
           set_trial_param_c D w tid pname v d =
           (let u' = u\<lparr>upd_params := (upd_params u)(pname \<mapsto> v),
                       upd_distributions := (upd_distributions u)(pname \<mapsto> d)\<rparr>
            in (unit_result (fst (update_trial_backend D (backend w) tid u')),
                w\<lparr>backend := snd (update_trial_backend D (backend w) tid u'),
                  cached_studies := (cached_studies w)(sid \<mapsto>
                    study\<lparr>cached_trials := (cached_trials study)(num \<mapsto> c'),
                          updates := (updates study)(num := None)\<rparr>)\<rparr>))"
    using m s
    by (simp add: set_trial_param_c_def g k dict_get_def ab fl u c' Let_def unit_result_def
          split: sum.splits)
  show "cached_param_distribution study pname = None \<Longrightarrow>
           set_trial_param_c D w tid pname v d =
           (case check_and_set_param_distribution_backend D (backend w) sid tid pname v d of
              Inl e \<Rightarrow> (Inl e, w)
            | Inr b' \<Rightarrow>
                (Inr (), w\<lparr>backend := b',
                   cached_studies := (cached_studies w)(sid \<mapsto>
                     study\<lparr>cached_param_distribution :=
                             (cached_param_distribution study)(pname \<mapsto> d),
                           cached_trials := (cached_trials study)(num \<mapsto> c')\<rparr>)\<rparr>))"
    using m s
    by (simp add: set_trial_param_c_def g k dict_get_def store_cached_trial_def c' Let_def
          split: sum.splits)
qed

text \<open>
  C5, as the claim states it, fails for three of the four writes: on the wrapper that
  created trial 0 and owns it as RUNNING, \<^verbatim>\<open>set_trial_user_attr\<close> leaves no pending update
  behind and the attribute is in the backend's record of the trial once the call returns.
\<close>

theorem attribute_write_flushes_counterexample:
  "get_trial_im (backend cached_running) 0 = Inr running_trial \<and>
   get_trial_im
     (backend (snd (set_trial_user_attr_c example_distributions cached_running 0 ''k'' ''v''))) 0
     = Inr (running_trial\<lparr>user_attrs := [''k'' \<mapsto> ''v'']\<rparr>) \<and>
   backend (snd (set_trial_user_attr_c example_distributions cached_running 0 ''k'' ''v''))
     \<noteq> backend cached_running \<and>
   map_option updates
     (cached_studies
        (snd (set_trial_user_attr_c example_distributions cached_running 0 ''k'' ''v'')) 0)
     = Some Map.empty"
proof -
  have a: "get_trial_im (backend cached_running) 0 = Inr running_trial"
    by (simp add: cached_running_eq im_running_eq im_defs study_info_def)
  have b: "get_trial_im
     (backend (snd (set_trial_user_attr_c example_distributions cached_running 0 ''k'' ''v''))) 0
     = Inr (running_trial\<lparr>user_attrs := [''k'' \<mapsto> ''v'']\<rparr>)"
    by (simp add: cached_running_eq im_running_eq im_defs c_defs set_trial_user_attr_c_def
          Let_def running_trial_def study_info_def map_add_def)
  have c: "map_option updates
     (cached_studies
        (snd (set_trial_user_attr_c example_distributions cached_running 0 ''k'' ''v'')) 0)
     = Some Map.empty"
    by (simp add: cached_running_eq im_running_eq im_defs c_defs set_trial_user_attr_c_def
          Let_def running_trial_def study_info_def map_add_def)
  have "user_attrs running_trial ''k'' \<noteq> user_attrs (running_trial\<lparr>user_attrs := [''k'' \<mapsto> ''v'']\<rparr>) ''k''"
    by (simp add: running_trial_def create_running_trial_def)
  then have d: "running_trial \<noteq> running_trial\<lparr>user_attrs := [''k'' \<mapsto> ''v'']\<rparr>"
    by metis
  have "backend (snd (set_trial_user_attr_c example_distributions cached_running 0 ''k'' ''v''))
     \<noteq> backend cached_running"
    using a b d by auto
  with a b c show ?thesis by simp
qed

text \<open>
  C5, amended. For a trial the wrapper owns and whose cached snapshot is not finished, with
  \<open>u\<close> its pending update (the empty one when there is none): \<^verbatim>\<open>set_trial_values\<close> changes
  the snapshot and the pending update only, whatever the backend is, and the backend is
  the same afterwards. \<^verbatim>\<open>set_trial_intermediate_value\<close>, \<^verbatim>\<open>set_trial_user_attr\<close> and
  \<^verbatim>\<open>set_trial_system_attr\<close> change the snapshot, add their delta to the pending update and
  flush at once: the backend receives the whole pending update in one \<^verbatim>\<open>_update_trial\<close>
  call, the pending update is deleted, and an exception of that call is passed on.
\<close>

theorem value_writes_buffer_other_writes_flush:
  assumes "cached_trial_id_to_study_id_and_number w tid = Some (sid, num)"
      and "cached_studies w sid = Some study"
      and "tid \<in> owned_or_finished_trial_ids study"
      and "cached_trials study num = Some c"
      and "\<not> is_finished (state c)"
      and "u = (case updates study num of None \<Rightarrow> new_TrialUpdate | Some x \<Rightarrow> x)"
  shows "set_trial_values_c D w tid vs =
           (Inr (), w\<lparr>cached_studies := (cached_studies w)(sid \<mapsto>
              study\<lparr>cached_trials := (cached_trials study)(num \<mapsto> c\<lparr>trial_values := Some vs\<rparr>),
                    updates := (updates study)(num \<mapsto> u\<lparr>upd_values := Some vs\<rparr>)\<rparr>)\<rparr>) \<and>
         set_trial_intermediate_value_c D w tid step x =
           (let u' = u\<lparr>upd_intermediate_values := (upd_intermediate_values u)(step \<mapsto> x)\<rparr>
            in (unit_result (fst (update_trial_backend D (backend w) tid u')),
                w\<lparr>backend := snd (update_trial_backend D (backend w) tid u'),
                  cached_studies := (cached_studies w)(sid \<mapsto>
                    study\<lparr>cached_trials := (cached_trials study)(num \<mapsto>
                             c\<lparr>intermediate_values := (intermediate_values c)(step \<mapsto> x)\<rparr>),
                          updates := (updates study)(num := None)\<rparr>)\<rparr>)) \<and>
         set_trial_user_attr_c D w tid k v =
           (let u' = u\<lparr>upd_user_attrs := (upd_user_attrs u)(k \<mapsto> v)\<rparr>
            in (unit_result (fst (update_trial_backend D (backend w) tid u')),
                w\<lparr>backend := snd (update_trial_backend D (backend w) tid u'),
                  cached_studies := (cached_studies w)(sid \<mapsto>
                    study\<lparr>cached_trials := (cached_trials study)(num \<mapsto>
                             c\<lparr>user_attrs := (user_attrs c)(k \<mapsto> v)\<rparr>),
                          updates := (updates study)(num := None)\<rparr>)\<rparr>)) \<and>
         set_trial_system_attr_c D w tid k v =
           (let u' = u\<lparr>upd_system_attrs := (upd_system_attrs u)(k \<mapsto> v)\<rparr>
            in (unit_result (fst (update_trial_backend D (backend w) tid u')),
                w\<lparr>backend := snd (update_trial_backend D (backend w) tid u'),
                  cached_studies := (cached_studies w)(sid \<mapsto>
                    study\<lparr>cached_trials := (cached_trials study)(num \<mapsto>
                             c\<lparr>system_attrs := (system_attrs c)(k \<mapsto> v)\<rparr>),
                          updates := (updates study)(num := None)\<rparr>)\<rparr>))"
  using buffered_writes [OF assms] by blast

theorem value_writes_buffer_other_writes_flush_witness:
  "set_trial_values_c example_distributions cached_running 0 [Finite 1] =
     (Inr (), cached_running\<lparr>cached_studies := [0 \<mapsto>
        cached_running_study\<lparr>cached_trials := [0 \<mapsto> running_trial\<lparr>trial_values := Some [Finite 1]\<rparr>],
          updates := [0 \<mapsto> new_TrialUpdate\<lparr>upd_values := Some [Finite 1]\<rparr>]\<rparr>]\<rparr>) \<and>
   backend (snd (set_trial_values_c example_distributions cached_running 0 [Finite 1])) = im_running"
  using value_writes_buffer_other_writes_flush [OF cached_running_facts(1-6),
          of example_distributions "[Finite 1]"]
  by (simp add: cached_running_eq cached_running_study_def new_CachedStudyInfo_def)

section \<open>Writes to a finished trial\<close>








section \<open>Ownership in the caching wrapper\<close>

text \<open>
  C9. The claim says that the cached snapshot of an owned trial is never WAITING, and the
  source asserts it in \<^verbatim>\<open>set_trial_state\<close>. The wrapper does not reject WAITING as the
  requested state: after \<^verbatim>\<open>create_new_trial\<close> (trial 0, RUNNING, owned),
  \<^verbatim>\<open>set_trial_state(0, WAITING)\<close> returns true, trial 0 stays in the owned set with a WAITING
  snapshot, \<^verbatim>\<open>get_trial(0)\<close> answers from that snapshot without the backend (here a backend
  that does not know the trial), and the next \<^verbatim>\<open>set_trial_state\<close> fails the assertion.
\<close>

theorem owned_trial_cached_as_WAITING:
  "fst (set_trial_state_c example_distributions cached_running 0 WAITING 2) = Inr True \<and>
   cached_trial_id_to_study_id_and_number cached_waiting 0 = Some (0, 0) \<and>
   map_option owned_or_finished_trial_ids (cached_studies cached_waiting 0) = Some {0} \<and>
   get_cached_trial cached_waiting 0 = Inr (Some (running_trial\<lparr>state := WAITING\<rparr>)) \<and>
   get_trial_c (cached_waiting\<lparr>backend := empty_InMemoryStorage\<rparr>) 0
     = Inr (running_trial\<lparr>state := WAITING\<rparr>) \<and>
   fst (set_trial_state_c example_distributions cached_waiting 0 RUNNING 3) = Inl AssertionError"
  by (simp add: cached_waiting_def cached_running_eq im_running_eq im_defs c_defs
        Let_def running_trial_def study_info_def map_add_def)

section \<open>Flush batching\<close>

subsection \<open>The in-memory storage up to its registries\<close>

lemma merge_values_only:
  "merge_update D (new_TrialUpdate\<lparr>upd_values := x\<rparr>) t =
     t\<lparr>trial_values := (case x of None \<Rightarrow> trial_values t | Some vs \<Rightarrow> Some vs)\<rparr>"
  by (cases t; cases x) (simp_all add: merge_update_def new_TrialUpdate_def)

lemma get_trial_im_same_trials:
  assumes "studies s sid = Some study" and "trials study' = trials study"
  shows "get_trial_im (s\<lparr>studies := (studies s)(sid \<mapsto> study')\<rparr>) x = get_trial_im s x"
proof (cases "trial_id_to_study_id_and_number s x")
  case None
  then show ?thesis by (simp add: get_trial_im_def check_trial_id_def domIff)
next
  case (Some p)
  obtain sid' n where p: "p = (sid', n)" by (cases p)
  show ?thesis
    using Some p assms
    by (cases "sid' = sid") (simp_all add: get_trial_im_def check_trial_id_def domIff dict_get_def)
qed

lemma set_trial_im_Inr_get:
  assumes "set_trial_im s tid t' = Inr s'" and "get_trial_im s tid = Inr t"
  shows "get_trial_im s' tid = Inr t'"
  using set_trial_im_get [OF assms(2), of t'] assms(1) by auto

lemma with_registries_simps [simp]:
  "trial_id_to_study_id_and_number (with_registries \<rho> b) = trial_id_to_study_id_and_number b"
  "studies (with_registries \<rho> b) sid = map_option (\<lambda>st. st\<lparr>param_distribution := \<rho> sid\<rparr>) (studies b sid)"
  by (simp_all add: with_registries_def)

lemma get_trial_im_with_registries [simp]:
  "get_trial_im (with_registries \<rho> b) x = get_trial_im b x"
  by (cases "trial_id_to_study_id_and_number b x")
     (auto simp: get_trial_im_def check_trial_id_def domIff dict_get_def split: option.splits)

lemma set_trial_im_with_registries:
  "set_trial_im (with_registries \<rho> b) tid t = map_sum id (with_registries \<rho>) (set_trial_im b tid t)"
proof (cases "trial_id_to_study_id_and_number b tid")
  case None
  then show ?thesis by (simp add: set_trial_im_def dict_get_def)
next
  case (Some p)
  obtain sid n where p: "p = (sid, n)" by (cases p)
  show ?thesis
  proof (cases "studies b sid")
    case None
    with Some p show ?thesis by (simp add: set_trial_im_def dict_get_def)
  next
    case st: (Some st)
    show ?thesis
    proof (cases "list_set (trials st) n t")
      case (Inl e)
      with Some p st show ?thesis by (simp add: set_trial_im_def dict_get_def)
    next
      case (Inr ts)
      with Some p st show ?thesis
        by (simp add: set_trial_im_def dict_get_def with_registries_def fun_eq_iff)
    qed
  qed
qed

lemma set_best_trial_id_im_with_registries:
  "set_best_trial_id_im (with_registries \<rho> b) sid t
     = map_sum id (with_registries \<rho>) (set_best_trial_id_im b sid t)"
  by (cases "studies b sid")
     (simp_all add: set_best_trial_id_im_def dict_get_def with_registries_def fun_eq_iff)

lemma get_study_directions_im_with_registries [simp]:
  "get_study_directions_im (with_registries \<rho> b) sid = get_study_directions_im b sid"
  by (cases "studies b sid")
     (simp_all add: get_study_directions_im_def check_study_id_def domIff dict_get_def)

lemma update_cache_im_with_registries:
  "update_cache_im (with_registries \<rho> b) tid sid
     = map_sum id (with_registries \<rho>) (update_cache_im b tid sid)"
proof (cases "get_trial_im b tid")
  case (Inl e)
  then show ?thesis by (simp add: update_cache_im_def)
next
  case (Inr trial)
  show ?thesis
  proof (cases "studies b sid")
    case None
    with Inr show ?thesis by (simp add: update_cache_im_def dict_get_def)
  next
    case (Some st)
    with Inr show ?thesis
      by (simp add: update_cache_im_def dict_get_def set_best_trial_id_im_with_registries bind_def
            split: option.splits sum.splits)
  qed
qed

lemma set_trial_im_Inr:
  "set_trial_im s tid t = Inr s' \<longleftrightarrow>
     (\<exists>sid n st j. trial_id_to_study_id_and_number s tid = Some (sid, n) \<and>
        studies s sid = Some st \<and> py_index (trials st) n = Some j \<and>
        s' = s\<lparr>studies := (studies s)(sid \<mapsto> st\<lparr>trials := (trials st)[j := t]\<rparr>)\<rparr>)"
  by (auto simp: set_trial_im_def bind_eq_Inr dict_get_def list_set_def split: option.splits)

lemma py_index_length: "length ys = length xs \<Longrightarrow> py_index ys n = py_index xs n"
  by (simp add: py_index_def)

lemma set_trial_im_overwrite:
  assumes "set_trial_im s tid x = Inr s1"
  shows "set_trial_im s1 tid y = set_trial_im s tid y"
proof -
  from assms obtain sid n st j where a:
    "trial_id_to_study_id_and_number s tid = Some (sid, n)" "studies s sid = Some st"
    "py_index (trials st) n = Some j"
    "s1 = s\<lparr>studies := (studies s)(sid \<mapsto> st\<lparr>trials := (trials st)[j := x]\<rparr>)\<rparr>"
    by (auto simp: set_trial_im_Inr)
  have "py_index ((trials st)[j := x]) n = Some j"
    using a(3) py_index_length [of "(trials st)[j := x]" "trials st" n] by simp
  with a show ?thesis
    by (simp add: set_trial_im_def dict_get_def list_set_def)
qed

lemma set_trial_im_same:
  assumes "get_trial_im s tid = Inr t"
  shows "set_trial_im s tid t = Inr s"
proof -
  from assms obtain sid n st where a:
    "trial_id_to_study_id_and_number s tid = Some (sid, n)" "studies s sid = Some st"
    "list_get (trials st) n = Inr t"
    by (auto simp: get_trial_im_Inr)
  from a(3) obtain j where j: "py_index (trials st) n = Some j" "trials st ! j = t"
    by (auto simp: list_get_def split: option.splits)
  have "(trials st)[j := t] = trials st" using j(2) by (metis list_update_id)
  moreover have "(studies s)(sid \<mapsto> st) = studies s" using a(2) by (simp add: fun_upd_idem)
  ultimately show ?thesis
    using a j by (simp add: set_trial_im_def dict_get_def list_set_def)
qed

lemma set_trial_im_frame:
  assumes "set_trial_im s tid t = Inr s'"
  shows "trial_id_to_study_id_and_number s' = trial_id_to_study_id_and_number s"
    and "studies s sid = Some st \<Longrightarrow>
           \<exists>st'. studies s' sid = Some st' \<and> param_distribution st' = param_distribution st"
  using assms by (auto simp: set_trial_im_Inr)

subsection \<open>The calls of both runs\<close>

lemma update_trial_backend_plain:
  assumes "get_trial_im b tid = Inr t" and "\<not> is_finished (state t)"
      and "upd_state u = None" and "set_trial_im b tid (merge_update D u t) = Inr b1"
  shows "update_trial_backend D b tid u = (Inr True, b1)"
  using assms by (simp add: update_trial_backend_def check_trial_is_updatable_def)

lemma with_registries_erase:
  assumes "studies b sid = Some st"
  shows "with_registries \<rho> (b\<lparr>studies := (studies b)(sid \<mapsto> st\<lparr>param_distribution := r\<rparr>)\<rparr>)
           = with_registries \<rho> b"
  using assms by (simp add: with_registries_def fun_eq_iff)

lemma with_registries_register:
  assumes "studies b sid = Some st"
  shows "(with_registries \<rho> b)\<lparr>studies := (studies (with_registries \<rho> b))
            (sid \<mapsto> (st\<lparr>param_distribution := \<rho> sid\<rparr>)\<lparr>param_distribution := r\<rparr>)\<rparr>
           = with_registries (\<rho>(sid := r)) b"
  using assms by (simp add: with_registries_def fun_eq_iff)

text \<open>The direct writes on a storage that is another one up to its registries.\<close>

lemma direct_plain_writes:
  assumes g: "get_trial_im b1 tid = Inr td" and nf: "\<not> is_finished (state td)"
  shows "set_trial_values_im (with_registries \<rho> b1) tid vs
           = map_sum id (with_registries \<rho>) (set_trial_im b1 tid (td\<lparr>trial_values := Some vs\<rparr>))"
    and "set_trial_intermediate_value_im (with_registries \<rho> b1) tid step y
           = map_sum id (with_registries \<rho>) (set_trial_im b1 tid
               (td\<lparr>intermediate_values := (intermediate_values td)(step \<mapsto> y)\<rparr>))"
    and "set_trial_user_attr_im (with_registries \<rho> b1) tid key a
           = map_sum id (with_registries \<rho>) (set_trial_im b1 tid
               (td\<lparr>user_attrs := (user_attrs td)(key \<mapsto> a)\<rparr>))"
    and "set_trial_system_attr_im (with_registries \<rho> b1) tid key a
           = map_sum id (with_registries \<rho>) (set_trial_im b1 tid
               (td\<lparr>system_attrs := (system_attrs td)(key \<mapsto> a)\<rparr>))"
proof -
  have c: "check_trial_is_updatable tid (state td) = Inr ()"
    using nf by (simp add: check_trial_is_updatable_def)
  have i: "check_trial_id (with_registries \<rho> b1) tid = Inr ()"
    using g by (auto simp: get_trial_im_Inr check_trial_id_def domIff)
  show "set_trial_values_im (with_registries \<rho> b1) tid vs
           = map_sum id (with_registries \<rho>) (set_trial_im b1 tid (td\<lparr>trial_values := Some vs\<rparr>))"
    by (simp add: set_trial_values_im_def g c set_trial_im_with_registries)
  show "set_trial_intermediate_value_im (with_registries \<rho> b1) tid step y
           = map_sum id (with_registries \<rho>) (set_trial_im b1 tid
               (td\<lparr>intermediate_values := (intermediate_values td)(step \<mapsto> y)\<rparr>))"
    by (simp add: set_trial_intermediate_value_im_def g c set_trial_im_with_registries)
  show "set_trial_user_attr_im (with_registries \<rho> b1) tid key a
           = map_sum id (with_registries \<rho>) (set_trial_im b1 tid
               (td\<lparr>user_attrs := (user_attrs td)(key \<mapsto> a)\<rparr>))"
    by (simp add: set_trial_user_attr_im_def g c i set_trial_im_with_registries)
  show "set_trial_system_attr_im (with_registries \<rho> b1) tid key a
           = map_sum id (with_registries \<rho>) (set_trial_im b1 tid
               (td\<lparr>system_attrs := (system_attrs td)(key \<mapsto> a)\<rparr>))"
    by (simp add: set_trial_system_attr_im_def g c set_trial_im_with_registries)
qed

lemma direct_param_write:
  assumes g: "get_trial_im b1 tid = Inr td" and nf: "\<not> is_finished (state td)"
      and m: "trial_id_to_study_id_and_number b1 tid = Some (sid, k)"
      and s: "studies b1 sid = Some st1"
  shows "set_trial_param_im D (with_registries \<rho> b1) tid n v d =
           (if (case \<rho> sid n of None \<Rightarrow> True
                | Some old \<Rightarrow> check_distribution_compatibility D old d)
            then map_sum id (with_registries (\<rho>(sid := (\<rho> sid)(n \<mapsto> d))))
                   (set_trial_im b1 tid (written D (WriteParam n v d) td))
            else Inl ValueError)"
proof -
  have c: "check_trial_is_updatable tid (state td) = Inr ()"
    using nf by (simp add: check_trial_is_updatable_def)
  note reg = with_registries_register [OF s, of \<rho> "(\<rho> sid)(n \<mapsto> d)"]
  show ?thesis
    using m s reg
    by (simp add: set_trial_param_im_def g c dict_get_def set_trial_im_with_registries
          split: option.splits)
qed

subsection \<open>One write keeps the two runs in step\<close>

lemma in_syncI:
  assumes "cached_trial_id_to_study_id_and_number w tid = Some (sid, num)"
      and "cached_studies w sid = Some study"
      and "tid \<in> owned_or_finished_trial_ids study"
      and "cached_trials study num = Some c" and "state c = RUNNING"
      and "case updates study num of None \<Rightarrow> x = None
           | Some u \<Rightarrow> u = new_TrialUpdate\<lparr>upd_values := x\<rparr>"
      and "get_trial_im (backend w) tid = Inr tw" and "\<not> is_finished (state tw)"
      and "trial_id_to_study_id_and_number (backend w) tid = Some (sid, k)"
      and "studies (backend w) sid = Some bst"
      and "set_trial_im (backend w) tid (merge_update D (new_TrialUpdate\<lparr>upd_values := x\<rparr>) tw)
             = Inr bwm"
      and "bd = with_registries \<rho> bwm"
      and "registries_agree (check_distribution_compatibility D) (\<rho> sid)
             (param_distribution bst) (cached_param_distribution study)"
  shows "in_sync D tid sid w bd"
  unfolding in_sync_def
  apply (rule exI [of _ num], rule exI [of _ study], rule exI [of _ c], rule exI [of _ x],
         rule exI [of _ tw], rule exI [of _ k], rule exI [of _ bst], rule exI [of _ \<rho>],
         rule exI [of _ bwm])
  using assms apply (intro conjI)
  apply assumption+
  done

lemma pending_values:
  assumes "case updates study num of None \<Rightarrow> x = None
           | Some u \<Rightarrow> u = new_TrialUpdate\<lparr>upd_values := x\<rparr>"
  shows "(case updates study num of None \<Rightarrow> new_TrialUpdate | Some u \<Rightarrow> u)
           = new_TrialUpdate\<lparr>upd_values := x\<rparr>"
  using assms by (cases "updates study num") (simp_all add: new_TrialUpdate_def)

lemma written_merge:
  "written D wr (merge_update D (new_TrialUpdate\<lparr>upd_values := x\<rparr>) t)
     = merge_update D (new_TrialUpdate\<lparr>upd_values := x\<rparr>) (written D wr t) \<or>
   (\<exists>vs. wr = WriteValues vs)"
  by (cases wr; cases x) (simp_all add: merge_values_only)

text \<open>A write that the wrapper flushes at once.\<close>

lemma flush_step:
  assumes m: "cached_trial_id_to_study_id_and_number w tid = Some (sid, num)"
      and s: "cached_studies w sid = Some study"
      and o: "tid \<in> owned_or_finished_trial_ids study"
      and g: "get_trial_im (backend w) tid = Inr tw" and nf: "\<not> is_finished (state tw)"
      and bm: "trial_id_to_study_id_and_number (backend w) tid = Some (sid, k)"
      and bs: "studies (backend w) sid = Some bst"
      and w1: "set_trial_im (backend w) tid
                 (merge_update D (new_TrialUpdate\<lparr>upd_values := x\<rparr>) tw) = Inr bw1"
      and wc: "write_cached D w tid wr =
                 (unit_result (fst (update_trial_backend D (backend w) tid u')),
                  w\<lparr>backend := snd (update_trial_backend D (backend w) tid u'),
                    cached_studies := (cached_studies w)(sid \<mapsto>
                      study\<lparr>cached_trials := (cached_trials study)(num \<mapsto> c'),
                            updates := (updates study)(num := None)\<rparr>)\<rparr>)"
      and us: "upd_state u' = None"
      and mw: "merge_update D u' tw
                 = written D wr (merge_update D (new_TrialUpdate\<lparr>upd_values := x\<rparr>) tw)"
      and wd: "write_direct D bd tid wr = map_sum id (with_registries \<rho>')
                 (set_trial_im bw1 tid
                    (written D wr (merge_update D (new_TrialUpdate\<lparr>upd_values := x\<rparr>) tw)))"
      and sc: "state c' = RUNNING"
      and ra: "registries_agree (check_distribution_compatibility D) (\<rho>' sid)
                 (param_distribution bst) (cached_param_distribution study)"
  shows "\<exists>bd'. fst (write_cached D w tid wr) = Inr () \<and> write_direct D bd tid wr = Inr bd' \<and>
           in_sync D tid sid (snd (write_cached D w tid wr)) bd'"
proof -
  let ?bw = "backend w"
  from set_trial_im_get [OF g, of "merge_update D u' tw"] obtain b1 where
    b1: "set_trial_im ?bw tid (merge_update D u' tw) = Inr b1"
        "get_trial_im b1 tid = Inr (merge_update D u' tw)" by blast
  have utb: "update_trial_backend D ?bw tid u' = (Inr True, b1)"
    by (rule update_trial_backend_plain [OF g nf us b1(1)])
  have d: "write_direct D bd tid wr = Inr (with_registries \<rho>' b1)"
    using wd set_trial_im_overwrite [OF w1] b1(1) mw by simp
  let ?study = "study\<lparr>cached_trials := (cached_trials study)(num \<mapsto> c'),
                      updates := (updates study)(num := None)\<rparr>"
  let ?w = "w\<lparr>backend := b1, cached_studies := (cached_studies w)(sid \<mapsto> ?study)\<rparr>"
  have c: "write_cached D w tid wr = (Inr (), ?w)"
    using wc utb by (simp add: unit_result_def)
  from set_trial_im_frame(2) [OF b1(1) bs] obtain bst' where
    bst': "studies b1 sid = Some bst'" "param_distribution bst' = param_distribution bst"
    by blast
  have st: "state (merge_update D u' tw) = state tw"
    using us by (simp add: merge_update_def)
  have "in_sync D tid sid ?w (with_registries \<rho>' b1)"
  proof (rule in_syncI [where num = num and study = ?study and c = c' and x = None
          and tw = "merge_update D u' tw" and k = k and bst = bst' and \<rho> = \<rho>' and bwm = b1])
    show "cached_trial_id_to_study_id_and_number ?w tid = Some (sid, num)" using m by simp
    show "cached_studies ?w sid = Some ?study" by simp
    show "tid \<in> owned_or_finished_trial_ids ?study" using o by simp
    show "cached_trials ?study num = Some c'" by simp
    show "state c' = RUNNING" by (rule sc)
    show "case updates ?study num of None \<Rightarrow> None = None
          | Some u \<Rightarrow> u = new_TrialUpdate\<lparr>upd_values := None\<rparr>" by simp
    show "get_trial_im (backend ?w) tid = Inr (merge_update D u' tw)" using b1(2) by simp
    show "\<not> is_finished (state (merge_update D u' tw))" using nf st by simp
    show "trial_id_to_study_id_and_number (backend ?w) tid = Some (sid, k)"
      using bm set_trial_im_frame(1) [OF b1(1)] by simp
    show "studies (backend ?w) sid = Some bst'" using bst' by simp
    show "set_trial_im (backend ?w) tid
            (merge_update D (new_TrialUpdate\<lparr>upd_values := None\<rparr>) (merge_update D u' tw))
          = Inr b1"
      using set_trial_im_same [OF b1(2)] by (simp add: merge_values_only)
    show "with_registries \<rho>' b1 = with_registries \<rho>' b1" by simp
    show "registries_agree (check_distribution_compatibility D) (\<rho>' sid)
            (param_distribution bst') (cached_param_distribution ?study)"
      using ra bst' by simp
  qed
  with c d show ?thesis by simp
qed

lemma check_and_set_eval:
  assumes g: "get_trial_im b tid = Inr t" and nf: "\<not> is_finished (state t)"
      and s: "studies b sid = Some st"
  shows "check_and_set_param_distribution_backend D b sid tid pname v d =
           (if (case param_distribution st pname of None \<Rightarrow> True
                | Some old \<Rightarrow> check_distribution_compatibility D old d)
            then set_trial_im
                   (b\<lparr>studies := (studies b)(sid \<mapsto> st\<lparr>param_distribution :=
                        (case param_distribution st pname of
                           None \<Rightarrow> (param_distribution st)(pname \<mapsto> d)
                         | Some old \<Rightarrow> param_distribution st)\<rparr>)\<rparr>)
                   tid (written D (WriteParam pname v d) t)
            else Inl ValueError)"
  using assms
  by (simp add: check_and_set_param_distribution_backend_def check_trial_is_updatable_def
        dict_get_def split: option.splits)

lemma merge_written:
  "merge_update D (new_TrialUpdate\<lparr>upd_values := x, upd_intermediate_values :=
       (upd_intermediate_values (new_TrialUpdate\<lparr>upd_values := x\<rparr>))(step \<mapsto> y)\<rparr>) t
     = written D (WriteIntermediateValue step y)
         (merge_update D (new_TrialUpdate\<lparr>upd_values := x\<rparr>) t)"
  "merge_update D (new_TrialUpdate\<lparr>upd_values := x, upd_user_attrs :=
       (upd_user_attrs (new_TrialUpdate\<lparr>upd_values := x\<rparr>))(key \<mapsto> a)\<rparr>) t
     = written D (WriteUserAttr key a)
         (merge_update D (new_TrialUpdate\<lparr>upd_values := x\<rparr>) t)"
  "merge_update D (new_TrialUpdate\<lparr>upd_values := x, upd_system_attrs :=
       (upd_system_attrs (new_TrialUpdate\<lparr>upd_values := x\<rparr>))(key \<mapsto> a)\<rparr>) t
     = written D (WriteSystemAttr key a)
         (merge_update D (new_TrialUpdate\<lparr>upd_values := x\<rparr>) t)"
  "merge_update D (new_TrialUpdate\<lparr>upd_values := x,
       upd_params := (upd_params (new_TrialUpdate\<lparr>upd_values := x\<rparr>))(pname \<mapsto> v),
       upd_distributions :=
         (upd_distributions (new_TrialUpdate\<lparr>upd_values := x\<rparr>))(pname \<mapsto> d)\<rparr>) t
     = written D (WriteParam pname v d)
         (merge_update D (new_TrialUpdate\<lparr>upd_values := x\<rparr>) t)"
  by (cases t; cases x; simp add: merge_update_def new_TrialUpdate_def fun_eq_iff)+

lemma registries_agree_hit:
  assumes eq: "equivp C" and ra: "registries_agree C rd rw rc" and h: "rc n = Some dc"
  shows "(case rd n of None \<Rightarrow> True | Some old \<Rightarrow> C old d) \<longleftrightarrow> C dc d"
    and "C dc d \<Longrightarrow> registries_agree C (rd(n \<mapsto> d)) rw rc"
proof -
  from ra h obtain b where b: "rw n = Some b" "C b dc"
    unfolding registries_agree_def by blast
  from ra b(1) obtain a where a: "rd n = Some a"
    unfolding registries_agree_def by (cases "rd n") auto
  from ra a b(1) have ab: "C a b" unfolding registries_agree_def by blast
  have adc: "C a dc" by (rule equivp_transp [OF eq ab b(2)])
  have "C a d \<longleftrightarrow> C dc d"
    using equivp_transp [OF eq adc, of d] equivp_transp [OF eq equivp_symp [OF eq adc], of d]
    by blast
  then show "(case rd n of None \<Rightarrow> True | Some old \<Rightarrow> C old d) \<longleftrightarrow> C dc d"
    using a by simp
  assume cd: "C dc d"
  have "C d b"
    by (rule equivp_symp [OF eq]) (rule equivp_transp [OF eq b(2) cd])
  then show "registries_agree C (rd(n \<mapsto> d)) rw rc"
    using ra b(1) unfolding registries_agree_def by auto
qed

lemma registries_agree_miss:
  assumes eq: "equivp C" and ra: "registries_agree C rd rw rc"
  shows "(case rd n of None \<Rightarrow> True | Some old \<Rightarrow> C old d) \<longleftrightarrow>
         (case rw n of None \<Rightarrow> True | Some old \<Rightarrow> C old d)"
    and "(case rw n of None \<Rightarrow> True | Some old \<Rightarrow> C old d) \<Longrightarrow>
           registries_agree C (rd(n \<mapsto> d))
             (case rw n of None \<Rightarrow> rw(n \<mapsto> d) | Some old \<Rightarrow> rw) (rc(n \<mapsto> d))"
proof -
  show "(case rd n of None \<Rightarrow> True | Some old \<Rightarrow> C old d) \<longleftrightarrow>
         (case rw n of None \<Rightarrow> True | Some old \<Rightarrow> C old d)"
  proof (cases "rw n")
    case None
    with ra have "rd n = None" unfolding registries_agree_def by blast
    with None show ?thesis by simp
  next
    case (Some b)
    with ra obtain a where a: "rd n = Some a"
      unfolding registries_agree_def by (cases "rd n") auto
    from ra a Some have ab: "C a b" unfolding registries_agree_def by blast
    have "C a d \<longleftrightarrow> C b d"
      using equivp_transp [OF eq ab, of d] equivp_transp [OF eq equivp_symp [OF eq ab], of d]
      by blast
    with a Some show ?thesis by simp
  qed
  assume ok: "case rw n of None \<Rightarrow> True | Some old \<Rightarrow> C old d"
  show "registries_agree C (rd(n \<mapsto> d))
          (case rw n of None \<Rightarrow> rw(n \<mapsto> d) | Some old \<Rightarrow> rw) (rc(n \<mapsto> d))"
  proof (cases "rw n")
    case None
    then show ?thesis
      using ra equivp_reflp [OF eq, of d] unfolding registries_agree_def by auto
  next
    case (Some b)
    with ok have bd: "C b d" by simp
    have db: "C d b" by (rule equivp_symp [OF eq bd])
    show ?thesis
      using ra Some bd db unfolding registries_agree_def by auto
  qed
qed

lemma sync_write:
  fixes D :: "('d, 'p) distributions_module" and w :: "('a, 'd, 'p) CachedStorage"
  assumes eq: "equivp (check_distribution_compatibility D)" and sy: "in_sync D tid sid w bd"
  shows "(\<exists>e. fst (write_cached D w tid wr) = Inl e \<and> write_direct D bd tid wr = Inl e) \<or>
         (\<exists>bd'. fst (write_cached D w tid wr) = Inr () \<and> write_direct D bd tid wr = Inr bd' \<and>
            in_sync D tid sid (snd (write_cached D w tid wr)) bd')"
proof -
  let ?C = "check_distribution_compatibility D"
  from sy obtain num study c x tw k bst \<rho> bw1 where
    m: "cached_trial_id_to_study_id_and_number w tid = Some (sid, num)" and
    s: "cached_studies w sid = Some study" and
    o: "tid \<in> owned_or_finished_trial_ids study" and
    c: "cached_trials study num = Some c" and r: "state c = RUNNING" and
    p: "case updates study num of None \<Rightarrow> x = None
        | Some u \<Rightarrow> u = new_TrialUpdate\<lparr>upd_values := x\<rparr>" and
    g: "get_trial_im (backend w) tid = Inr tw" and nf: "\<not> is_finished (state tw)" and
    bm: "trial_id_to_study_id_and_number (backend w) tid = Some (sid, k)" and
    bs: "studies (backend w) sid = Some bst" and
    w1: "set_trial_im (backend w) tid (merge_update D (new_TrialUpdate\<lparr>upd_values := x\<rparr>) tw)
           = Inr bw1" and
    bd: "bd = with_registries \<rho> bw1" and
    ra: "registries_agree ?C (\<rho> sid) (param_distribution bst) (cached_param_distribution study)"
    unfolding in_sync_def by (elim exE conjE) (rule that; assumption)
  let ?u = "new_TrialUpdate\<lparr>upd_values := x\<rparr> :: ('a, 'd) TrialUpdate"
  let ?td = "merge_update D ?u tw"
  have nfc: "\<not> is_finished (state c)" using r by (simp add: is_finished_def)
  have u: "?u = (case updates study num of None \<Rightarrow> new_TrialUpdate | Some x \<Rightarrow> x)"
    using pending_values [OF p] by simp
  note bw = buffered_writes [OF m s o c nfc u]
  note pw = param_writes [OF m s o c nfc u refl]
  have gd: "get_trial_im bw1 tid = Inr ?td" by (rule set_trial_im_Inr_get [OF w1 g])
  have nfd: "\<not> is_finished (state ?td)" using nf by (simp add: merge_values_only)
  note dp = direct_plain_writes [OF gd nfd, of \<rho>]
  note fs = flush_step [OF m s o g nf bm bs w1]
  have md: "trial_id_to_study_id_and_number bw1 tid = Some (sid, k)"
    using bm set_trial_im_frame(1) [OF w1] by simp
  from set_trial_im_frame(2) [OF w1 bs] obtain st1 where
    st1: "studies bw1 sid = Some st1" by blast
  note dpar = direct_param_write [OF gd nfd md st1, of D \<rho>]
  show ?thesis
  proof (cases wr)
    case (WriteIntermediateValue step y)
    have "\<exists>bd'. fst (write_cached D w tid wr) = Inr () \<and> write_direct D bd tid wr = Inr bd' \<and>
            in_sync D tid sid (snd (write_cached D w tid wr)) bd'"
    proof (rule fs [where \<rho>' = \<rho>])
      show "write_cached D w tid wr = 
              (unit_result (fst (update_trial_backend D (backend w) tid
                 (?u\<lparr>upd_intermediate_values := (upd_intermediate_values ?u)(step \<mapsto> y)\<rparr>))),
               w\<lparr>backend := snd (update_trial_backend D (backend w) tid
                    (?u\<lparr>upd_intermediate_values := (upd_intermediate_values ?u)(step \<mapsto> y)\<rparr>)),
                 cached_studies := (cached_studies w)(sid \<mapsto>
                   study\<lparr>cached_trials := (cached_trials study)(num \<mapsto>
                            c\<lparr>intermediate_values := (intermediate_values c)(step \<mapsto> y)\<rparr>),
                         updates := (updates study)(num := None)\<rparr>)\<rparr>)"
        using bw(2) [of D step y] WriteIntermediateValue by (simp add: Let_def)
      show "upd_state (?u\<lparr>upd_intermediate_values := (upd_intermediate_values ?u)(step \<mapsto> y)\<rparr>)
              = None" by (simp add: new_TrialUpdate_def)
      show "merge_update D
              (?u\<lparr>upd_intermediate_values := (upd_intermediate_values ?u)(step \<mapsto> y)\<rparr>) tw
            = written D wr ?td"
        using merge_written(1) [of D x step y tw] WriteIntermediateValue by simp
      show "write_direct D bd tid wr
              = map_sum id (with_registries \<rho>) (set_trial_im bw1 tid (written D wr ?td))"
        using dp(2) [of step y] WriteIntermediateValue bd by simp
      show "state (c\<lparr>intermediate_values := (intermediate_values c)(step \<mapsto> y)\<rparr>) = RUNNING"
        using r by simp
      show "registries_agree ?C (\<rho> sid) (param_distribution bst)
              (cached_param_distribution study)" by (rule ra)
    qed
    then show ?thesis by blast
  next
    case (WriteUserAttr key a)
    have "\<exists>bd'. fst (write_cached D w tid wr) = Inr () \<and> write_direct D bd tid wr = Inr bd' \<and>
            in_sync D tid sid (snd (write_cached D w tid wr)) bd'"
    proof (rule fs [where \<rho>' = \<rho>])
      show "write_cached D w tid wr = 
              (unit_result (fst (update_trial_backend D (backend w) tid
                 (?u\<lparr>upd_user_attrs := (upd_user_attrs ?u)(key \<mapsto> a)\<rparr>))),
               w\<lparr>backend := snd (update_trial_backend D (backend w) tid
                    (?u\<lparr>upd_user_attrs := (upd_user_attrs ?u)(key \<mapsto> a)\<rparr>)),
                 cached_studies := (cached_studies w)(sid \<mapsto>
                   study\<lparr>cached_trials := (cached_trials study)(num \<mapsto>
                            c\<lparr>user_attrs := (user_attrs c)(key \<mapsto> a)\<rparr>),
                         updates := (updates study)(num := None)\<rparr>)\<rparr>)"
        using bw(3) [of D key a] WriteUserAttr by (simp add: Let_def)
      show "upd_state (?u\<lparr>upd_user_attrs := (upd_user_attrs ?u)(key \<mapsto> a)\<rparr>) = None"
        by (simp add: new_TrialUpdate_def)
      show "merge_update D (?u\<lparr>upd_user_attrs := (upd_user_attrs ?u)(key \<mapsto> a)\<rparr>) tw
            = written D wr ?td"
        using merge_written(2) [of D x key a tw] WriteUserAttr by simp
      show "write_direct D bd tid wr
              = map_sum id (with_registries \<rho>) (set_trial_im bw1 tid (written D wr ?td))"
        using dp(3) [of key a] WriteUserAttr bd by simp
      show "state (c\<lparr>user_attrs := (user_attrs c)(key \<mapsto> a)\<rparr>) = RUNNING" using r by simp
      show "registries_agree ?C (\<rho> sid) (param_distribution bst)
              (cached_param_distribution study)" by (rule ra)
    qed
    then show ?thesis by blast
  next
    case (WriteSystemAttr key a)
    have "\<exists>bd'. fst (write_cached D w tid wr) = Inr () \<and> write_direct D bd tid wr = Inr bd' \<and>
            in_sync D tid sid (snd (write_cached D w tid wr)) bd'"
    proof (rule fs [where \<rho>' = \<rho>])
      show "write_cached D w tid wr = 
              (unit_result (fst (update_trial_backend D (backend w) tid
                 (?u\<lparr>upd_system_attrs := (upd_system_attrs ?u)(key \<mapsto> a)\<rparr>))),
               w\<lparr>backend := snd (update_trial_backend D (backend w) tid
                    (?u\<lparr>upd_system_attrs := (upd_system_attrs ?u)(key \<mapsto> a)\<rparr>)),
                 cached_studies := (cached_studies w)(sid \<mapsto>
                   study\<lparr>cached_trials := (cached_trials study)(num \<mapsto>
                            c\<lparr>system_attrs := (system_attrs c)(key \<mapsto> a)\<rparr>),
                         updates := (updates study)(num := None)\<rparr>)\<rparr>)"
        using bw(4) [of D key a] WriteSystemAttr by (simp add: Let_def)
      show "upd_state (?u\<lparr>upd_system_attrs := (upd_system_attrs ?u)(key \<mapsto> a)\<rparr>) = None"
        by (simp add: new_TrialUpdate_def)
      show "merge_update D (?u\<lparr>upd_system_attrs := (upd_system_attrs ?u)(key \<mapsto> a)\<rparr>) tw
            = written D wr ?td"
        using merge_written(3) [of D x key a tw] WriteSystemAttr by simp
      show "write_direct D bd tid wr
              = map_sum id (with_registries \<rho>) (set_trial_im bw1 tid (written D wr ?td))"
        using dp(4) [of key a] WriteSystemAttr bd by simp
      show "state (c\<lparr>system_attrs := (system_attrs c)(key \<mapsto> a)\<rparr>) = RUNNING" using r by simp
      show "registries_agree ?C (\<rho> sid) (param_distribution bst)
              (cached_param_distribution study)" by (rule ra)
    qed
    then show ?thesis by blast
  next
    case (WriteValues vs)
    let ?y = "tw\<lparr>trial_values := Some vs\<rparr>"
    let ?study = "study\<lparr>cached_trials := (cached_trials study)(num \<mapsto> c\<lparr>trial_values := Some vs\<rparr>),
                    updates := (updates study)(num \<mapsto> ?u\<lparr>upd_values := Some vs\<rparr>)\<rparr>"
    let ?w = "w\<lparr>cached_studies := (cached_studies w)(sid \<mapsto> ?study)\<rparr>"
    have wc: "write_cached D w tid wr = (Inr (), ?w)"
      using bw(1) [of D vs] WriteValues by simp
    from set_trial_im_get [OF g, of ?y] obtain b1 where
      b1: "set_trial_im (backend w) tid ?y = Inr b1" by blast
    have y: "?td\<lparr>trial_values := Some vs\<rparr> = ?y" by (simp add: merge_values_only)
    have wd: "write_direct D bd tid wr = Inr (with_registries \<rho> b1)"
      using dp(1) [of vs] WriteValues bd set_trial_im_overwrite [OF w1, of ?y] b1 y by simp
    have "in_sync D tid sid ?w (with_registries \<rho> b1)"
    proof (rule in_syncI [where num = num and study = ?study and c = "c\<lparr>trial_values := Some vs\<rparr>"
            and x = "Some vs" and tw = tw and k = k and bst = bst and \<rho> = \<rho> and bwm = b1])
      show "cached_trial_id_to_study_id_and_number ?w tid = Some (sid, num)" using m by simp
      show "cached_studies ?w sid = Some ?study" by simp
      show "tid \<in> owned_or_finished_trial_ids ?study" using o by simp
      show "cached_trials ?study num = Some (c\<lparr>trial_values := Some vs\<rparr>)" by simp
      show "state (c\<lparr>trial_values := Some vs\<rparr>) = RUNNING" using r by simp
      show "case updates ?study num of None \<Rightarrow> Some vs = None
            | Some u \<Rightarrow> u = new_TrialUpdate\<lparr>upd_values := Some vs\<rparr>" by simp
      show "get_trial_im (backend ?w) tid = Inr tw" using g by simp
      show "\<not> is_finished (state tw)" by (rule nf)
      show "trial_id_to_study_id_and_number (backend ?w) tid = Some (sid, k)" using bm by simp
      show "studies (backend ?w) sid = Some bst" using bs by simp
      show "set_trial_im (backend ?w) tid
              (merge_update D (new_TrialUpdate\<lparr>upd_values := Some vs\<rparr>) tw) = Inr b1"
        using b1 by (simp add: merge_values_only)
      show "with_registries \<rho> b1 = with_registries \<rho> b1" by simp
      show "registries_agree ?C (\<rho> sid) (param_distribution bst)
              (cached_param_distribution ?study)" using ra by simp
    qed
    with wc wd show ?thesis by simp
  next
    case (WriteParam pname v d)
    let ?c = "c\<lparr>params := (params c)(pname \<mapsto> to_external_repr D d v),
                 distributions := (distributions c)(pname \<mapsto> d)\<rparr>"
    let ?\<rho> = "\<rho>(sid := (\<rho> sid)(pname \<mapsto> d))"
    let ?okd = "case \<rho> sid pname of None \<Rightarrow> True | Some old \<Rightarrow> ?C old d"
    have dir: "write_direct D bd tid wr =
                 (if ?okd then map_sum id (with_registries ?\<rho>)
                                 (set_trial_im bw1 tid (written D wr ?td))
                  else Inl ValueError)"
      using dpar [where n = pname and v = v and d = d] WriteParam bd by simp
    show ?thesis
    proof (cases "cached_param_distribution study pname")
      case (Some dc)
      note hit = registries_agree_hit [OF eq ra Some, where d = d]
      show ?thesis
      proof (cases "?C dc d")
        case False
        have "write_cached D w tid wr = (Inl ValueError, w)"
          using pw(1) [OF Some False] WriteParam by simp
        moreover have "write_direct D bd tid wr = Inl ValueError"
          using dir hit(1) False by simp
        ultimately show ?thesis by simp
      next
        case True
        have "\<exists>bd'. fst (write_cached D w tid wr) = Inr () \<and>
                write_direct D bd tid wr = Inr bd' \<and>
                in_sync D tid sid (snd (write_cached D w tid wr)) bd'"
        proof (rule fs [where \<rho>' = ?\<rho>])
          show "write_cached D w tid wr = 
                  (unit_result (fst (update_trial_backend D (backend w) tid
                     (?u\<lparr>upd_params := (upd_params ?u)(pname \<mapsto> v),
                         upd_distributions := (upd_distributions ?u)(pname \<mapsto> d)\<rparr>))),
                   w\<lparr>backend := snd (update_trial_backend D (backend w) tid
                        (?u\<lparr>upd_params := (upd_params ?u)(pname \<mapsto> v),
                            upd_distributions := (upd_distributions ?u)(pname \<mapsto> d)\<rparr>)),
                     cached_studies := (cached_studies w)(sid \<mapsto>
                       study\<lparr>cached_trials := (cached_trials study)(num \<mapsto> ?c),
                             updates := (updates study)(num := None)\<rparr>)\<rparr>)"
            using pw(2) [OF Some True, where v = v] WriteParam by (simp add: Let_def)
          show "upd_state (?u\<lparr>upd_params := (upd_params ?u)(pname \<mapsto> v),
                  upd_distributions := (upd_distributions ?u)(pname \<mapsto> d)\<rparr>) = None"
            by (simp add: new_TrialUpdate_def)
          show "merge_update D (?u\<lparr>upd_params := (upd_params ?u)(pname \<mapsto> v),
                  upd_distributions := (upd_distributions ?u)(pname \<mapsto> d)\<rparr>) tw
                = written D wr ?td"
            using merge_written(4) [where D = D and x = x and pname = pname and v = v and d = d and t = tw] WriteParam by simp
          show "write_direct D bd tid wr
                  = map_sum id (with_registries ?\<rho>) (set_trial_im bw1 tid (written D wr ?td))"
            using dir hit(1) True by simp
          show "state ?c = RUNNING" using r by simp
          show "registries_agree ?C (?\<rho> sid) (param_distribution bst)
                  (cached_param_distribution study)"
            using hit(2) [OF True] by simp
        qed
        then show ?thesis by blast
      qed
    next
      case None
      note miss = registries_agree_miss [OF eq ra, where n = pname and d = d]
      let ?okw = "case param_distribution bst pname of None \<Rightarrow> True | Some old \<Rightarrow> ?C old d"
      let ?reg = "case param_distribution bst pname of
                    None \<Rightarrow> (param_distribution bst)(pname \<mapsto> d)
                  | Some old \<Rightarrow> param_distribution bst"
      let ?bwr = "(backend w)\<lparr>studies := (studies (backend w))(sid \<mapsto>
                     bst\<lparr>param_distribution := ?reg\<rparr>)\<rparr>"
      have casd: "check_and_set_param_distribution_backend D (backend w) sid tid pname v d =
                    (if ?okw then set_trial_im ?bwr tid (written D wr tw) else Inl ValueError)"
        using check_and_set_eval [OF g nf bs, where D = D and pname = pname and v = v and d = d] WriteParam by simp
      show ?thesis
      proof (cases ?okw)
        case False
        have "write_cached D w tid wr = (Inl ValueError, w)"
          using pw(3) [OF None, where D = D and v = v and d = d] casd False WriteParam by simp
        moreover have "write_direct D bd tid wr = Inl ValueError"
          using dir miss(1) False by simp
        ultimately show ?thesis by simp
      next
        case True
        have gr: "get_trial_im ?bwr tid = Inr tw"
          using get_trial_im_same_trials [OF bs, of "bst\<lparr>param_distribution := ?reg\<rparr>" tid] g
          by simp
        from set_trial_im_get [OF gr, of "written D wr tw"] obtain bq where
          bq: "set_trial_im ?bwr tid (written D wr tw) = Inr bq"
              "get_trial_im bq tid = Inr (written D wr tw)" by blast
        let ?study = "study\<lparr>cached_param_distribution :=
                               (cached_param_distribution study)(pname \<mapsto> d),
                             cached_trials := (cached_trials study)(num \<mapsto> ?c)\<rparr>"
        let ?w = "w\<lparr>backend := bq, cached_studies := (cached_studies w)(sid \<mapsto> ?study)\<rparr>"
        have wc: "write_cached D w tid wr = (Inr (), ?w)"
          using pw(3) [OF None, where D = D and v = v and d = d] casd True bq(1) WriteParam by simp
        let ?Y = "written D wr ?td"
        from set_trial_im_get [OF g, of ?Y] obtain bY where
          bY: "set_trial_im (backend w) tid ?Y = Inr bY" by blast
        have wd: "write_direct D bd tid wr = Inr (with_registries ?\<rho> bY)"
          using dir miss(1) True set_trial_im_overwrite [OF w1, of ?Y] bY by simp
        from set_trial_im_get [OF gr, of ?Y] obtain bz where
          bz: "set_trial_im ?bwr tid ?Y = Inr bz" by blast
        have er: "with_registries ?\<rho> ?bwr = with_registries ?\<rho> (backend w)"
          by (rule with_registries_erase [OF bs])
        have "set_trial_im (with_registries ?\<rho> ?bwr) tid ?Y = Inr (with_registries ?\<rho> bz)"
          using bz by (simp only: set_trial_im_with_registries) simp
        moreover have "set_trial_im (with_registries ?\<rho> (backend w)) tid ?Y
                         = Inr (with_registries ?\<rho> bY)"
          using bY by (simp only: set_trial_im_with_registries) simp
        ultimately have same: "with_registries ?\<rho> bY = with_registries ?\<rho> bz"
          using er by simp
        have sr: "studies ?bwr sid = Some (bst\<lparr>param_distribution := ?reg\<rparr>)" by simp
        from set_trial_im_frame(2) [OF bq(1) sr] obtain bst' where
          bst': "studies bq sid = Some bst'" "param_distribution bst' = ?reg" by auto
        have wm: "written D wr ?td
                    = merge_update D (new_TrialUpdate\<lparr>upd_values := x\<rparr>) (written D wr tw)"
          using written_merge [of D wr x tw] WriteParam by simp
        have "in_sync D tid sid ?w (with_registries ?\<rho> bY)"
        proof (rule in_syncI [where num = num and study = ?study and c = ?c and x = x
            and tw = "written D wr tw" and k = k and bst = bst' and \<rho> = ?\<rho> and bwm = bz])
          show "cached_trial_id_to_study_id_and_number ?w tid = Some (sid, num)" using m by simp
          show "cached_studies ?w sid = Some ?study" by simp
          show "tid \<in> owned_or_finished_trial_ids ?study" using o by simp
          show "cached_trials ?study num = Some ?c" by simp
          show "state ?c = RUNNING" using r by simp
          show "case updates ?study num of None \<Rightarrow> x = None
                | Some u \<Rightarrow> u = new_TrialUpdate\<lparr>upd_values := x\<rparr>" using p by simp
          show "get_trial_im (backend ?w) tid = Inr (written D wr tw)" using bq(2) by simp
          show "\<not> is_finished (state (written D wr tw))" using nf WriteParam by simp
          show "trial_id_to_study_id_and_number (backend ?w) tid = Some (sid, k)"
            using bm set_trial_im_frame(1) [OF bq(1)] by simp
          show "studies (backend ?w) sid = Some bst'" using bst' by simp
          show "set_trial_im (backend ?w) tid
                  (merge_update D (new_TrialUpdate\<lparr>upd_values := x\<rparr>) (written D wr tw))
                = Inr bz"
            using set_trial_im_overwrite [OF bq(1), of ?Y] bz wm by simp
          show "with_registries ?\<rho> bY = with_registries ?\<rho> bz" by (rule same)
          show "registries_agree ?C (?\<rho> sid) (param_distribution bst')
                  (cached_param_distribution ?study)"
            using miss(2) [OF True] bst'(2) by simp
        qed
        with wc wd show ?thesis by simp
      qed
    qed
  qed
qed

subsection \<open>The finishing call and whole runs\<close>

lemma merge_finish:
  "merge_update D (new_TrialUpdate\<lparr>upd_values := x, upd_state := Some st,
       upd_datetime_complete := Some now\<rparr>) t
     = (merge_update D (new_TrialUpdate\<lparr>upd_values := x\<rparr>) t)
         \<lparr>state := st, datetime_complete := Some now\<rparr>"
  by (cases t; cases x) (simp_all add: merge_update_def new_TrialUpdate_def)

lemma finish_cached:
  assumes m: "cached_trial_id_to_study_id_and_number w tid = Some (sid, num)"
      and s: "cached_studies w sid = Some study"
      and o: "tid \<in> owned_or_finished_trial_ids study"
      and c: "cached_trials study num = Some c"
      and r: "state c = RUNNING"
      and u: "u = (case updates study num of None \<Rightarrow> new_TrialUpdate | Some x \<Rightarrow> x)"
      and f: "is_finished st"
  shows "set_trial_state_c D w tid st now =
           (let u' = u\<lparr>upd_state := Some st, upd_datetime_complete := Some now\<rparr>
            in (fst (update_trial_backend D (backend w) tid u'),
                w\<lparr>backend := snd (update_trial_backend D (backend w) tid u'),
                  cached_studies := (cached_studies w)(sid \<mapsto>
                    study\<lparr>cached_trials := (cached_trials study)(num \<mapsto>
                             c\<lparr>state := st, datetime_complete := Some now\<rparr>),
                          updates := (updates study)(num := None)\<rparr>)\<rparr>))"
proof -
  note g = owned_cached [OF m s o c]
  have k: "check_trial_is_updatable_cached c = Inr ()"
    using r by (simp add: check_trial_is_updatable_cached_def is_finished_def)
  note ab = apply_and_buffer_eq [OF m s]
  note fl = flush_after_buffer [OF m s]
  show ?thesis
    using r f by (simp add: set_trial_state_c_def g k ab fl u Let_def)
qed

lemma finish_direct:
  assumes g: "get_trial_im b tid = Inr t" and nf: "\<not> is_finished (state t)"
      and m: "trial_id_to_study_id_and_number b tid = Some (sid, k)"
      and f: "is_finished st"
      and s1: "set_trial_im b tid (t\<lparr>state := st, datetime_complete := Some now\<rparr>) = Inr b1"
  shows "set_trial_state_im b tid st now =
           (case update_cache_im b1 tid sid of Inl e \<Rightarrow> (Inl e, b1)
            | Inr b2 \<Rightarrow> (Inr True, b2))"
proof -
  have ns: "st \<noteq> RUNNING" using f by (auto simp: is_finished_def)
  have c: "check_trial_is_updatable tid (state t) = Inr ()"
    using nf by (simp add: check_trial_is_updatable_def)
  have m1: "trial_id_to_study_id_and_number b1 tid = Some (sid, k)"
    using m set_trial_im_frame(1) [OF s1] by simp
  show ?thesis
    using ns f by (simp add: set_trial_state_im_def g c s1 m1 dict_get_def Let_def)
qed

lemma finish_update:
  assumes g: "get_trial_im b tid = Inr t" and nf: "\<not> is_finished (state t)"
      and m: "trial_id_to_study_id_and_number b tid = Some (sid, k)"
      and f: "is_finished st"
      and u: "upd_state u = Some st"
      and s1: "set_trial_im b tid (merge_update D u t) = Inr b1"
  shows "update_trial_backend D b tid u =
           (case update_cache_im b1 tid sid of Inl e \<Rightarrow> (Inl e, b1)
            | Inr b2 \<Rightarrow> (Inr True, b2))"
proof -
  have ns: "st \<noteq> RUNNING" using f by (auto simp: is_finished_def)
  have c: "check_trial_is_updatable tid (state t) = Inr ()"
    using nf by (simp add: check_trial_is_updatable_def)
  have m1: "trial_id_to_study_id_and_number b1 tid = Some (sid, k)"
    using m set_trial_im_frame(1) [OF s1] by simp
  show ?thesis
    using ns f by (simp add: update_trial_backend_def g c s1 m1 u dict_get_def)
qed

lemma sync_finish:
  fixes D :: "('d, 'p) distributions_module" and w :: "('a, 'd, 'p) CachedStorage"
  assumes sy: "in_sync D tid sid w bd" and f: "is_finished st"
  shows "fst (set_trial_state_c D w tid st now) = fst (set_trial_state_im bd tid st now) \<and>
         (\<exists>\<rho>. snd (set_trial_state_im bd tid st now)
                = with_registries \<rho> (backend (snd (set_trial_state_c D w tid st now))))"
proof -
  from sy obtain num study c x tw k bst \<rho> bw1 where
    m: "cached_trial_id_to_study_id_and_number w tid = Some (sid, num)" and
    s: "cached_studies w sid = Some study" and
    o: "tid \<in> owned_or_finished_trial_ids study" and
    c: "cached_trials study num = Some c" and r: "state c = RUNNING" and
    p: "case updates study num of None \<Rightarrow> x = None
        | Some u \<Rightarrow> u = new_TrialUpdate\<lparr>upd_values := x\<rparr>" and
    g: "get_trial_im (backend w) tid = Inr tw" and nf: "\<not> is_finished (state tw)" and
    bm: "trial_id_to_study_id_and_number (backend w) tid = Some (sid, k)" and
    bs: "studies (backend w) sid = Some bst" and
    w1: "set_trial_im (backend w) tid (merge_update D (new_TrialUpdate\<lparr>upd_values := x\<rparr>) tw)
           = Inr bw1" and
    bd: "bd = with_registries \<rho> bw1"
    unfolding in_sync_def by (elim exE conjE) (rule that; assumption)
  let ?u = "new_TrialUpdate\<lparr>upd_values := x\<rparr> :: ('a, 'd) TrialUpdate"
  let ?u' = "?u\<lparr>upd_state := Some st, upd_datetime_complete := Some now\<rparr>"
  let ?td = "merge_update D ?u tw"
  let ?Z = "?td\<lparr>state := st, datetime_complete := Some now\<rparr>"
  have u: "?u = (case updates study num of None \<Rightarrow> new_TrialUpdate | Some x \<Rightarrow> x)"
    using pending_values [OF p] by simp
  have gd: "get_trial_im bw1 tid = Inr ?td" by (rule set_trial_im_Inr_get [OF w1 g])
  have nfd: "\<not> is_finished (state ?td)" using nf by (simp add: merge_values_only)
  have md: "trial_id_to_study_id_and_number bw1 tid = Some (sid, k)"
    using bm set_trial_im_frame(1) [OF w1] by simp
  from set_trial_im_get [OF g, of ?Z] obtain b1 where
    b1: "set_trial_im (backend w) tid ?Z = Inr b1" by blast
  have mz: "merge_update D ?u' tw = ?Z" by (simp add: merge_finish)
  have b1': "set_trial_im (backend w) tid (merge_update D ?u' tw) = Inr b1"
    using b1 mz by simp
  have utb: "update_trial_backend D (backend w) tid ?u' =
               (case update_cache_im b1 tid sid of Inl e \<Rightarrow> (Inl e, b1)
                | Inr b2 \<Rightarrow> (Inr True, b2))"
    by (rule finish_update [OF g nf bm f _ b1']) simp
  have gdr: "get_trial_im (with_registries \<rho> bw1) tid = Inr ?td" using gd by simp
  have mdr: "trial_id_to_study_id_and_number (with_registries \<rho> bw1) tid = Some (sid, k)"
    using md by simp
  have sdr: "set_trial_im (with_registries \<rho> bw1) tid ?Z = Inr (with_registries \<rho> b1)"
    using set_trial_im_overwrite [OF w1, of ?Z] b1
    by (simp only: set_trial_im_with_registries) simp
  have dir: "set_trial_state_im bd tid st now =
               (case update_cache_im (with_registries \<rho> b1) tid sid of
                  Inl e \<Rightarrow> (Inl e, with_registries \<rho> b1)
                | Inr b2 \<Rightarrow> (Inr True, b2))"
    unfolding bd by (rule finish_direct [OF gdr nfd mdr f sdr])
  have cw: "set_trial_state_c D w tid st now =
              (fst (update_trial_backend D (backend w) tid ?u'),
               w\<lparr>backend := snd (update_trial_backend D (backend w) tid ?u'),
                 cached_studies := (cached_studies w)(sid \<mapsto>
                   study\<lparr>cached_trials := (cached_trials study)(num \<mapsto>
                            c\<lparr>state := st, datetime_complete := Some now\<rparr>),
                         updates := (updates study)(num := None)\<rparr>)\<rparr>)"
    using finish_cached [OF m s o c r u f, of D now] by (simp add: Let_def)
  show ?thesis
  proof (cases "update_cache_im b1 tid sid")
    case (Inl e)
    then have "update_cache_im (with_registries \<rho> b1) tid sid = Inl e"
      by (simp add: update_cache_im_with_registries)
    with Inl dir cw utb show ?thesis by auto
  next
    case (Inr b2)
    then have "update_cache_im (with_registries \<rho> b1) tid sid = Inr (with_registries \<rho> b2)"
      by (simp add: update_cache_im_with_registries)
    with Inr dir cw utb show ?thesis by auto
  qed
qed

lemma sync_run:
  fixes D :: "('d, 'p) distributions_module" and w :: "('a, 'd, 'p) CachedStorage"
  assumes eq: "equivp (check_distribution_compatibility D)" and f: "is_finished st"
  shows "in_sync D tid sid w bd \<Longrightarrow>
         fst (run_cached D w tid ws st now) = fst (run_direct D bd tid ws st now) \<and>
         (\<forall>ok. fst (run_cached D w tid ws st now) = Inr ok \<longrightarrow>
            (\<exists>\<rho>. snd (run_direct D bd tid ws st now)
                   = with_registries \<rho> (backend (snd (run_cached D w tid ws st now)))))"
proof (induction ws arbitrary: w bd)
  case Nil
  from sync_finish [OF Nil f, of now] show ?case by simp
next
  case (Cons wr ws)
  obtain res w' where wc: "write_cached D w tid wr = (res, w')"
    by (cases "write_cached D w tid wr")
  from sync_write [OF eq Cons.prems, of wr] show ?case
  proof
    assume "\<exists>e. fst (write_cached D w tid wr) = Inl e \<and> write_direct D bd tid wr = Inl e"
    then obtain e where "res = Inl e" "write_direct D bd tid wr = Inl e" using wc by auto
    with wc show ?case by simp
  next
    assume "\<exists>bd'. fst (write_cached D w tid wr) = Inr () \<and> write_direct D bd tid wr = Inr bd' \<and>
              in_sync D tid sid (snd (write_cached D w tid wr)) bd'"
    then obtain bd' where a: "res = Inr ()" "write_direct D bd tid wr = Inr bd'"
      "in_sync D tid sid w' bd'" using wc by auto
    from Cons.IH [OF a(3)] wc a(1,2) show ?case by simp
  qed
qed

lemma with_registries_own:
  "with_registries (\<lambda>sid. case studies b sid of None \<Rightarrow> Map.empty
                          | Some st \<Rightarrow> param_distribution st) b = b"
proof -
  have "map_option (\<lambda>st. st\<lparr>param_distribution :=
            (case studies b sid of None \<Rightarrow> Map.empty | Some st \<Rightarrow> param_distribution st)\<rparr>)
          (studies b sid) = studies b sid" for sid
    by (cases "studies b sid") simp_all
  then show ?thesis by (simp add: with_registries_def)
qed

text \<open>
  Flush batching is transparent for a trial that the wrapper owns with a RUNNING
  snapshot and nothing pending, when the backend holds the trial, not finished, in the
  same study, and every distribution in the wrapper's cache is compatible with the one
  the backend has registered under that name. Compatibility of distributions is taken
  to be an equivalence relation (same family, same choices; \<^verbatim>\<open>optuna.distributions\<close> is
  not among the sources). Then every sequence \<open>ws\<close> of field writes followed by a finishing
  \<^verbatim>\<open>set_trial_state\<close> ends in the same way through the wrapper and directly on the
  backend, with the same exception or the same result, and when it returns, the record
  of the trial persisted in the wrapper's backend equals the record that the direct run
  leaves in the storage.
\<close>

lemma runs_agree_on_RUNNING_snapshot:
  fixes D :: "('d, 'p) distributions_module" and w :: "('a, 'd, 'p) CachedStorage"
  assumes "equivp (check_distribution_compatibility D)"
      and "cached_trial_id_to_study_id_and_number w tid = Some (sid, num)"
      and "cached_studies w sid = Some study"
      and "tid \<in> owned_or_finished_trial_ids study"
      and "cached_trials study num = Some c" and "state c = RUNNING"
      and "updates study num = None"
      and "get_trial_im (backend w) tid = Inr t" and "\<not> is_finished (state t)"
      and "trial_id_to_study_id_and_number (backend w) tid = Some (sid, k)"
      and "studies (backend w) sid = Some bst"
      and "\<forall>n d. cached_param_distribution study n = Some d \<longrightarrow>
             (\<exists>b. param_distribution bst n = Some b \<and> check_distribution_compatibility D b d)"
      and "is_finished st"
  shows "fst (run_cached D w tid ws st now) = fst (run_direct D (backend w) tid ws st now) \<and>
         (\<forall>ok. fst (run_cached D w tid ws st now) = Inr ok \<longrightarrow>
            get_trial_im (backend (snd (run_cached D w tid ws st now))) tid
              = get_trial_im (snd (run_direct D (backend w) tid ws st now)) tid)"
proof -
  let ?\<rho> = "\<lambda>sid. case studies (backend w) sid of None \<Rightarrow> Map.empty
                    | Some st \<Rightarrow> param_distribution st"
  have "in_sync D tid sid w (backend w)"
  proof (rule in_syncI [where num = num and study = study and c = c and x = None and tw = t
          and k = k and bst = bst and \<rho> = ?\<rho> and bwm = "backend w"])
    show "case updates study num of None \<Rightarrow> None = None
          | Some u \<Rightarrow> u = new_TrialUpdate\<lparr>upd_values := None\<rparr>" using assms(7) by simp
    show "set_trial_im (backend w) tid
            (merge_update D (new_TrialUpdate\<lparr>upd_values := None\<rparr>) t) = Inr (backend w)"
      using set_trial_im_same [OF assms(8)] by (simp add: merge_values_only)
    show "backend w = with_registries ?\<rho> (backend w)" by (simp only: with_registries_own)
    show "registries_agree (check_distribution_compatibility D) (?\<rho> sid)
            (param_distribution bst) (cached_param_distribution study)"
      using assms(11,12) equivp_reflp [OF assms(1)] by (simp add: registries_agree_def)
  qed (rule assms)+
  from sync_run [OF assms(1) assms(13) this, of ws now] show ?thesis
    by (metis get_trial_im_with_registries)
qed

lemma runs_agree_example:
  "fst (run_cached example_distributions cached_running 0
          [WriteValues [Finite 1], WriteIntermediateValue 0 (Finite (1 / 2)), WriteParam ''x'' (Finite 1) ''uniform'',
           WriteParam ''x'' (Finite 2) ''uniform'', WriteUserAttr ''k'' ''v'',
           WriteSystemAttr ''k'' ''v''] COMPLETE 2) = Inr True \<and>
   get_trial_im (backend (snd (run_cached example_distributions cached_running 0
          [WriteValues [Finite 1], WriteIntermediateValue 0 (Finite (1 / 2)), WriteParam ''x'' (Finite 1) ''uniform'',
           WriteParam ''x'' (Finite 2) ''uniform'', WriteUserAttr ''k'' ''v'',
           WriteSystemAttr ''k'' ''v''] COMPLETE 2))) 0
     = Inr (running_trial\<lparr>state := COMPLETE, trial_values := Some [Finite 1],
              datetime_complete := Some 2, params := [''x'' \<mapsto> Finite 2],
              distributions := [''x'' \<mapsto> ''uniform''], user_attrs := [''k'' \<mapsto> ''v''],
              system_attrs := [''k'' \<mapsto> ''v''], intermediate_values := [0 \<mapsto> Finite (1 / 2)]\<rparr>)"
proof -
  let ?ws = "[WriteValues [Finite 1], WriteIntermediateValue 0 (Finite (1 / 2)), WriteParam ''x'' (Finite 1) ''uniform'',
              WriteParam ''x'' (Finite 2) ''uniform'', WriteUserAttr ''k'' ''v'',
              WriteSystemAttr ''k'' ''v'']"
  note defs = im_running_eq example_distributions_def running_trial_def study_info_def im_defs
    set_trial_values_im_def set_trial_intermediate_value_im_def set_trial_param_im_def
    set_trial_user_attr_im_def set_trial_system_attr_im_def Let_def
  have result: "fst (run_direct example_distributions (backend cached_running) 0 ?ws COMPLETE 2)
                  = Inr True"
    by (simp add: cached_running_facts(7) defs)
  have persisted: "get_trial_im
                  (snd (run_direct example_distributions (backend cached_running) 0 ?ws COMPLETE 2)) 0
     = Inr (running_trial\<lparr>state := COMPLETE, trial_values := Some [Finite 1],
              datetime_complete := Some 2, params := [''x'' \<mapsto> Finite 2],
              distributions := [''x'' \<mapsto> ''uniform''], user_attrs := [''k'' \<mapsto> ''v''],
              system_attrs := [''k'' \<mapsto> ''v''], intermediate_values := [0 \<mapsto> Finite (1 / 2)]\<rparr>)"
    by (simp add: cached_running_facts(7) defs)
  have "fst (run_cached example_distributions cached_running 0 ?ws COMPLETE 2)
          = fst (run_direct example_distributions (backend cached_running) 0 ?ws COMPLETE 2) \<and>
        (\<forall>ok. fst (run_cached example_distributions cached_running 0 ?ws COMPLETE 2) = Inr ok \<longrightarrow>
           get_trial_im (backend (snd (run_cached example_distributions cached_running 0 ?ws
             COMPLETE 2))) 0
           = get_trial_im (snd (run_direct example_distributions (backend cached_running) 0 ?ws
               COMPLETE 2)) 0)"
    by (rule runs_agree_on_RUNNING_snapshot [where sid = 0 and num = 0
          and study = cached_running_study and c = running_trial and t = running_trial
          and k = 0 and bst = "study_info [running_trial] None"])
       (simp_all add: cached_running_facts cached_running_study_def new_CachedStudyInfo_def
          identity_equivp defs)
  with result persisted show ?thesis by (auto simp del: run_cached.simps run_direct.simps)
qed

text \<open>
  C1 fails on a trial that the wrapper owns with a WAITING snapshot, the state that
  \<^verbatim>\<open>set_trial_state(trial_id, WAITING)\<close> leaves behind on an owned RUNNING trial. The trial
  is owned and not finished, in the snapshot and in the backend. Through the wrapper the
  run of \<^verbatim>\<open>set_trial_values\<close> and a finishing \<^verbatim>\<open>set_trial_state\<close> ends in the
  \<^verbatim>\<open>AssertionError\<close> of the wrapper's \<^verbatim>\<open>assert cached_trial.state != TrialState.WAITING\<close>,
  and the backend's record stays WAITING without the value; directly on the backend the
  same run returns True and leaves the trial COMPLETE with the value.
\<close>

theorem finish_of_owned_WAITING_trial_diverges:
  "get_cached_trial cached_waiting 0 = Inr (Some (running_trial\<lparr>state := WAITING\<rparr>)) \<and>
   get_trial_im (backend cached_waiting) 0 = Inr (running_trial\<lparr>state := WAITING\<rparr>) \<and>
   fst (run_cached example_distributions cached_waiting 0 [WriteValues [Finite 1]] COMPLETE 3)
     = Inl AssertionError \<and>
   get_trial_im (backend (snd (run_cached example_distributions cached_waiting 0
       [WriteValues [Finite 1]] COMPLETE 3))) 0
     = Inr (running_trial\<lparr>state := WAITING\<rparr>) \<and>
   fst (run_direct example_distributions (backend cached_waiting) 0
       [WriteValues [Finite 1]] COMPLETE 3) = Inr True \<and>
   get_trial_im (snd (run_direct example_distributions (backend cached_waiting) 0
       [WriteValues [Finite 1]] COMPLETE 3)) 0
     = Inr (running_trial\<lparr>state := COMPLETE, trial_values := Some [Finite 1],
              datetime_complete := Some 3\<rparr>)"
  by (simp add: cached_waiting_def cached_running_eq im_running_eq im_defs c_defs
        Let_def running_trial_def study_info_def map_add_def set_trial_values_c_def
        set_trial_values_im_def)

section \<open>The best-trial tracker\<close>

subsection \<open>Comparison of floats and Python's \<^verbatim>\<open>max\<close> and \<^verbatim>\<open>min\<close>\<close>

lemma float_lt_trans: "float_lt a b \<Longrightarrow> float_lt b c \<Longrightarrow> float_lt a c"
  by (cases a; cases b; cases c) simp_all

lemma float_lt_neg_trans:
  "a \<noteq> NaN \<Longrightarrow> b \<noteq> NaN \<Longrightarrow> c \<noteq> NaN \<Longrightarrow> \<not> float_lt a b \<Longrightarrow> \<not> float_lt b c
     \<Longrightarrow> \<not> float_lt a c"
  by (cases a; cases b; cases c) simp_all

lemma float_lt_total:
  "a \<noteq> NaN \<Longrightarrow> b \<noteq> NaN \<Longrightarrow> \<not> float_lt a b \<Longrightarrow> \<not> float_lt b a \<Longrightarrow> a = b"
  by (cases a; cases b) simp_all

lemma float_lt_irrefl [simp]: "\<not> float_lt a a"
  by (cases a) simp_all

lemma better_irrefl [simp]: "\<not> better M a a"
  by (simp add: better_def)

lemma better_trans: "better M a b \<Longrightarrow> better M b c \<Longrightarrow> better M a c"
  by (auto simp: better_def intro: float_lt_trans split: if_splits)

lemma better_neg_trans:
  "a \<noteq> NaN \<Longrightarrow> b \<noteq> NaN \<Longrightarrow> c \<noteq> NaN \<Longrightarrow> \<not> better M a b \<Longrightarrow> \<not> better M b c
     \<Longrightarrow> \<not> better M a c"
  using float_lt_neg_trans [of a b c] float_lt_neg_trans [of c b a]
  by (auto simp: better_def split: if_splits)

lemma better_total:
  "a \<noteq> NaN \<Longrightarrow> b \<noteq> NaN \<Longrightarrow> \<not> better M a b \<Longrightarrow> \<not> better M b a \<Longrightarrow> a = b"
  using float_lt_total [of a b] by (auto simp: better_def split: if_splits)

lemma value_single: "trial_values t = Some [v] \<Longrightarrow> value t = Inr (Some v)"
  by (simp add: value_def)

lemma length_one: "map_option length vs = Some (Suc 0) \<longleftrightarrow> (\<exists>v. vs = Some [v])"
  by (cases vs) (auto simp: length_Suc_conv)

lemma py_extremum_loop_step:
  "trial_values x = Some [v] \<Longrightarrow>
   py_extremum_loop is_max item (Some iv) (x # xs) =
     (if better is_max v iv then py_extremum_loop is_max x (Some v) xs
      else py_extremum_loop is_max item (Some iv) xs)"
  by (simp add: value_single better_def)

lemma py_extremum_loop_mem:
  assumes "\<forall>x\<in>set xs. \<exists>v. trial_values x = Some [v]"
  shows "\<exists>m. py_extremum_loop is_max item (Some iv) xs = Inr m \<and> m \<in> insert item (set xs)"
  using assms
proof (induction xs arbitrary: item iv)
  case Nil
  then show ?case by simp
next
  case (Cons x xs)
  from Cons.prems obtain v where v: "trial_values x = Some [v]" by auto
  have rest: "\<forall>y\<in>set xs. \<exists>w. trial_values y = Some [w]" using Cons.prems by auto
  from Cons.IH [OF rest, of x v] Cons.IH [OF rest, of item iv]
  show ?case by (auto simp: py_extremum_loop_step [OF v] simp del: py_extremum_loop.simps)
qed

lemma py_extremum_mem:
  assumes "xs \<noteq> []" and "\<forall>x\<in>set xs. \<exists>v. trial_values x = Some [v]"
  shows "\<exists>m. py_extremum is_max xs = Inr m \<and> m \<in> set xs"
proof (cases xs)
  case Nil with assms show ?thesis by simp
next
  case (Cons x ys)
  from assms(2) Cons obtain v where v: "trial_values x = Some [v]" by auto
  have rest: "\<forall>y\<in>set ys. \<exists>w. trial_values y = Some [w]" using assms(2) Cons by auto
  from py_extremum_loop_mem [OF rest, of is_max x v] Cons v
  show ?thesis by (auto simp: py_extremum_def value_single)
qed

lemma py_extremum_loop_snoc:
  assumes "\<forall>x\<in>set xs. \<exists>v. trial_values x = Some [v]"
      and "py_extremum_loop is_max item (Some iv) xs = Inr m"
      and "trial_values item = Some [iv]"
      and "trial_values m = Some [mv]" and "trial_values y = Some [yv]"
  shows "py_extremum_loop is_max item (Some iv) (xs @ [y])
           = Inr (if better is_max yv mv then y else m)"
  using assms
proof (induction xs arbitrary: item iv)
  case Nil
  then show ?case by (simp add: value_single better_def)
next
  case (Cons x xs)
  from Cons.prems(1) obtain v where v: "trial_values x = Some [v]" by auto
  have rest: "\<forall>y\<in>set xs. \<exists>w. trial_values y = Some [w]" using Cons.prems(1) by auto
  show ?case
  proof (cases "better is_max v iv")
    case True
    with Cons.prems(2) v have "py_extremum_loop is_max x (Some v) xs = Inr m"
      by (simp add: py_extremum_loop_step del: py_extremum_loop.simps)
    from Cons.IH [OF rest this v Cons.prems(4,5)] True v show ?thesis
      by (simp add: py_extremum_loop_step del: py_extremum_loop.simps)
  next
    case False
    with Cons.prems(2) v have "py_extremum_loop is_max item (Some iv) xs = Inr m"
      by (simp add: py_extremum_loop_step del: py_extremum_loop.simps)
    from Cons.IH [OF rest this Cons.prems(3,4,5)] False v show ?thesis
      by (simp add: py_extremum_loop_step del: py_extremum_loop.simps)
  qed
qed

lemma py_extremum_snoc:
  assumes "xs \<noteq> []" and "\<forall>x\<in>set xs. \<exists>v. trial_values x = Some [v]"
      and "py_extremum is_max xs = Inr m"
      and "trial_values m = Some [mv]" and "trial_values y = Some [yv]"
  shows "py_extremum is_max (xs @ [y]) = Inr (if better is_max yv mv then y else m)"
proof (cases xs)
  case Nil with assms show ?thesis by simp
next
  case (Cons x ys)
  from assms(2) Cons obtain v where v: "trial_values x = Some [v]" by auto
  have rest: "\<forall>y\<in>set ys. \<exists>w. trial_values y = Some [w]" using assms(2) Cons by auto
  have l: "py_extremum_loop is_max x (Some v) ys = Inr m"
    using assms(3) Cons v by (simp add: py_extremum_def value_single)
  from py_extremum_loop_snoc [OF rest l v assms(4,5)] Cons v
  show ?thesis by (simp add: py_extremum_def value_single)
qed

lemma py_extremum_single:
  "trial_values y = Some [yv] \<Longrightarrow> py_extremum is_max [y] = Inr y"
  by (simp add: py_extremum_def value_single)

text \<open>Without NaN among the values, no item is better than the one that is returned.\<close>

lemma py_extremum_loop_opt:
  assumes "\<forall>x\<in>set xs. \<exists>v. trial_values x = Some [v] \<and> v \<noteq> NaN"
      and "trial_values item = Some [iv]" and "iv \<noteq> NaN"
      and "py_extremum_loop is_max item (Some iv) xs = Inr m"
      and "trial_values m = Some [mv]"
  shows "\<forall>x\<in>insert item (set xs). \<forall>v. trial_values x = Some [v] \<longrightarrow> \<not> better is_max v mv"
  using assms
proof (induction xs arbitrary: item iv)
  case Nil
  then show ?case by auto
next
  case (Cons x xs)
  from Cons.prems(1) obtain v where v: "trial_values x = Some [v]" "v \<noteq> NaN" by auto
  have rest: "\<forall>y\<in>set xs. \<exists>w. trial_values y = Some [w] \<and> w \<noteq> NaN" using Cons.prems(1) by auto
  have rest': "\<forall>y\<in>set xs. \<exists>w. trial_values y = Some [w]" using rest by blast
  from py_extremum_loop_mem [OF rest', of is_max x v] py_extremum_loop_mem [OF rest', of is_max item iv]
    Cons.prems(4) v(1)
  have mem: "m \<in> insert x (insert item (set xs))"
    by (auto simp: py_extremum_loop_step simp del: py_extremum_loop.simps split: if_splits)
  have mvn: "mv \<noteq> NaN"
    using mem Cons.prems(2,3,5) v rest by auto
  show ?case
  proof (cases "better is_max v iv")
    case True
    with Cons.prems(4) v have l: "py_extremum_loop is_max x (Some v) xs = Inr m"
      by (simp add: py_extremum_loop_step del: py_extremum_loop.simps)
    note IH = Cons.IH [OF rest v(1,2) l Cons.prems(5)]
    have "\<not> better is_max v mv" using IH v(1) by auto
    have "\<not> better is_max iv mv"
    proof
      assume "better is_max iv mv"
      with True have "better is_max v mv" by (rule better_trans)
      with \<open>\<not> better is_max v mv\<close> show False by simp
    qed
    with IH Cons.prems(2) show ?thesis by auto
  next
    case False
    with Cons.prems(4) v have l: "py_extremum_loop is_max item (Some iv) xs = Inr m"
      by (simp add: py_extremum_loop_step del: py_extremum_loop.simps)
    note IH = Cons.IH [OF rest Cons.prems(2,3) l Cons.prems(5)]
    have "\<not> better is_max iv mv" using IH Cons.prems(2) by auto
    with False have "\<not> better is_max v mv"
      using better_neg_trans [OF v(2) Cons.prems(3) mvn] by blast
    with IH v(1) show ?thesis by auto
  qed
qed

lemma py_extremum_opt:
  assumes "\<forall>x\<in>set xs. \<exists>v. trial_values x = Some [v] \<and> v \<noteq> NaN"
      and "py_extremum is_max xs = Inr m" and "trial_values m = Some [mv]"
  shows "\<forall>x\<in>set xs. \<forall>v. trial_values x = Some [v] \<longrightarrow> \<not> better is_max v mv"
proof (cases xs)
  case Nil with assms show ?thesis by simp
next
  case (Cons x ys)
  from assms(1) Cons obtain v where v: "trial_values x = Some [v]" "v \<noteq> NaN" by auto
  have rest: "\<forall>y\<in>set ys. \<exists>w. trial_values y = Some [w] \<and> w \<noteq> NaN" using assms(1) Cons by auto
  have l: "py_extremum_loop is_max x (Some v) ys = Inr m"
    using assms(2) Cons v by (simp add: py_extremum_def value_single)
  from py_extremum_loop_opt [OF rest v l assms(3)] Cons show ?thesis by simp
qed

lemma optimum_value_unique:
  assumes "m \<in> S" "trial_values m = Some [mv]" "mv \<noteq> NaN"
      and "\<forall>x\<in>S. \<forall>v. trial_values x = Some [v] \<longrightarrow> \<not> better is_max v mv"
      and "n \<in> S" "trial_values n = Some [nv]" "nv \<noteq> NaN"
      and "\<forall>x\<in>S. \<forall>v. trial_values x = Some [v] \<longrightarrow> \<not> better is_max v nv"
  shows "mv = nv"
proof -
  have "\<not> better is_max nv mv" "\<not> better is_max mv nv" using assms by auto
  with assms(3,7) show ?thesis using better_total by blast
qed

subsection \<open>One completion on the Redis storage\<close>

lemma get_all_trials_loop_all:
  assumes "\<forall>tid\<in>set l. key_trial r tid \<noteq> None"
  shows "get_all_trials_loop r None l = Inr (map (\<lambda>tid. the (key_trial r tid)) l)"
  using assms
  by (induction l) (auto simp: get_trial_r_def check_trial_id_r_def domIff)

lemma update_cache_r_COMPLETE:
  assumes k: "key_trial r tid = Some t" and c: "state t = COMPLETE"
      and v: "trial_values t = Some [v]"
      and sid: "key_trial_study_id r tid = Some sid"
      and d: "get_study_directions_r r sid = Inr [d]"
      and sm: "key_study_summary r sid = Some sm"
      and best: "key_best_trial r sid = None \<or>
                   key_best_trial r sid = Some b \<and> key_trial r b = Some bt \<and>
                   trial_values bt = Some [bv]"
  shows "update_cache_r r tid =
           (Inr (),
            if key_best_trial r sid = None \<or> better (d = MAXIMIZE) v bv
            then r\<lparr>key_best_trial := (key_best_trial r)(sid \<mapsto> tid),
                   key_study_summary := (key_study_summary r)
                     (sid \<mapsto> sm\<lparr>summary_best_trial := Some t\<rparr>)\<rparr>
            else r)"
proof -
  have g: "get_trial_r r tid = Inr t" using k by (simp add: get_trial_r_Inr)
  have s: "get_study_id_from_trial_id_r r tid = Inr sid"
    using sid by (simp add: get_study_id_from_trial_id_r_def dict_get_def)
  have l0: "list_get [d] 0 = Inr d" by (simp add: list_get_def py_index_def)
  have sb: "set_best_trial_r r sid tid =
              Inr (r\<lparr>key_best_trial := (key_best_trial r)(sid \<mapsto> tid),
                     key_study_summary := (key_study_summary r)
                       (sid \<mapsto> sm\<lparr>summary_best_trial := Some t\<rparr>)\<rparr>)"
    using sm g by (simp add: set_best_trial_r_def get_study_summary_r_def)
  have vt: "value t = Inr (Some v)" using v by (rule value_single)
  show ?thesis
  proof (cases "key_best_trial r sid")
    case None
    then show ?thesis
      using g c s d l0 sb by (simp add: update_cache_r_def domIff)
  next
    case (Some b')
    with best have b: "b' = b" "key_trial r b = Some bt" "trial_values bt = Some [bv]"
      by auto
    have gb: "get_best_trial_r r sid = Inr (bt, r)"
      using Some b by (simp add: get_best_trial_r_def get_trial_r_def check_trial_id_r_def domIff)
    have vb: "value bt = Inr (Some bv)" using b(3) by (rule value_single)
    show ?thesis
      using g c s d l0 sb gb vb vt Some
      by (simp add: update_cache_r_def domIff better_def)
  qed
qed

lemma finish_r_step:
  assumes k: "key_trial r tid = Some t" and nf: "\<not> is_finished (state t)"
      and v: "trial_values t = Some [v]"
      and sid: "key_trial_study_id r tid = Some sid"
      and d: "get_study_directions_r r sid = Inr [d]"
      and sm: "key_study_summary r sid \<noteq> None"
      and best: "key_best_trial r sid = None \<or>
                   key_best_trial r sid = Some b \<and>
                   b \<noteq> tid \<and> key_trial r b = Some bt \<and> trial_values bt = Some [bv]"
  shows "\<exists>r'. set_trial_state_r r tid COMPLETE now = (Inr True, r') \<and>
           key_trial r' = (key_trial r)(tid \<mapsto> t\<lparr>state := COMPLETE, datetime_complete := Some now\<rparr>) \<and>
           key_study_direction r' = key_study_direction r \<and>
           key_study_trial_list r' = key_study_trial_list r \<and>
           key_study_id_study_name r' = key_study_id_study_name r \<and>
           key_study_summary r' sid \<noteq> None \<and>
           key_best_trial r' sid =
             Some (if key_best_trial r sid = None \<or> better (d = MAXIMIZE) v bv then tid else b)"
proof -
  let ?t' = "t\<lparr>state := COMPLETE, datetime_complete := Some now\<rparr>"
  define r1 where "r1 = r\<lparr>key_trial := (key_trial r)(tid \<mapsto> ?t')\<rparr>"
  from sm obtain sm' where sm': "key_study_summary r sid = Some sm'" by auto
  have c: "check_trial_id_r r tid = Inr ()" using k by (simp add: check_trial_id_r_def domIff)
  have g: "get_trial_r r tid = Inr t" using k by (simp add: get_trial_r_Inr)
  have u: "check_trial_is_updatable tid (state t) = Inr ()"
    using nf by (simp add: check_trial_is_updatable_def)
  have k1: "key_trial r1 tid = Some ?t'" by (simp add: r1_def)
  have c1: "state ?t' = COMPLETE" by simp
  have v1: "trial_values ?t' = Some [v]" using v by simp
  have s1: "key_trial_study_id r1 tid = Some sid" using sid by (simp add: r1_def)
  have d1: "get_study_directions_r r1 sid = Inr [d]"
    using d by (simp add: r1_def get_study_directions_r_def)
  have m1: "key_study_summary r1 sid = Some sm'" using sm' by (simp add: r1_def)
  have b1: "key_best_trial r1 sid = None \<or>
            key_best_trial r1 sid = Some b \<and> key_trial r1 b = Some bt \<and>
            trial_values bt = Some [bv]"
    using best by (auto simp: r1_def)
  note uc = update_cache_r_COMPLETE [OF k1 c1 v1 s1 d1 m1 b1]
  have bp: "key_best_trial r1 sid = key_best_trial r sid" by (simp add: r1_def)
  define r2 where "r2 = (if key_best_trial r sid = None \<or> better (d = MAXIMIZE) v bv
            then r1\<lparr>key_best_trial := (key_best_trial r1)(sid \<mapsto> tid),
                   key_study_summary := (key_study_summary r1)
                     (sid \<mapsto> sm'\<lparr>summary_best_trial := Some ?t'\<rparr>)\<rparr>
            else r1)"
  have uc2: "update_cache_r r1 tid = (Inr (), r2)" using uc by (simp add: r2_def bp)
  have s2: "get_study_id_from_trial_id_r r2 tid = Inr sid"
    using sid by (simp add: r2_def r1_def get_study_id_from_trial_id_r_def dict_get_def)
  have step: "set_trial_state_r r tid COMPLETE now =
                (Inr True, r2\<lparr>key_study_heartbeats := hdel (key_study_heartbeats r2) sid tid\<rparr>)"
    using c g u uc2 s2
    by (simp add: set_trial_state_r_def is_finished_def Let_def r1_def [symmetric])
  have f: "key_trial r2 = (key_trial r)(tid \<mapsto> ?t')"
    "key_study_direction r2 = key_study_direction r"
    "key_study_trial_list r2 = key_study_trial_list r"
    "key_study_id_study_name r2 = key_study_id_study_name r"
    "key_study_summary r2 sid \<noteq> None"
    using sm' by (simp_all add: r2_def r1_def)
  have p: "key_best_trial r2 sid =
             Some (if key_best_trial r sid = None \<or> better (d = MAXIMIZE) v bv then tid else b)"
    using best by (auto simp: r2_def r1_def)
  show ?thesis
    using step f p by simp
qed

lemma create_new_trial_r_eq:
  assumes "check_study_id_r r sid = Inr ()"
      and "tid = next_trial_id_r r"
      and "t' = tmpl\<lparr>number := incr (key_study_trial_number r sid), trial_id := tid\<rparr>"
      and "r1 = r\<lparr>key_trial_counter := Some tid,
                     key_study_trial_number :=
                       (key_study_trial_number r)(sid \<mapsto> incr (key_study_trial_number r sid)),
                     key_trial := (key_trial r)(tid \<mapsto> t'),
                     key_trial_study_id := (key_trial_study_id r)(tid \<mapsto> sid),
                     key_study_trial_list := (key_study_trial_list r)(sid \<mapsto>
                        (case key_study_trial_list r sid of None \<Rightarrow> [] | Some l \<Rightarrow> l)
                          @ [tid])\<rparr>"
      and "get_study_summary_r r1 sid = Inr sm"
      and "get_study_trials_r r1 sid = Inr tids"
      and "get_all_trials_r r1 sid None = Inr all_trials"
      and "r2 = r1\<lparr>key_study_summary := (key_study_summary r1)(sid \<mapsto>
                    sm\<lparr>summary_n_trials := length tids,
                       summary_datetime_start := min_datetime_start all_trials\<rparr>)\<rparr>"
      and "update_cache_r r2 tid = (Inr (), r3)"
      and "is_finished (state t')"
  shows "create_new_trial_r r sid (Some tmpl) now = (Inr tid, r3)"
  using assms unfolding create_new_trial_r_def next_trial_id_r_def
  by (simp add: Let_def)

lemma seed_r_step:
  assumes tc: "state tmpl = COMPLETE" and tv: "trial_values tmpl = Some [v]"
      and fresh: "key_trial r (next_trial_id_r r) = None"
      and d: "get_study_directions_r r sid = Inr [d]"
      and sm: "key_study_summary r sid \<noteq> None"
      and nm: "key_study_id_study_name r sid \<noteq> None"
      and recs: "\<forall>x\<in>set (study_trial_list_r r sid). key_trial r x \<noteq> None"
      and best: "key_best_trial r sid = None \<or>
                   key_best_trial r sid = Some b \<and> key_trial r b = Some bt \<and>
                   trial_values bt = Some [bv]"
      and tid: "tid = next_trial_id_r r"
      and t': "t' = tmpl\<lparr>number := incr (key_study_trial_number r sid), trial_id := tid\<rparr>"
  shows "\<exists>r'. create_new_trial_r r sid (Some tmpl) now = (Inr tid, r') \<and>
           key_trial r' = (key_trial r)(tid \<mapsto> t') \<and>
           key_study_direction r' = key_study_direction r \<and>
           study_trial_list_r r' sid = study_trial_list_r r sid @ [tid] \<and>
           key_study_id_study_name r' = key_study_id_study_name r \<and>
           key_study_summary r' sid \<noteq> None \<and>
           key_best_trial r' sid =
             Some (if key_best_trial r sid = None \<or> better (d = MAXIMIZE) v bv then tid else b)"
proof -
  let ?l = "study_trial_list_r r sid"
  define r1 where "r1 = r\<lparr>key_trial_counter := Some tid,
                     key_study_trial_number :=
                       (key_study_trial_number r)(sid \<mapsto> incr (key_study_trial_number r sid)),
                     key_trial := (key_trial r)(tid \<mapsto> t'),
                     key_trial_study_id := (key_trial_study_id r)(tid \<mapsto> sid),
                     key_study_trial_list := (key_study_trial_list r)(sid \<mapsto> ?l @ [tid])\<rparr>"
  from sm obtain sm' where sm': "key_study_summary r sid = Some sm'" by auto
  have cs: "check_study_id_r r sid = Inr ()" using nm by (simp add: check_study_id_r_def domIff)
  have gs: "get_study_summary_r r1 sid = Inr sm'"
    using sm' by (simp add: get_study_summary_r_def r1_def)
  have gt: "get_study_trials_r r1 sid = Inr (?l @ [tid])"
    using nm by (simp add: get_study_trials_r_def check_study_id_r_def domIff r1_def)
  have all1: "\<forall>x\<in>set (?l @ [tid]). key_trial r1 x \<noteq> None"
    using recs by (auto simp: r1_def)
  have ga: "get_all_trials_r r1 sid None
              = Inr (map (\<lambda>x. the (key_trial r1 x)) (?l @ [tid]))"
    using get_all_trials_loop_all [OF all1] gt nm
    by (simp add: get_all_trials_r_def check_study_id_r_def domIff r1_def)
  define sm2 where "sm2 = sm'\<lparr>summary_n_trials := length (?l @ [tid]),
      summary_datetime_start :=
        min_datetime_start (map (\<lambda>x. the (key_trial r1 x)) (?l @ [tid]))\<rparr>"
  define r2 where "r2 = r1\<lparr>key_study_summary := (key_study_summary r1)(sid \<mapsto> sm2)\<rparr>"
  have k2: "key_trial r2 tid = Some t'" by (simp add: r2_def r1_def)
  have c2: "state t' = COMPLETE" using tc t' by simp
  have v2: "trial_values t' = Some [v]" using tv t' by simp
  have s2: "key_trial_study_id r2 tid = Some sid" by (simp add: r2_def r1_def)
  have d2: "get_study_directions_r r2 sid = Inr [d]"
    using d by (simp add: r2_def r1_def get_study_directions_r_def)
  have m2: "key_study_summary r2 sid = Some sm2" by (simp add: r2_def)
  have bne: "key_best_trial r sid = Some b \<Longrightarrow> key_trial r b = Some bt \<Longrightarrow> b \<noteq> tid"
    using fresh tid by auto
  have b2: "key_best_trial r2 sid = None \<or>
            key_best_trial r2 sid = Some b \<and> key_trial r2 b = Some bt \<and>
            trial_values bt = Some [bv]"
    using best bne by (auto simp: r2_def r1_def)
  note uc = update_cache_r_COMPLETE [OF k2 c2 v2 s2 d2 m2 b2]
  have bp: "key_best_trial r2 sid = key_best_trial r sid" by (simp add: r2_def r1_def)
  define r3 where "r3 = (if key_best_trial r sid = None \<or> better (d = MAXIMIZE) v bv
            then r2\<lparr>key_best_trial := (key_best_trial r2)(sid \<mapsto> tid),
                   key_study_summary := (key_study_summary r2)
                     (sid \<mapsto> sm2\<lparr>summary_best_trial := Some t'\<rparr>)\<rparr>
            else r2)"
  have uc3: "update_cache_r r2 tid = (Inr (), r3)" using uc by (simp add: r3_def bp)
  have fin: "is_finished (state t')" using c2 by (simp add: is_finished_def)
  have r1': "r1 = r\<lparr>key_trial_counter := Some tid,
                     key_study_trial_number :=
                       (key_study_trial_number r)(sid \<mapsto> incr (key_study_trial_number r sid)),
                     key_trial := (key_trial r)(tid \<mapsto> t'),
                     key_trial_study_id := (key_trial_study_id r)(tid \<mapsto> sid),
                     key_study_trial_list := (key_study_trial_list r)(sid \<mapsto>
                        (case key_study_trial_list r sid of None \<Rightarrow> [] | Some l \<Rightarrow> l)
                          @ [tid])\<rparr>"
    by (simp add: r1_def study_trial_list_r_def)
  have r2': "r2 = r1\<lparr>key_study_summary := (key_study_summary r1)(sid \<mapsto>
                    sm'\<lparr>summary_n_trials := length (?l @ [tid]),
                       summary_datetime_start := min_datetime_start
                         (map (\<lambda>x. the (key_trial r1 x)) (?l @ [tid]))\<rparr>)\<rparr>"
    by (simp only: r2_def sm2_def)
  have step: "create_new_trial_r r sid (Some tmpl) now = (Inr tid, r3)"
    by (rule create_new_trial_r_eq [OF cs tid t' r1' gs gt ga r2' uc3 fin])
  have f: "key_trial r3 = (key_trial r)(tid \<mapsto> t')"
    "key_study_direction r3 = key_study_direction r"
    "study_trial_list_r r3 sid = ?l @ [tid]"
    "key_study_id_study_name r3 = key_study_id_study_name r"
    "key_study_summary r3 sid \<noteq> None"
    by (simp_all add: r3_def r2_def r1_def study_trial_list_r_def)
  have p: "key_best_trial r3 sid =
             Some (if key_best_trial r sid = None \<or> better (d = MAXIMIZE) v bv then tid else b)"
    using best by (auto simp: r3_def r2_def r1_def)
  show ?thesis
    using step f p by simp
qed

lemma tracked_rD:
  assumes "tracked_r r sid d H"
  shows "get_study_directions_r r sid = Inr [d]"
    and "key_study_summary r sid \<noteq> None"
    and "key_study_id_study_name r sid \<noteq> None"
    and "\<forall>tid\<in>set (study_trial_list_r r sid). key_trial r tid \<noteq> None"
    and "\<And>t. t \<in> set H \<longleftrightarrow>
           (\<exists>tid\<in>set (study_trial_list_r r sid). key_trial r tid = Some t \<and> state t = COMPLETE)"
    and "\<forall>t\<in>set H. \<exists>v. trial_values t = Some [v]"
    and "\<forall>t\<in>set H. key_trial r (trial_id t) = Some t"
    and "H = [] \<Longrightarrow> key_best_trial r sid = None"
    and "H \<noteq> [] \<Longrightarrow> \<exists>m. py_extremum (d = MAXIMIZE) H = Inr m \<and>
                key_best_trial r sid = Some (trial_id m)"
  using assms unfolding tracked_r_def by (simp_all split: if_splits)

lemma tracked_rI:
  assumes "get_study_directions_r r sid = Inr [d]"
    and "key_study_summary r sid \<noteq> None"
    and "key_study_id_study_name r sid \<noteq> None"
    and "\<forall>tid\<in>set (study_trial_list_r r sid). key_trial r tid \<noteq> None"
    and "\<And>t. t \<in> set H \<longleftrightarrow>
           (\<exists>tid\<in>set (study_trial_list_r r sid). key_trial r tid = Some t \<and> state t = COMPLETE)"
    and "\<forall>t\<in>set H. \<exists>v. trial_values t = Some [v]"
    and "\<forall>t\<in>set H. key_trial r (trial_id t) = Some t"
    and "H = [] \<Longrightarrow> key_best_trial r sid = None"
    and "H \<noteq> [] \<Longrightarrow> \<exists>m. py_extremum (d = MAXIMIZE) H = Inr m \<and>
                key_best_trial r sid = Some (trial_id m)"
  shows "tracked_r r sid d H"
  using assms unfolding tracked_r_def by simp

text \<open>The best trial so far, as the step lemmas need it.\<close>

lemma tracked_r_best:
  assumes tr: "tracked_r r sid d H"
  shows "H = [] \<and> key_best_trial r sid = None \<or>
         (\<exists>m mv. H \<noteq> [] \<and> py_extremum (d = MAXIMIZE) H = Inr m \<and> m \<in> set H \<and>
            key_best_trial r sid = Some (trial_id m) \<and> key_trial r (trial_id m) = Some m \<and>
            trial_values m = Some [mv] \<and> state m = COMPLETE)"
proof (cases "H = []")
  case True
  with tracked_rD(8) [OF tr] show ?thesis by simp
next
  case False
  from tracked_rD(9) [OF tr False] obtain m where m:
    "py_extremum (d = MAXIMIZE) H = Inr m" "key_best_trial r sid = Some (trial_id m)" by blast
  from py_extremum_mem [OF False tracked_rD(6) [OF tr], of "d = MAXIMIZE"] m(1)
  have mem: "m \<in> set H" by simp
  from tracked_rD(6) [OF tr] mem obtain mv where mv: "trial_values m = Some [mv]" by blast
  from tracked_rD(7) [OF tr] mem have km: "key_trial r (trial_id m) = Some m" by blast
  from tracked_rD(5) [OF tr, of m] mem have "state m = COMPLETE" by blast
  with False m mem mv km show ?thesis by blast
qed

lemma pointer_after:
  assumes best: "H = [] \<and> p = None \<or>
         (\<exists>m mv. H \<noteq> [] \<and> py_extremum M H = Inr m \<and> m \<in> set H \<and>
            p = Some (trial_id m) \<and> trial_values m = Some [mv] \<and> P m mv)"
      and vals: "\<forall>t\<in>set H. \<exists>v. trial_values t = Some [v]"
      and t: "trial_values t = Some [v]"
      and p': "\<And>m mv. H \<noteq> [] \<Longrightarrow> py_extremum M H = Inr m \<Longrightarrow> trial_values m = Some [mv] \<Longrightarrow>
                 p' = Some (if p = None \<or> better M v mv then trial_id t else trial_id m)"
      and p0: "H = [] \<Longrightarrow> p' = Some (trial_id t)"
  shows "\<exists>m. py_extremum M (H @ [t]) = Inr m \<and> p' = Some (trial_id m)"
proof (cases "H = []")
  case True
  with p0 t show ?thesis by (simp add: py_extremum_single)
next
  case False
  with best obtain m mv where m: "py_extremum M H = Inr m" "p = Some (trial_id m)"
    "trial_values m = Some [mv]" by blast
  from py_extremum_snoc [OF False vals m(1) m(3) t]
  have "py_extremum M (H @ [t]) = Inr (if better M v mv then t else m)" .
  moreover from p' [OF False m(1) m(3)] m(2)
  have "p' = Some (if better M v mv then trial_id t else trial_id m)" by simp
  ultimately show ?thesis by simp
qed

lemma tracked_r_finish:
  assumes tr: "tracked_r r sid d H" and rdy: "ready_to_complete_r r sid tid"
  shows "\<exists>r' t. set_trial_state_r r tid COMPLETE now = (Inr True, r') \<and>
           tracked_r r' sid d (H @ [t]) \<and> trial_id t = tid"
proof -
  let ?l = "study_trial_list_r r sid"
  let ?M = "d = MAXIMIZE"
  from rdy obtain t where t: "tid \<in> set ?l" "key_trial r tid = Some t"
      "\<not> is_finished (state t)" "trial_id t = tid"
      "map_option length (trial_values t) = Some (Suc 0)" "key_trial_study_id r tid = Some sid"
    by (auto simp: ready_to_complete_r_def split: option.splits)
  from t(5) obtain v where v: "trial_values t = Some [v]"
    using length_one [of "trial_values t"] by blast
  let ?t' = "t\<lparr>state := COMPLETE, datetime_complete := Some now\<rparr>"
  note D = tracked_rD [OF tr]
  have tnc: "state t \<noteq> COMPLETE" using t(3) by (auto simp: is_finished_def)
  note tb = tracked_r_best [OF tr]
  obtain b bt bv where
    best: "key_best_trial r sid = None \<or>
             key_best_trial r sid = Some b \<and> b \<noteq> tid \<and> key_trial r b = Some bt \<and>
             trial_values bt = Some [bv]" and
    bm: "\<And>m mv. H \<noteq> [] \<Longrightarrow> py_extremum ?M H = Inr m \<Longrightarrow> trial_values m = Some [mv] \<Longrightarrow>
           b = trial_id m \<and> bv = mv \<and> key_best_trial r sid \<noteq> None" and
    b0: "H = [] \<Longrightarrow> key_best_trial r sid = None"
  proof (cases "H = []")
    case True
    with tb have "key_best_trial r sid = None" by auto
    with True show ?thesis by (intro that [of 0 t v]) simp_all
  next
    case False
    with tb obtain m mv where some: "py_extremum ?M H = Inr m" "m \<in> set H"
      "key_best_trial r sid = Some (trial_id m)" "key_trial r (trial_id m) = Some m"
      "trial_values m = Some [mv]" "state m = COMPLETE"
      by auto
    have ne: "trial_id m \<noteq> tid"
    proof
      assume "trial_id m = tid"
      with some(4) t(2) have "m = t" by simp
      with some(6) tnc show False by simp
    qed
    show ?thesis by (rule that [of "trial_id m" m mv]) (use some ne False in simp_all)
  qed
  from finish_r_step [OF t(2,3) v t(6) D(1,2) best, of now] obtain r' where r':
    "set_trial_state_r r tid COMPLETE now = (Inr True, r')"
    "key_trial r' = (key_trial r)(tid \<mapsto> ?t')"
    "key_study_direction r' = key_study_direction r"
    "key_study_trial_list r' = key_study_trial_list r"
    "key_study_id_study_name r' = key_study_id_study_name r"
    "key_study_summary r' sid \<noteq> None"
    "key_best_trial r' sid =
       Some (if key_best_trial r sid = None \<or> better ?M v bv then tid else b)"
    by blast
  have l': "study_trial_list_r r' sid = ?l" using r'(4) by (simp add: study_trial_list_r_def)
  have "tracked_r r' sid d (H @ [?t'])"
  proof (rule tracked_rI)
    show "get_study_directions_r r' sid = Inr [d]"
      using D(1) r'(3) by (simp add: get_study_directions_r_def)
    show "key_study_summary r' sid \<noteq> None" by (rule r'(6))
    show "key_study_id_study_name r' sid \<noteq> None" using D(3) r'(5) by simp
    show "\<forall>x\<in>set (study_trial_list_r r' sid). key_trial r' x \<noteq> None"
      using D(4) l' r'(2) by simp
    show "\<And>x. x \<in> set (H @ [?t']) \<longleftrightarrow>
           (\<exists>i\<in>set (study_trial_list_r r' sid). key_trial r' i = Some x \<and> state x = COMPLETE)"
    proof -
      fix x
      show "x \<in> set (H @ [?t']) \<longleftrightarrow>
           (\<exists>i\<in>set (study_trial_list_r r' sid). key_trial r' i = Some x \<and> state x = COMPLETE)"
      proof
        assume "x \<in> set (H @ [?t'])"
        then consider "x \<in> set H" | "x = ?t'" by auto
        then show "\<exists>i\<in>set (study_trial_list_r r' sid). key_trial r' i = Some x \<and> state x = COMPLETE"
        proof cases
          case 1
          with D(5) [of x] obtain i where i: "i \<in> set ?l" "key_trial r i = Some x"
            "state x = COMPLETE" by blast
          have "i \<noteq> tid" using i(2,3) t(2) tnc by auto
          with i l' r'(2) show ?thesis by auto
        next
          case 2
          with t(1) l' r'(2) show ?thesis by auto
        qed
      next
        assume "\<exists>i\<in>set (study_trial_list_r r' sid). key_trial r' i = Some x \<and> state x = COMPLETE"
        then obtain i where i: "i \<in> set ?l" "key_trial r' i = Some x" "state x = COMPLETE"
          using l' by auto
        show "x \<in> set (H @ [?t'])"
        proof (cases "i = tid")
          case True
          with i(2) r'(2) show ?thesis by simp
        next
          case False
          with i(2) r'(2) have "key_trial r i = Some x" by simp
          with i(1,3) D(5) [of x] show ?thesis by auto
        qed
      qed
    qed
    show "\<forall>x\<in>set (H @ [?t']). \<exists>w. trial_values x = Some [w]"
      using D(6) v by auto
    show "\<forall>x\<in>set (H @ [?t']). key_trial r' (trial_id x) = Some x"
    proof
      fix x assume "x \<in> set (H @ [?t'])"
      then consider "x \<in> set H" | "x = ?t'" by auto
      then show "key_trial r' (trial_id x) = Some x"
      proof cases
        case 1
        with D(7) have kx: "key_trial r (trial_id x) = Some x" by blast
        from 1 D(5) [of x] have "state x = COMPLETE" by blast
        with kx t(2) tnc have "trial_id x \<noteq> tid" by auto
        with kx r'(2) show ?thesis by simp
      next
        case 2
        with t(4) r'(2) show ?thesis by simp
      qed
    qed
    show "H @ [?t'] = [] \<Longrightarrow> key_best_trial r' sid = None" by simp
    have "\<exists>m. py_extremum ?M (H @ [?t']) = Inr m \<and> key_best_trial r' sid = Some (trial_id m)"
    proof (rule pointer_after [where p = "key_best_trial r sid" and v = v
          and P = "\<lambda>m mv. key_trial r (trial_id m) = Some m \<and> state m = COMPLETE"])
      show "H = [] \<and> key_best_trial r sid = None \<or>
         (\<exists>m mv. H \<noteq> [] \<and> py_extremum ?M H = Inr m \<and> m \<in> set H \<and>
            key_best_trial r sid = Some (trial_id m) \<and> trial_values m = Some [mv] \<and>
            (key_trial r (trial_id m) = Some m \<and> state m = COMPLETE))"
        using tracked_r_best [OF tr] by blast
      show "\<forall>t\<in>set H. \<exists>v. trial_values t = Some [v]" by (rule D(6))
      show "trial_values ?t' = Some [v]" using v by simp
      show "\<And>m mv. H \<noteq> [] \<Longrightarrow> py_extremum ?M H = Inr m \<Longrightarrow> trial_values m = Some [mv] \<Longrightarrow>
              key_best_trial r' sid =
                Some (if key_best_trial r sid = None \<or> better ?M v mv
                      then trial_id ?t' else trial_id m)"
      proof -
        fix m mv
        assume a: "H \<noteq> []" "py_extremum ?M H = Inr m" "trial_values m = Some [mv]"
        from bm [OF a] have "b = trial_id m" "bv = mv" by simp_all
        with r'(7) t(4) show "key_best_trial r' sid =
                Some (if key_best_trial r sid = None \<or> better ?M v mv
                      then trial_id ?t' else trial_id m)" by simp
      qed
      show "H = [] \<Longrightarrow> key_best_trial r' sid = Some (trial_id ?t')"
        using b0 r'(7) t(4) by simp
    qed
    then show "H @ [?t'] \<noteq> [] \<Longrightarrow>
      \<exists>m. py_extremum ?M (H @ [?t']) = Inr m \<and> key_best_trial r' sid = Some (trial_id m)" .
  qed
  with r'(1) t(4) show ?thesis by (intro exI [of _ r'] exI [of _ ?t']) simp
qed

lemma tracked_r_seed:
  assumes tr: "tracked_r r sid d H" and tc: "state tmpl = COMPLETE"
      and tl: "map_option length (trial_values tmpl) = Some 1"
      and fresh: "key_trial r (next_trial_id_r r) = None"
  shows "\<exists>tid r' t. create_new_trial_r r sid (Some tmpl) now = (Inr tid, r') \<and>
           tracked_r r' sid d (H @ [t]) \<and> trial_id t = tid"
proof -
  let ?l = "study_trial_list_r r sid"
  let ?M = "d = MAXIMIZE"
  define tid where "tid = next_trial_id_r r"
  define t' where "t' = tmpl\<lparr>number := incr (key_study_trial_number r sid), trial_id := tid\<rparr>"
  from tl obtain v where v: "trial_values tmpl = Some [v]"
    using length_one [of "trial_values tmpl"] by auto
  have ft: "key_trial r tid = None" using fresh by (simp add: tid_def)
  note D = tracked_rD [OF tr]
  note tb = tracked_r_best [OF tr]
  obtain b bt bv where
    best: "key_best_trial r sid = None \<or>
             key_best_trial r sid = Some b \<and> key_trial r b = Some bt \<and>
             trial_values bt = Some [bv]" and
    bm: "\<And>m mv. H \<noteq> [] \<Longrightarrow> py_extremum ?M H = Inr m \<Longrightarrow> trial_values m = Some [mv] \<Longrightarrow>
           b = trial_id m \<and> bv = mv \<and> key_best_trial r sid \<noteq> None" and
    b0: "H = [] \<Longrightarrow> key_best_trial r sid = None"
  proof (cases "H = []")
    case True
    with tb have "key_best_trial r sid = None" by auto
    with True show ?thesis by (intro that [of 0 tmpl v]) simp_all
  next
    case False
    with tb obtain m mv where some: "py_extremum ?M H = Inr m" "m \<in> set H"
      "key_best_trial r sid = Some (trial_id m)" "key_trial r (trial_id m) = Some m"
      "trial_values m = Some [mv]" "state m = COMPLETE"
      by auto
    show ?thesis by (rule that [of "trial_id m" m mv]) (use some False in simp_all)
  qed
  from seed_r_step [OF tc v fresh D(1,2,3,4) best tid_def t'_def, of now] obtain r' where r':
    "create_new_trial_r r sid (Some tmpl) now = (Inr tid, r')"
    "key_trial r' = (key_trial r)(tid \<mapsto> t')"
    "key_study_direction r' = key_study_direction r"
    "study_trial_list_r r' sid = ?l @ [tid]"
    "key_study_id_study_name r' = key_study_id_study_name r"
    "key_study_summary r' sid \<noteq> None"
    "key_best_trial r' sid =
       Some (if key_best_trial r sid = None \<or> better ?M v bv then tid else b)"
    by blast
  have tv: "trial_values t' = Some [v]" and ts: "state t' = COMPLETE" and ti: "trial_id t' = tid"
    using v tc by (simp_all add: t'_def)
  have lne: "\<And>i. i \<in> set ?l \<Longrightarrow> i \<noteq> tid" using D(4) ft by auto
  have "tracked_r r' sid d (H @ [t'])"
  proof (rule tracked_rI)
    show "get_study_directions_r r' sid = Inr [d]"
      using D(1) r'(3) by (simp add: get_study_directions_r_def)
    show "key_study_summary r' sid \<noteq> None" by (rule r'(6))
    show "key_study_id_study_name r' sid \<noteq> None" using D(3) r'(5) by simp
    show "\<forall>x\<in>set (study_trial_list_r r' sid). key_trial r' x \<noteq> None"
      using D(4) r'(2,4) by simp
    show "\<And>x. x \<in> set (H @ [t']) \<longleftrightarrow>
           (\<exists>i\<in>set (study_trial_list_r r' sid). key_trial r' i = Some x \<and> state x = COMPLETE)"
    proof -
      fix x
      show "x \<in> set (H @ [t']) \<longleftrightarrow>
           (\<exists>i\<in>set (study_trial_list_r r' sid). key_trial r' i = Some x \<and> state x = COMPLETE)"
      proof
        assume "x \<in> set (H @ [t'])"
        then consider "x \<in> set H" | "x = t'" by auto
        then show "\<exists>i\<in>set (study_trial_list_r r' sid). key_trial r' i = Some x \<and> state x = COMPLETE"
        proof cases
          case 1
          with D(5) [of x] obtain i where i: "i \<in> set ?l" "key_trial r i = Some x"
            "state x = COMPLETE" by blast
          from lne [OF i(1)] i r'(2,4) show ?thesis by auto
        next
          case 2
          with ts r'(2,4) show ?thesis by auto
        qed
      next
        assume "\<exists>i\<in>set (study_trial_list_r r' sid). key_trial r' i = Some x \<and> state x = COMPLETE"
        then obtain i where i: "i \<in> set (?l @ [tid])" "key_trial r' i = Some x"
          "state x = COMPLETE" using r'(4) by auto
        show "x \<in> set (H @ [t'])"
        proof (cases "i = tid")
          case True
          with i(2) r'(2) show ?thesis by simp
        next
          case False
          with i(1) have il: "i \<in> set ?l" by simp
          from False i(2) r'(2) have "key_trial r i = Some x" by simp
          with il i(3) D(5) [of x] show ?thesis by auto
        qed
      qed
    qed
    show "\<forall>x\<in>set (H @ [t']). \<exists>w. trial_values x = Some [w]"
      using D(6) tv by auto
    show "\<forall>x\<in>set (H @ [t']). key_trial r' (trial_id x) = Some x"
    proof
      fix x assume "x \<in> set (H @ [t'])"
      then consider "x \<in> set H" | "x = t'" by auto
      then show "key_trial r' (trial_id x) = Some x"
      proof cases
        case 1
        with D(7) have kx: "key_trial r (trial_id x) = Some x" by blast
        with ft have "trial_id x \<noteq> tid" by auto
        with kx r'(2) show ?thesis by simp
      next
        case 2
        with ti r'(2) show ?thesis by simp
      qed
    qed
    show "H @ [t'] = [] \<Longrightarrow> key_best_trial r' sid = None" by simp
    have "\<exists>m. py_extremum ?M (H @ [t']) = Inr m \<and> key_best_trial r' sid = Some (trial_id m)"
    proof (rule pointer_after [where p = "key_best_trial r sid" and v = v
          and P = "\<lambda>m mv. key_trial r (trial_id m) = Some m \<and> state m = COMPLETE"])
      show "H = [] \<and> key_best_trial r sid = None \<or>
         (\<exists>m mv. H \<noteq> [] \<and> py_extremum ?M H = Inr m \<and> m \<in> set H \<and>
            key_best_trial r sid = Some (trial_id m) \<and> trial_values m = Some [mv] \<and>
            (key_trial r (trial_id m) = Some m \<and> state m = COMPLETE))"
        using tb by blast
      show "\<forall>t\<in>set H. \<exists>v. trial_values t = Some [v]" by (rule D(6))
      show "trial_values t' = Some [v]" by (rule tv)
      show "\<And>m mv. H \<noteq> [] \<Longrightarrow> py_extremum ?M H = Inr m \<Longrightarrow> trial_values m = Some [mv] \<Longrightarrow>
              key_best_trial r' sid =
                Some (if key_best_trial r sid = None \<or> better ?M v mv
                      then trial_id t' else trial_id m)"
      proof -
        fix m mv
        assume a: "H \<noteq> []" "py_extremum ?M H = Inr m" "trial_values m = Some [mv]"
        from bm [OF a] have "b = trial_id m" "bv = mv" by simp_all
        with r'(7) ti show "key_best_trial r' sid =
                Some (if key_best_trial r sid = None \<or> better ?M v mv
                      then trial_id t' else trial_id m)" by simp
      qed
      show "H = [] \<Longrightarrow> key_best_trial r' sid = Some (trial_id t')"
        using b0 r'(7) ti by simp
    qed
    then show "H @ [t'] \<noteq> [] \<Longrightarrow>
      \<exists>m. py_extremum ?M (H @ [t']) = Inr m \<and> key_best_trial r' sid = Some (trial_id m)" .
  qed
  with r'(1) ti show ?thesis by (intro exI [of _ tid] exI [of _ r'] exI [of _ t']) simp
qed

lemma tracked_r_complete:
  assumes tr: "tracked_r r sid d H" and ok: "completion_ok_r r sid c"
  shows "\<exists>tid r' t. complete_r r sid c = (Inr tid, r') \<and>
           tracked_r r' sid d (H @ [t]) \<and> trial_id t = tid"
proof (cases c)
  case (Finish tid now)
  with ok have "ready_to_complete_r r sid tid" by simp
  from tracked_r_finish [OF tr this, of now] Finish show ?thesis by auto
next
  case (Seed tmpl now)
  with ok have a: "state tmpl = COMPLETE" "map_option length (trial_values tmpl) = Some 1"
    "key_trial r (next_trial_id_r r) = None" by simp_all
  from tracked_r_seed [OF tr a, of now] Seed show ?thesis by auto
qed

lemma tracked_r_complete_all:
  assumes "tracked_r r sid d H" and "admissible_r r sid cs"
  shows "\<exists>ids r' N. complete_all_r r sid cs = (Inr ids, r') \<and>
           tracked_r r' sid d (H @ N) \<and> map trial_id N = ids \<and> length N = length cs"
  using assms
proof (induction cs arbitrary: r H)
  case Nil
  then show ?case by (intro exI [of _ "[]"] exI [of _ r]) simp
next
  case (Cons c cs)
  from Cons.prems(2) have ok: "completion_ok_r r sid c"
    and ad: "admissible_r (snd (complete_r r sid c)) sid cs" by simp_all
  from tracked_r_complete [OF Cons.prems(1) ok] obtain tid r1 t where
    s: "complete_r r sid c = (Inr tid, r1)" "tracked_r r1 sid d (H @ [t])" "trial_id t = tid"
    by blast
  from ad s(1) have ad1: "admissible_r r1 sid cs" by simp
  from Cons.IH [OF s(2) ad1] obtain ids r' N where
    r: "complete_all_r r1 sid cs = (Inr ids, r')" "tracked_r r' sid d ((H @ [t]) @ N)"
       "map trial_id N = ids" "length N = length cs" by blast
  show ?case
    apply (rule exI [of _ "tid # ids"], rule exI [of _ r'], rule exI [of _ "t # N"])
    using s r by simp
qed

subsection \<open>The pointer and the full scan on the Redis storage\<close>

lemma best_trial_by_scan_single:
  assumes "xs \<noteq> []" and "\<forall>x\<in>set xs. state x = COMPLETE"
  shows "best_trial_by_scan [d] xs = py_extremum (d = MAXIMIZE) xs"
proof -
  have "filter (\<lambda>t. state t = COMPLETE) xs = xs" using assms(2) by (simp add: filter_id_conv)
  with assms(1) show ?thesis
    by (simp add: best_trial_by_scan_def list_get_def py_index_def)
qed

lemma best_trial_by_scan_filter:
  "best_trial_by_scan ds xs = best_trial_by_scan ds (filter (\<lambda>t. state t = COMPLETE) xs)"
  by (simp add: best_trial_by_scan_def)

lemma get_all_trials_loop_ids:
  assumes "\<forall>t\<in>set N. key_trial r (trial_id t) = Some t"
  shows "get_all_trials_loop r None (map trial_id N) = Inr N"
  using assms
  by (induction N) (auto simp: get_trial_r_def check_trial_id_r_def domIff)

text \<open>
  Two scans of the same trials in different orders return trials with the same value
  when no value is NaN.
\<close>

lemma scans_agree:
  assumes ne: "N \<noteq> []" and vals: "\<forall>t\<in>set N. \<exists>v. trial_values t = Some [v]"
      and same: "set F = set N"
      and m: "py_extremum M N = Inr m" and m': "py_extremum M F = Inr m'"
      and nn: "\<forall>x\<in>set N. value x \<noteq> Inr (Some NaN)"
  shows "value m' = value m" and "(\<forall>x\<in>set N. value x = value m \<longrightarrow> x = m) \<longrightarrow> m' = m"
proof -
  have valsn: "\<forall>t\<in>set N. \<exists>v. trial_values t = Some [v] \<and> v \<noteq> NaN"
  proof
    fix t assume t: "t \<in> set N"
    with vals obtain v where v: "trial_values t = Some [v]" by blast
    with nn t have "v \<noteq> NaN" by (auto simp: value_single)
    with v show "\<exists>v. trial_values t = Some [v] \<and> v \<noteq> NaN" by blast
  qed
  have valsF: "\<forall>t\<in>set F. \<exists>v. trial_values t = Some [v] \<and> v \<noteq> NaN" using valsn same by simp
  have Fne: "F \<noteq> []" using ne same by auto
  from py_extremum_mem [OF ne vals, of M] m have mN: "m \<in> set N" by simp
  from py_extremum_mem [OF Fne, of M] valsF m' have mF: "m' \<in> set N" using same by auto
  from valsn mN obtain mv where mv: "trial_values m = Some [mv]" "mv \<noteq> NaN" by blast
  from valsn mF obtain mv' where mv': "trial_values m' = Some [mv']" "mv' \<noteq> NaN" by blast
  note o = py_extremum_opt [OF valsn m mv(1)]
  have o': "\<forall>x\<in>set N. \<forall>v. trial_values x = Some [v] \<longrightarrow> \<not> better M v mv'"
    using py_extremum_opt [OF valsF m' mv'(1)] same by simp
  have "mv' = mv"
    by (rule optimum_value_unique [OF mF mv' o' mN mv o])
  then show v: "value m' = value m" using mv(1) mv'(1) by (simp add: value_single)
  show "(\<forall>x\<in>set N. value x = value m \<longrightarrow> x = m) \<longrightarrow> m' = m"
    using mF v by blast
qed

lemma tracked_r_empty:
  assumes "no_completed_trial_r r sid d"
  shows "tracked_r r sid d []"
proof (rule tracked_rI)
  from assms have f: "get_study_directions_r r sid = Inr [d]" "key_study_summary r sid \<noteq> None"
      "key_study_id_study_name r sid \<noteq> None" "key_best_trial r sid = None"
      "\<forall>tid\<in>set (study_trial_list_r r sid).
          case key_trial r tid of None \<Rightarrow> False | Some t \<Rightarrow> state t \<noteq> COMPLETE"
    by (auto simp: no_completed_trial_r_def)
  show "get_study_directions_r r sid = Inr [d]" by (rule f(1))
  show "key_study_summary r sid \<noteq> None" by (rule f(2))
  show "key_study_id_study_name r sid \<noteq> None" by (rule f(3))
  show "\<forall>tid\<in>set (study_trial_list_r r sid). key_trial r tid \<noteq> None"
    using f(5) by (auto split: option.splits)
  show "\<And>t. t \<in> set [] \<longleftrightarrow>
         (\<exists>tid\<in>set (study_trial_list_r r sid). key_trial r tid = Some t \<and> state t = COMPLETE)"
    using f(5) by (auto split: option.splits)
  show "\<forall>t\<in>set []. \<exists>v. trial_values t = Some [v]" by simp
  show "\<forall>t\<in>set []. key_trial r (trial_id t) = Some t" by simp
  show "[] = [] \<Longrightarrow> key_best_trial r sid = None" by (rule f(4))
  show "[] \<noteq> [] \<Longrightarrow> \<exists>m. py_extremum (d = MAXIMIZE) [] = Inr m \<and>
          key_best_trial r sid = Some (trial_id m)" by simp
qed

lemma redis_pointer_vs_scan:
  assumes fresh: "no_completed_trial_r r sid d" and ne: "cs \<noteq> []"
      and ad: "admissible_r r sid cs"
  shows "\<exists>ids r' H m all_trials m'.
           complete_all_r r sid cs = (Inr ids, r') \<and>
           get_all_trials_loop r' None ids = Inr H \<and>
           best_trial_by_scan [d] H = Inr m \<and>
           key_best_trial r' sid = Some (trial_id m) \<and>
           get_all_trials_r r' sid None = Inr all_trials \<and>
           best_trial_by_scan [d] all_trials = Inr m' \<and>
           ((\<forall>x\<in>set H. value x \<noteq> Inr (Some NaN)) \<longrightarrow>
              value m' = value m \<and> ((\<forall>x\<in>set H. value x = value m \<longrightarrow> x = m) \<longrightarrow> m' = m))"
proof -
  let ?M = "d = MAXIMIZE"
  from tracked_r_complete_all [OF tracked_r_empty [OF fresh] ad] obtain ids r' N where
    run: "complete_all_r r sid cs = (Inr ids, r')" and tr: "tracked_r r' sid d N"
    and ids: "map trial_id N = ids" and len: "length N = length cs" by auto
  note D = tracked_rD [OF tr]
  have Nne: "N \<noteq> []" using len ne by auto
  have loop: "get_all_trials_loop r' None ids = Inr N"
    using get_all_trials_loop_ids [OF D(7)] ids by simp
  from D(9) [OF Nne] obtain m where m: "py_extremum ?M N = Inr m"
    "key_best_trial r' sid = Some (trial_id m)" by blast
  have Nc: "\<forall>x\<in>set N. state x = COMPLETE" using D(5) by blast
  have scanN: "best_trial_by_scan [d] N = Inr m"
    using best_trial_by_scan_single [OF Nne Nc] m(1) by simp
  let ?l = "study_trial_list_r r' sid"
  let ?all = "map (\<lambda>tid. the (key_trial r' tid)) ?l"
  have all: "get_all_trials_r r' sid None = Inr ?all"
    using get_all_trials_loop_all [OF D(4)] D(3)
    by (simp add: get_all_trials_r_def get_study_trials_r_def check_study_id_r_def domIff
          study_trial_list_r_def)
  let ?F = "filter (\<lambda>t. state t = COMPLETE) ?all"
  have fset: "set ?F = set N"
  proof (intro set_eqI iffI)
    fix x assume "x \<in> set ?F"
    then obtain tid where tid: "tid \<in> set ?l" "x = the (key_trial r' tid)" "state x = COMPLETE"
      by auto
    from D(4) tid(1,2) have "key_trial r' tid = Some x" by auto
    with tid(1,3) D(5) [of x] show "x \<in> set N" by blast
  next
    fix x assume "x \<in> set N"
    with D(5) [of x] obtain tid where tid: "tid \<in> set ?l" "key_trial r' tid = Some x"
      "state x = COMPLETE" by blast
    have "x \<in> set ?all" using tid(1,2) by (simp add: image_iff) (rule bexI [of _ tid], simp_all)
    with tid(3) show "x \<in> set ?F" by simp
  qed
  have Fne: "?F \<noteq> []" using fset Nne by (metis set_empty)
  have Fc: "\<forall>x\<in>set ?F. state x = COMPLETE" by simp
  have Fv: "\<forall>x\<in>set ?F. \<exists>v. trial_values x = Some [v]" using fset D(6) by blast
  from py_extremum_mem [OF Fne Fv, of ?M] obtain m' where m': "py_extremum ?M ?F = Inr m'"
    by blast
  have scanall: "best_trial_by_scan [d] ?all = Inr m'"
    using best_trial_by_scan_filter [of "[d]" ?all] best_trial_by_scan_single [OF Fne Fc, of d] m'
    by simp
  have agree: "(\<forall>x\<in>set N. value x \<noteq> Inr (Some NaN)) \<longrightarrow>
                 value m' = value m \<and> ((\<forall>x\<in>set N. value x = value m \<longrightarrow> x = m) \<longrightarrow> m' = m)"
    using scans_agree [OF Nne D(6) fset m(1) m'] by blast
  show ?thesis
    apply (rule exI [of _ ids], rule exI [of _ r'], rule exI [of _ N], rule exI [of _ m],
           rule exI [of _ ?all], rule exI [of _ m'])
    using run loop scanN m(2) all scanall agree apply (intro conjI)
          apply assumption+
    done
qed

subsection \<open>One completion on the in-memory storage\<close>

lemma list_get_nat: "0 \<le> n \<Longrightarrow> n < int (length xs) \<Longrightarrow> list_get xs n = Inr (xs ! nat n)"
  by (simp add: list_get_def py_index_def)


lemma list_set_nat: "0 \<le> n \<Longrightarrow> n < int (length xs) \<Longrightarrow> list_set xs n v = Inr (xs[nat n := v])"
  by (simp add: list_set_def py_index_def)


lemma set_trial_state_im_COMPLETE:
  assumes m: "trial_id_to_study_id_and_number s tid = Some (sid, n)"
      and st: "studies s sid = Some st"
      and n: "0 \<le> n" "n < int (length (trials st))"
      and t: "trials st ! nat n = t" "\<not> is_finished (state t)" "trial_values t = Some [v]"
      and d: "directions st = [d]"
      and best: "best_trial_id st = None \<or>
                   best_trial_id st = Some b \<and> trial_id_to_study_id_and_number s b = Some (sid, nb) \<and>
                   0 \<le> nb \<and> nb < int (length (trials st)) \<and> nb \<noteq> n \<and>
                   trial_values (trials st ! nat nb) = Some [bv]"
  shows "set_trial_state_im s tid COMPLETE now =
           (Inr True,
            s\<lparr>studies := (studies s)(sid \<mapsto>
                 st\<lparr>trials := (trials st)[nat n := t\<lparr>state := COMPLETE, datetime_complete := Some now\<rparr>],
                    best_trial_id :=
                      Some (case best_trial_id st of None \<Rightarrow> tid
                            | Some b \<Rightarrow> if better (d = MAXIMIZE) v bv then tid else b)\<rparr>)\<rparr>)"
proof -
  let ?t' = "t\<lparr>state := COMPLETE, datetime_complete := Some now\<rparr>"
  let ?st1 = "st\<lparr>trials := (trials st)[nat n := ?t']\<rparr>"
  let ?s1 = "s\<lparr>studies := (studies s)(sid \<mapsto> ?st1)\<rparr>"
  have g: "get_trial_im s tid = Inr t"
    using m st n t(1) by (simp add: get_trial_im_def check_trial_id_def domIff dict_get_def list_get_nat)
  have u: "check_trial_is_updatable tid (state t) = Inr ()"
    using t(2) by (simp add: check_trial_is_updatable_def)
  have s1: "set_trial_im s tid ?t' = Inr ?s1"
    using m st n by (simp add: set_trial_im_def dict_get_def list_set_nat)
  have g1: "get_trial_im ?s1 tid = Inr ?t'"
    using m n by (simp add: get_trial_im_def check_trial_id_def domIff dict_get_def list_get_nat)
  have sb: "set_best_trial_id_im ?s1 sid tid
              = Inr (s\<lparr>studies := (studies s)(sid \<mapsto> ?st1\<lparr>best_trial_id := Some tid\<rparr>)\<rparr>)"
    by (simp add: set_best_trial_id_im_def dict_get_def)
  have ds: "get_study_directions_im ?s1 sid = Inr [d]"
    using d by (simp add: get_study_directions_im_def check_study_id_def dict_get_def)
  have l0: "list_get [d] 0 = Inr d" by (simp add: list_get_def py_index_def)
  have vt: "value ?t' = Inr (Some v)" using t(3) by (simp add: value_def)
  show ?thesis
  proof (cases "best_trial_id st")
    case None
    have uc: "update_cache_im ?s1 tid sid
                = Inr (s\<lparr>studies := (studies s)(sid \<mapsto> ?st1\<lparr>best_trial_id := Some tid\<rparr>)\<rparr>)"
      using None by (simp add: update_cache_im_def g1 sb dict_get_def)
    show ?thesis
      using None m by (simp add: set_trial_state_im_def g u s1 uc is_finished_def dict_get_def)
  next
    case (Some b')
    with best have b: "b' = b" "trial_id_to_study_id_and_number s b = Some (sid, nb)"
      "0 \<le> nb" "nb < int (length (trials st))" "nb \<noteq> n"
      "trial_values (trials st ! nat nb) = Some [bv]" by auto
    have nn: "nat nb \<noteq> nat n" using b(3,5) n(1) by auto
    have gb: "get_trial_im ?s1 b = Inr (trials st ! nat nb)"
      using b nn by (simp add: get_trial_im_def check_trial_id_def domIff dict_get_def list_get_nat)
    have vb: "value (trials st ! nat nb) = Inr (Some bv)" using b(6) by (simp add: value_def)
    have uc: "update_cache_im ?s1 tid sid
                = Inr (if better (d = MAXIMIZE) v bv
                       then s\<lparr>studies := (studies s)(sid \<mapsto> ?st1\<lparr>best_trial_id := Some tid\<rparr>)\<rparr>
                       else ?s1)"
      using Some b(1)
      by (simp add: update_cache_im_def g1 sb dict_get_def ds l0 gb vb vt better_def)
    have e: "?st1\<lparr>best_trial_id := Some b\<rparr> = ?st1" using Some b(1) by (cases st) simp
    show ?thesis
      using Some b(1) m
      by (simp add: set_trial_state_im_def g u s1 uc is_finished_def dict_get_def e)
  qed
qed


lemma get_trial_im_slot:
  assumes "trial_id_to_study_id_and_number s tid = Some (sid, n)" and "studies s sid = Some st"
      and "0 \<le> n" and "n < int (length (trials st))"
  shows "get_trial_im s tid = Inr (trials st ! nat n)"
  using assms
  by (simp add: get_trial_im_def check_trial_id_def domIff dict_get_def list_get_nat)


lemma update_cache_im_COMPLETE:
  assumes st: "studies s sid = Some st" and g: "get_trial_im s tid = Inr t"
      and c: "state t = COMPLETE" and v: "trial_values t = Some [v]"
      and d: "directions st = [d]"
      and best: "best_trial_id st = None \<or>
                   best_trial_id st = Some b \<and> get_trial_im s b = Inr bt \<and>
                   trial_values bt = Some [bv]"
  shows "update_cache_im s tid sid =
           Inr (if best_trial_id st = None \<or> better (d = MAXIMIZE) v bv
                then s\<lparr>studies := (studies s)(sid \<mapsto> st\<lparr>best_trial_id := Some tid\<rparr>)\<rparr>
                else s)"
proof -
  have sb: "set_best_trial_id_im s sid tid
              = Inr (s\<lparr>studies := (studies s)(sid \<mapsto> st\<lparr>best_trial_id := Some tid\<rparr>)\<rparr>)"
    using st by (simp add: set_best_trial_id_im_def dict_get_def)
  have ds: "get_study_directions_im s sid = Inr [d]"
    using st d by (simp add: get_study_directions_im_def check_study_id_def dict_get_def domIff)
  have l0: "list_get [d] 0 = Inr d" by (simp add: list_get_def py_index_def)
  have vt: "value t = Inr (Some v)" using v by (rule value_single)
  show ?thesis
  proof (cases "best_trial_id st")
    case None
    then show ?thesis using st by (simp add: update_cache_im_def g c sb dict_get_def)
  next
    case (Some b')
    with best have b: "b' = b" "get_trial_im s b = Inr bt" "trial_values bt = Some [bv]"
      by auto
    have vb: "value bt = Inr (Some bv)" using b(3) by (rule value_single)
    show ?thesis
      using Some b(1,2) st
      by (simp add: update_cache_im_def g c sb dict_get_def ds l0 vb vt better_def)
  qed
qed

lemma seed_im_step:
  assumes st: "studies s sid = Some st"
      and tc: "state tmpl = COMPLETE" and tv: "trial_values tmpl = Some [v]"
      and fresh: "trial_id_to_study_id_and_number s (max_trial_id s + 1) = None"
      and d: "directions st = [d]"
      and best: "best_trial_id st = None \<or>
                   best_trial_id st = Some b \<and> trial_id_to_study_id_and_number s b = Some (sid, nb) \<and>
                   0 \<le> nb \<and> nb < int (length (trials st)) \<and>
                   trial_values (trials st ! nat nb) = Some [bv]"
      and tid: "tid = max_trial_id s + 1"
      and t': "t' = tmpl\<lparr>number := int (length (trials st)), trial_id := tid\<rparr>"
  shows "create_new_trial_im s sid (Some tmpl) now =
           (Inr tid,
            s\<lparr>max_trial_id := tid,
              trial_id_to_study_id_and_number :=
                (trial_id_to_study_id_and_number s)(tid \<mapsto> (sid, int (length (trials st)))),
              studies := (studies s)(sid \<mapsto>
                st\<lparr>trials := trials st @ [t'],
                   best_trial_id :=
                     Some (if best_trial_id st = None \<or> better (d = MAXIMIZE) v bv
                           then tid else b)\<rparr>)\<rparr>)"
proof -
  let ?st1 = "st\<lparr>trials := trials st @ [t']\<rparr>"
  define s1 where "s1 = s\<lparr>max_trial_id := max_trial_id s + 1,
                     trial_id_to_study_id_and_number :=
                       (trial_id_to_study_id_and_number s)(tid \<mapsto> (sid, number t')),
                     studies := (studies s)(sid \<mapsto> ?st1)\<rparr>"
  have nt: "number t' = int (length (trials st))" by (simp add: t')
  have cs: "check_study_id s sid = Inr ()" using st by (simp add: check_study_id_def domIff)
  have st1: "studies s1 sid = Some ?st1" by (simp add: s1_def)
  have g1: "get_trial_im s1 tid = Inr t'"
    by (simp add: s1_def get_trial_im_def check_trial_id_def domIff dict_get_def nt
          list_get_def py_index_def)
  have c1: "state t' = COMPLETE" using tc t' by simp
  have v1: "trial_values t' = Some [v]" using tv t' by simp
  have d1: "directions ?st1 = [d]" using d by simp
  have b1: "best_trial_id ?st1 = None \<or>
            best_trial_id ?st1 = Some b \<and> get_trial_im s1 b = Inr (trials st ! nat nb) \<and>
            trial_values (trials st ! nat nb) = Some [bv]"
  proof (cases "best_trial_id st")
    case None then show ?thesis by simp
  next
    case (Some b')
    with best have b: "b' = b" "trial_id_to_study_id_and_number s b = Some (sid, nb)"
      "0 \<le> nb" "nb < int (length (trials st))"
      "trial_values (trials st ! nat nb) = Some [bv]" by auto
    have ne: "b \<noteq> tid" using b(2) fresh tid by auto
    have m1: "trial_id_to_study_id_and_number s1 b = Some (sid, nb)"
      using b(2) ne by (simp add: s1_def)
    have n1: "nb < int (length (trials ?st1))" using b(4) by simp
    have "get_trial_im s1 b = Inr (trials ?st1 ! nat nb)"
      by (rule get_trial_im_slot [OF m1 st1 b(3) n1])
    moreover have "trials ?st1 ! nat nb = trials st ! nat nb"
      using b(3,4) by (simp add: nth_append)
    ultimately show ?thesis using Some b(1,5) by simp
  qed
  note uc = update_cache_im_COMPLETE [OF st1 g1 c1 v1 d1 b1]
  have e: "create_new_trial_im s sid (Some tmpl) now =
             (case update_cache_im s1 tid sid of Inl e \<Rightarrow> (Inl e, s1) | Inr s2 \<Rightarrow> (Inr tid, s2))"
    using cs st unfolding create_new_trial_im_def s1_def t' tid
    by (simp add: Let_def dict_get_def)
  have r: "st\<lparr>trials := X, best_trial_id := Some b\<rparr> = st\<lparr>trials := X\<rparr>"
    if "best_trial_id st = Some b" for X
    using that by (cases st) simp
  show ?thesis
    unfolding e uc using nt tid best by (auto simp: s1_def r)
qed

lemma tracked_imI:
  assumes "studies s sid = Some st" and "directions st = [d]"
    and "\<And>t. t \<in> set H \<longleftrightarrow> t \<in> set (trials st) \<and> state t = COMPLETE"
    and "\<forall>t\<in>set H. \<exists>v. trial_values t = Some [v]"
    and "\<forall>t\<in>set H. \<exists>n<length (trials st).
            trial_id_to_study_id_and_number s (trial_id t) = Some (sid, int n) \<and>
            trials st ! n = t"
    and "H = [] \<Longrightarrow> best_trial_id st = None"
    and "H \<noteq> [] \<Longrightarrow> \<exists>m. py_extremum (d = MAXIMIZE) H = Inr m \<and>
                best_trial_id st = Some (trial_id m)"
  shows "tracked_im s sid d H"
  unfolding tracked_im_def using assms by (intro exI [of _ st]) simp

lemma tracked_imD:
  assumes "tracked_im s sid d H" and "studies s sid = Some st"
  shows "directions st = [d]"
    and "\<And>t. t \<in> set H \<longleftrightarrow> t \<in> set (trials st) \<and> state t = COMPLETE"
    and "\<forall>t\<in>set H. \<exists>v. trial_values t = Some [v]"
    and "\<forall>t\<in>set H. \<exists>n<length (trials st).
            trial_id_to_study_id_and_number s (trial_id t) = Some (sid, int n) \<and>
            trials st ! n = t"
    and "H = [] \<Longrightarrow> best_trial_id st = None"
    and "H \<noteq> [] \<Longrightarrow> \<exists>m. py_extremum (d = MAXIMIZE) H = Inr m \<and>
                best_trial_id st = Some (trial_id m)"
  using assms unfolding tracked_im_def by (simp_all split: if_splits)

lemma tracked_im_study:
  assumes "tracked_im s sid d H"
  shows "\<exists>st. studies s sid = Some st"
  using assms unfolding tracked_im_def by blast

lemma tracked_im_best:
  assumes tr: "tracked_im s sid d H" and st: "studies s sid = Some st"
  shows "H = [] \<and> best_trial_id st = None \<or>
         (\<exists>m mv n. H \<noteq> [] \<and> py_extremum (d = MAXIMIZE) H = Inr m \<and> m \<in> set H \<and>
            best_trial_id st = Some (trial_id m) \<and> trial_values m = Some [mv] \<and>
            state m = COMPLETE \<and> n < length (trials st) \<and>
            trial_id_to_study_id_and_number s (trial_id m) = Some (sid, int n) \<and>
            trials st ! n = m)"
proof (cases "H = []")
  case True
  with tracked_imD(5) [OF tr st] show ?thesis by simp
next
  case False
  note D = tracked_imD [OF tr st]
  from D(6) [OF False] obtain m where m:
    "py_extremum (d = MAXIMIZE) H = Inr m" "best_trial_id st = Some (trial_id m)" by blast
  from py_extremum_mem [OF False D(3), of "d = MAXIMIZE"] m(1)
  have mem: "m \<in> set H" by simp
  from D(3) mem obtain mv where mv: "trial_values m = Some [mv]" by blast
  from D(4) mem obtain n where n: "n < length (trials st)"
    "trial_id_to_study_id_and_number s (trial_id m) = Some (sid, int n)" "trials st ! n = m"
    by blast
  from D(2) [of m] mem have "state m = COMPLETE" by blast
  with False m mem mv n show ?thesis by blast
qed

lemma tracked_im_finish:
  assumes tr: "tracked_im s sid d H" and rdy: "ready_to_complete_im s sid tid"
  shows "\<exists>s' t. set_trial_state_im s tid COMPLETE now = (Inr True, s') \<and>
           tracked_im s' sid d (H @ [t]) \<and> trial_id t = tid"
proof -
  let ?M = "d = MAXIMIZE"
  from tracked_im_study [OF tr] obtain st where st: "studies s sid = Some st" by blast
  note D = tracked_imD [OF tr st]
  from rdy st obtain n where n: "trial_id_to_study_id_and_number s tid = Some (sid, n)"
      "0 \<le> n" "n < int (length (trials st))"
      "\<not> is_finished (state (trials st ! nat n))" "trial_id (trials st ! nat n) = tid"
      "map_option length (trial_values (trials st ! nat n)) = Some (Suc 0)"
    by (auto simp: ready_to_complete_im_def split: option.splits)
  define t where "t = trials st ! nat n"
  have t: "trials st ! nat n = t" "\<not> is_finished (state t)" "trial_id t = tid"
    using n(4,5) by (simp_all add: t_def)
  from n(6) obtain v where v: "trial_values t = Some [v]"
    using length_one [of "trial_values t"] by (auto simp: t_def)
  have tnc: "state t \<noteq> COMPLETE" using t(2) by (auto simp: is_finished_def)
  have nl: "nat n < length (trials st)" using n(2,3) by simp
  note tb = tracked_im_best [OF tr st]
  obtain b nb bv where
    best: "best_trial_id st = None \<or>
             best_trial_id st = Some b \<and> trial_id_to_study_id_and_number s b = Some (sid, nb) \<and>
             0 \<le> nb \<and> nb < int (length (trials st)) \<and> nb \<noteq> n \<and>
             trial_values (trials st ! nat nb) = Some [bv]" and
    bm: "\<And>m mv. H \<noteq> [] \<Longrightarrow> py_extremum ?M H = Inr m \<Longrightarrow> trial_values m = Some [mv] \<Longrightarrow>
           b = trial_id m \<and> bv = mv \<and> best_trial_id st = Some b" and
    b0: "H = [] \<Longrightarrow> best_trial_id st = None"
  proof (cases "H = []")
    case True
    with tb have "best_trial_id st = None" by auto
    with True show ?thesis by (intro that [of 0 0 v]) simp_all
  next
    case False
    with tb obtain m mv k where some: "py_extremum ?M H = Inr m" "m \<in> set H"
      "best_trial_id st = Some (trial_id m)" "trial_values m = Some [mv]" "state m = COMPLETE"
      "k < length (trials st)"
      "trial_id_to_study_id_and_number s (trial_id m) = Some (sid, int k)" "trials st ! k = m"
      by auto
    have ne: "int k \<noteq> n"
    proof
      assume "int k = n"
      then have "nat n = k" by simp
      with some(8) t(1) have "m = t" by simp
      with some(5) tnc show False by simp
    qed
    show ?thesis
      by (rule that [of "trial_id m" "int k" mv]) (use some ne False in simp_all)
  qed
  define t' where "t' = t\<lparr>state := COMPLETE, datetime_complete := Some now\<rparr>"
  define p' where "p' = Some (case best_trial_id st of None \<Rightarrow> tid
                            | Some b \<Rightarrow> if better ?M v bv then tid else b)"
  define st' where "st' = st\<lparr>trials := (trials st)[nat n := t'], best_trial_id := p'\<rparr>"
  define s' where "s' = s\<lparr>studies := (studies s)(sid \<mapsto> st')\<rparr>"
  have run: "set_trial_state_im s tid COMPLETE now = (Inr True, s')"
    using set_trial_state_im_COMPLETE [OF n(1) st n(2,3) t(1,2) v D(1) best, of now]
    by (simp add: s'_def st'_def p'_def t'_def)
  have st': "studies s' sid = Some st'" by (simp add: s'_def)
  have tr': "trials st' = (trials st)[nat n := t']" by (simp add: st'_def)
  have mp: "trial_id_to_study_id_and_number s' = trial_id_to_study_id_and_number s"
    by (simp add: s'_def)
  have tv: "trial_values t' = Some [v]" and ts: "state t' = COMPLETE" and ti: "trial_id t' = tid"
    using v t(3) by (simp_all add: t'_def)
  have slot_t': "trials st' ! nat n = t'" using nl by (simp add: tr')
  have old: "\<And>x. x \<in> set H \<Longrightarrow> \<exists>i<length (trials st). i \<noteq> nat n \<and>
               trial_id_to_study_id_and_number s (trial_id x) = Some (sid, int i) \<and>
               trials st ! i = x \<and> trials st' ! i = x"
  proof -
    fix x assume x: "x \<in> set H"
    with D(4) obtain i where i: "i < length (trials st)"
      "trial_id_to_study_id_and_number s (trial_id x) = Some (sid, int i)" "trials st ! i = x"
      by blast
    from D(2) [of x] x have "state x = COMPLETE" by blast
    with i(3) t(1) tnc have "i \<noteq> nat n" by auto
    with i show "\<exists>i<length (trials st). i \<noteq> nat n \<and>
               trial_id_to_study_id_and_number s (trial_id x) = Some (sid, int i) \<and>
               trials st ! i = x \<and> trials st' ! i = x"
      by (intro exI [of _ i]) (simp add: tr')
  qed
  have "tracked_im s' sid d (H @ [t'])"
  proof (rule tracked_imI [OF st'])
    show "directions st' = [d]" using D(1) by (simp add: st'_def)
    show "\<And>x. x \<in> set (H @ [t']) \<longleftrightarrow> x \<in> set (trials st') \<and> state x = COMPLETE"
    proof -
      fix x
      show "x \<in> set (H @ [t']) \<longleftrightarrow> x \<in> set (trials st') \<and> state x = COMPLETE"
      proof
        assume "x \<in> set (H @ [t'])"
        then consider "x \<in> set H" | "x = t'" by auto
        then show "x \<in> set (trials st') \<and> state x = COMPLETE"
        proof cases
          case 1
          from old [OF 1] obtain i where i: "i < length (trials st)" "trials st' ! i = x"
            by blast
          from i have "x \<in> set (trials st')" by (auto simp: tr' in_set_conv_nth)
          moreover from D(2) [of x] 1 have "state x = COMPLETE" by blast
          ultimately show ?thesis by simp
        next
          case 2
          have "t' \<in> set (trials st')" using slot_t' nl by (auto simp: tr' in_set_conv_nth)
          with 2 ts show ?thesis by simp
        qed
      next
        assume a: "x \<in> set (trials st') \<and> state x = COMPLETE"
        then obtain i where i: "i < length (trials st)" "trials st' ! i = x"
          by (auto simp: tr' in_set_conv_nth)
        show "x \<in> set (H @ [t'])"
        proof (cases "i = nat n")
          case True
          with i(2) slot_t' show ?thesis by simp
        next
          case False
          with i have "trials st ! i = x" by (simp add: tr')
          with i(1) have "x \<in> set (trials st)" by (auto simp: in_set_conv_nth)
          with a D(2) [of x] show ?thesis by simp
        qed
      qed
    qed
    show "\<forall>x\<in>set (H @ [t']). \<exists>w. trial_values x = Some [w]"
      using D(3) tv by auto
    show "\<forall>x\<in>set (H @ [t']). \<exists>k<length (trials st').
            trial_id_to_study_id_and_number s' (trial_id x) = Some (sid, int k) \<and>
            trials st' ! k = x"
    proof
      fix x assume "x \<in> set (H @ [t'])"
      then consider "x \<in> set H" | "x = t'" by auto
      then show "\<exists>k<length (trials st').
            trial_id_to_study_id_and_number s' (trial_id x) = Some (sid, int k) \<and>
            trials st' ! k = x"
      proof cases
        case 1
        from old [OF 1] obtain i where i: "i < length (trials st)"
          "trial_id_to_study_id_and_number s (trial_id x) = Some (sid, int i)"
          "trials st' ! i = x" by blast
        then show ?thesis by (intro exI [of _ i]) (simp add: tr' mp)
      next
        case 2
        show ?thesis
          using 2 nl n(1,2) slot_t' ti by (intro exI [of _ "nat n"]) (simp add: tr' mp)
      qed
    qed
    show "H @ [t'] = [] \<Longrightarrow> best_trial_id st' = None" by simp
    have "\<exists>m. py_extremum ?M (H @ [t']) = Inr m \<and> best_trial_id st' = Some (trial_id m)"
    proof (rule pointer_after [where p = "best_trial_id st" and v = v
          and P = "\<lambda>m mv. state m = COMPLETE"])
      show "H = [] \<and> best_trial_id st = None \<or>
         (\<exists>m mv. H \<noteq> [] \<and> py_extremum ?M H = Inr m \<and> m \<in> set H \<and>
            best_trial_id st = Some (trial_id m) \<and> trial_values m = Some [mv] \<and>
            state m = COMPLETE)"
        using tb by blast
      show "\<forall>t\<in>set H. \<exists>v. trial_values t = Some [v]" by (rule D(3))
      show "trial_values t' = Some [v]" by (rule tv)
      show "\<And>m mv. H \<noteq> [] \<Longrightarrow> py_extremum ?M H = Inr m \<Longrightarrow> trial_values m = Some [mv] \<Longrightarrow>
              best_trial_id st' =
                Some (if best_trial_id st = None \<or> better ?M v mv
                      then trial_id t' else trial_id m)"
      proof -
        fix m mv
        assume a: "H \<noteq> []" "py_extremum ?M H = Inr m" "trial_values m = Some [mv]"
        from bm [OF a] have "b = trial_id m" "bv = mv" "best_trial_id st = Some b" by simp_all
        then show "best_trial_id st' =
                Some (if best_trial_id st = None \<or> better ?M v mv
                      then trial_id t' else trial_id m)"
          using ti by (simp add: st'_def p'_def)
      qed
      show "H = [] \<Longrightarrow> best_trial_id st' = Some (trial_id t')"
        using b0 ti by (simp add: st'_def p'_def)
    qed
    then show "H @ [t'] \<noteq> [] \<Longrightarrow>
      \<exists>m. py_extremum ?M (H @ [t']) = Inr m \<and> best_trial_id st' = Some (trial_id m)" .
  qed
  with run ti show ?thesis by (intro exI [of _ s'] exI [of _ t']) simp
qed

lemma tracked_im_seed:
  assumes tr: "tracked_im s sid d H" and tc: "state tmpl = COMPLETE"
      and tl: "map_option length (trial_values tmpl) = Some 1"
      and fresh: "trial_id_to_study_id_and_number s (max_trial_id s + 1) = None"
  shows "\<exists>tid s' t. create_new_trial_im s sid (Some tmpl) now = (Inr tid, s') \<and>
           tracked_im s' sid d (H @ [t]) \<and> trial_id t = tid"
proof -
  let ?M = "d = MAXIMIZE"
  from tracked_im_study [OF tr] obtain st where st: "studies s sid = Some st" by blast
  note D = tracked_imD [OF tr st]
  define tid where "tid = max_trial_id s + 1"
  define t' where "t' = tmpl\<lparr>number := int (length (trials st)), trial_id := tid\<rparr>"
  from tl obtain v where v: "trial_values tmpl = Some [v]"
    using length_one [of "trial_values tmpl"] by auto
  have ft: "trial_id_to_study_id_and_number s tid = None" using fresh by (simp add: tid_def)
  note tb = tracked_im_best [OF tr st]
  obtain b nb bv where
    best: "best_trial_id st = None \<or>
             best_trial_id st = Some b \<and> trial_id_to_study_id_and_number s b = Some (sid, nb) \<and>
             0 \<le> nb \<and> nb < int (length (trials st)) \<and>
             trial_values (trials st ! nat nb) = Some [bv]" and
    bm: "\<And>m mv. H \<noteq> [] \<Longrightarrow> py_extremum ?M H = Inr m \<Longrightarrow> trial_values m = Some [mv] \<Longrightarrow>
           b = trial_id m \<and> bv = mv \<and> best_trial_id st = Some b" and
    b0: "H = [] \<Longrightarrow> best_trial_id st = None"
  proof (cases "H = []")
    case True
    with tb have "best_trial_id st = None" by auto
    with True show ?thesis by (intro that [of 0 0 v]) simp_all
  next
    case False
    with tb obtain m mv k where some: "py_extremum ?M H = Inr m" "m \<in> set H"
      "best_trial_id st = Some (trial_id m)" "trial_values m = Some [mv]" "state m = COMPLETE"
      "k < length (trials st)"
      "trial_id_to_study_id_and_number s (trial_id m) = Some (sid, int k)" "trials st ! k = m"
      by auto
    show ?thesis
      by (rule that [of "trial_id m" "int k" mv]) (use some False in simp_all)
  qed
  define p' where "p' = Some (if best_trial_id st = None \<or> better ?M v bv then tid else b)"
  define st' where "st' = st\<lparr>trials := trials st @ [t'], best_trial_id := p'\<rparr>"
  define s' where "s' = s\<lparr>max_trial_id := tid,
              trial_id_to_study_id_and_number :=
                (trial_id_to_study_id_and_number s)(tid \<mapsto> (sid, int (length (trials st)))),
              studies := (studies s)(sid \<mapsto> st')\<rparr>"
  have run: "create_new_trial_im s sid (Some tmpl) now = (Inr tid, s')"
    using seed_im_step [OF st tc v fresh D(1) best tid_def t'_def, of now]
    by (simp add: s'_def st'_def p'_def)
  have st': "studies s' sid = Some st'" by (simp add: s'_def)
  have tr': "trials st' = trials st @ [t']" by (simp add: st'_def)
  have mp: "trial_id_to_study_id_and_number s' =
              (trial_id_to_study_id_and_number s)(tid \<mapsto> (sid, int (length (trials st))))"
    by (simp add: s'_def)
  have tv: "trial_values t' = Some [v]" and ts: "state t' = COMPLETE" and ti: "trial_id t' = tid"
    using v tc by (simp_all add: t'_def)
  have "tracked_im s' sid d (H @ [t'])"
  proof (rule tracked_imI [OF st'])
    show "directions st' = [d]" using D(1) by (simp add: st'_def)
    show "\<And>x. x \<in> set (H @ [t']) \<longleftrightarrow> x \<in> set (trials st') \<and> state x = COMPLETE"
      using D(2) ts by (auto simp: tr')
    show "\<forall>x\<in>set (H @ [t']). \<exists>w. trial_values x = Some [w]"
      using D(3) tv by auto
    show "\<forall>x\<in>set (H @ [t']). \<exists>k<length (trials st').
            trial_id_to_study_id_and_number s' (trial_id x) = Some (sid, int k) \<and>
            trials st' ! k = x"
    proof
      fix x assume "x \<in> set (H @ [t'])"
      then consider "x \<in> set H" | "x = t'" by auto
      then show "\<exists>k<length (trials st').
            trial_id_to_study_id_and_number s' (trial_id x) = Some (sid, int k) \<and>
            trials st' ! k = x"
      proof cases
        case 1
        with D(4) obtain i where i: "i < length (trials st)"
          "trial_id_to_study_id_and_number s (trial_id x) = Some (sid, int i)"
          "trials st ! i = x" by blast
        from i(2) ft have "trial_id x \<noteq> tid" by auto
        with i show ?thesis by (intro exI [of _ i]) (simp add: tr' mp nth_append)
      next
        case 2
        show ?thesis
          using 2 ti by (intro exI [of _ "length (trials st)"]) (simp add: tr' mp)
      qed
    qed
    show "H @ [t'] = [] \<Longrightarrow> best_trial_id st' = None" by simp
    have "\<exists>m. py_extremum ?M (H @ [t']) = Inr m \<and> best_trial_id st' = Some (trial_id m)"
    proof (rule pointer_after [where p = "best_trial_id st" and v = v
          and P = "\<lambda>m mv. state m = COMPLETE"])
      show "H = [] \<and> best_trial_id st = None \<or>
         (\<exists>m mv. H \<noteq> [] \<and> py_extremum ?M H = Inr m \<and> m \<in> set H \<and>
            best_trial_id st = Some (trial_id m) \<and> trial_values m = Some [mv] \<and>
            state m = COMPLETE)"
        using tb by blast
      show "\<forall>t\<in>set H. \<exists>v. trial_values t = Some [v]" by (rule D(3))
      show "trial_values t' = Some [v]" by (rule tv)
      show "\<And>m mv. H \<noteq> [] \<Longrightarrow> py_extremum ?M H = Inr m \<Longrightarrow> trial_values m = Some [mv] \<Longrightarrow>
              best_trial_id st' =
                Some (if best_trial_id st = None \<or> better ?M v mv
                      then trial_id t' else trial_id m)"
      proof -
        fix m mv
        assume a: "H \<noteq> []" "py_extremum ?M H = Inr m" "trial_values m = Some [mv]"
        from bm [OF a] have "b = trial_id m" "bv = mv" "best_trial_id st = Some b" by simp_all
        then show "best_trial_id st' =
                Some (if best_trial_id st = None \<or> better ?M v mv
                      then trial_id t' else trial_id m)"
          using ti by (simp add: st'_def p'_def)
      qed
      show "H = [] \<Longrightarrow> best_trial_id st' = Some (trial_id t')"
        using b0 ti by (simp add: st'_def p'_def)
    qed
    then show "H @ [t'] \<noteq> [] \<Longrightarrow>
      \<exists>m. py_extremum ?M (H @ [t']) = Inr m \<and> best_trial_id st' = Some (trial_id m)" .
  qed
  with run ti show ?thesis by (intro exI [of _ tid] exI [of _ s'] exI [of _ t']) simp
qed

lemma tracked_im_complete:
  assumes tr: "tracked_im s sid d H" and ok: "completion_ok_im s sid c"
  shows "\<exists>tid s' t. complete_im s sid c = (Inr tid, s') \<and>
           tracked_im s' sid d (H @ [t]) \<and> trial_id t = tid"
proof (cases c)
  case (Finish tid now)
  with ok have "ready_to_complete_im s sid tid" by simp
  from tracked_im_finish [OF tr this, of now] Finish show ?thesis by auto
next
  case (Seed tmpl now)
  with ok have a: "state tmpl = COMPLETE" "map_option length (trial_values tmpl) = Some 1"
    "trial_id_to_study_id_and_number s (max_trial_id s + 1) = None" by simp_all
  from tracked_im_seed [OF tr a, of now] Seed show ?thesis by auto
qed

lemma tracked_im_complete_all:
  assumes "tracked_im s sid d H" and "admissible_im s sid cs"
  shows "\<exists>ids s' N. complete_all_im s sid cs = (Inr ids, s') \<and>
           tracked_im s' sid d (H @ N) \<and> map trial_id N = ids \<and> length N = length cs"
  using assms
proof (induction cs arbitrary: s H)
  case Nil
  then show ?case by (intro exI [of _ "[]"] exI [of _ s]) simp
next
  case (Cons c cs)
  from Cons.prems(2) have ok: "completion_ok_im s sid c"
    and ad: "admissible_im (snd (complete_im s sid c)) sid cs" by simp_all
  from tracked_im_complete [OF Cons.prems(1) ok] obtain tid s1 t where
    s: "complete_im s sid c = (Inr tid, s1)" "tracked_im s1 sid d (H @ [t])" "trial_id t = tid"
    by blast
  from ad s(1) have ad1: "admissible_im s1 sid cs" by simp
  from Cons.IH [OF s(2) ad1] obtain ids s' N where
    r: "complete_all_im s1 sid cs = (Inr ids, s')" "tracked_im s' sid d ((H @ [t]) @ N)"
       "map trial_id N = ids" "length N = length cs" by blast
  show ?case
    apply (rule exI [of _ "tid # ids"], rule exI [of _ s'], rule exI [of _ "t # N"])
    using s r by simp
qed

lemma get_trials_im_ids:
  assumes "\<forall>t\<in>set N. get_trial_im s (trial_id t) = Inr t"
  shows "get_trials_im s (map trial_id N) = Inr N"
  using assms by (induction N) auto

lemma tracked_im_empty:
  assumes "no_completed_trial_im s sid d"
  shows "tracked_im s sid d []"
  using assms unfolding no_completed_trial_im_def tracked_im_def
  by (auto split: option.splits)

lemma im_pointer_vs_scan:
  assumes fresh: "no_completed_trial_im s sid d" and ne: "cs \<noteq> []"
      and ad: "admissible_im s sid cs"
  shows "\<exists>ids s' H m st' all_trials m'.
           complete_all_im s sid cs = (Inr ids, s') \<and>
           get_trials_im s' ids = Inr H \<and>
           best_trial_by_scan [d] H = Inr m \<and>
           studies s' sid = Some st' \<and> best_trial_id st' = Some (trial_id m) \<and>
           get_all_trials_im s' sid None = Inr all_trials \<and>
           best_trial_by_scan [d] all_trials = Inr m' \<and>
           ((\<forall>x\<in>set H. value x \<noteq> Inr (Some NaN)) \<longrightarrow>
              value m' = value m \<and> ((\<forall>x\<in>set H. value x = value m \<longrightarrow> x = m) \<longrightarrow> m' = m))"
proof -
  let ?M = "d = MAXIMIZE"
  from tracked_im_complete_all [OF tracked_im_empty [OF fresh] ad] obtain ids s' N where
    run: "complete_all_im s sid cs = (Inr ids, s')" and tr: "tracked_im s' sid d N"
    and ids: "map trial_id N = ids" and len: "length N = length cs" by auto
  from tracked_im_study [OF tr] obtain st' where st': "studies s' sid = Some st'" by blast
  note D = tracked_imD [OF tr st']
  have Nne: "N \<noteq> []" using len ne by auto
  have "\<forall>t\<in>set N. get_trial_im s' (trial_id t) = Inr t"
  proof
    fix t assume "t \<in> set N"
    with D(4) obtain k where k: "k < length (trials st')"
      "trial_id_to_study_id_and_number s' (trial_id t) = Some (sid, int k)" "trials st' ! k = t"
      by blast
    from get_trial_im_slot [OF k(2) st'] k(1,3) show "get_trial_im s' (trial_id t) = Inr t"
      by simp
  qed
  from get_trials_im_ids [OF this] ids have loop: "get_trials_im s' ids = Inr N" by simp
  from D(6) [OF Nne] obtain m where m: "py_extremum ?M N = Inr m"
    "best_trial_id st' = Some (trial_id m)" by blast
  have Nc: "\<forall>x\<in>set N. state x = COMPLETE" using D(2) by blast
  have scanN: "best_trial_by_scan [d] N = Inr m"
    using best_trial_by_scan_single [OF Nne Nc] m(1) by simp
  let ?all = "trials st'"
  have all: "get_all_trials_im s' sid None = Inr ?all"
    using st' by (simp add: get_all_trials_im_def check_study_id_def domIff dict_get_def)
  let ?F = "filter (\<lambda>t. state t = COMPLETE) ?all"
  have fset: "set ?F = set N" using D(2) by auto
  have Fne: "?F \<noteq> []" using fset Nne by (metis set_empty)
  have Fc: "\<forall>x\<in>set ?F. state x = COMPLETE" by simp
  have Fv: "\<forall>x\<in>set ?F. \<exists>v. trial_values x = Some [v]" using fset D(3) by blast
  from py_extremum_mem [OF Fne Fv, of ?M] obtain m' where m': "py_extremum ?M ?F = Inr m'"
    by blast
  have scanall: "best_trial_by_scan [d] ?all = Inr m'"
    using best_trial_by_scan_filter [of "[d]" ?all] best_trial_by_scan_single [OF Fne Fc, of d] m'
    by simp
  have agree: "(\<forall>x\<in>set N. value x \<noteq> Inr (Some NaN)) \<longrightarrow>
                 value m' = value m \<and> ((\<forall>x\<in>set N. value x = value m \<longrightarrow> x = m) \<longrightarrow> m' = m)"
    using scans_agree [OF Nne D(3) fset m(1) m'] by blast
  show ?thesis
    apply (rule exI [of _ ids], rule exI [of _ s'], rule exI [of _ N], rule exI [of _ m],
           rule exI [of _ st'], rule exI [of _ ?all], rule exI [of _ m'])
    using run loop scanN st' m(2) all scanall agree apply (intro conjI)
          apply assumption+
    done
qed

subsection \<open>The examples\<close>

lemma redis_two_eq:
  "redis_two v0 v1 =
     redis_study
       \<lparr>key_trial_counter := Some 1, key_study_trial_number := [0 \<mapsto> 1],
        key_study_direction := [0 \<mapsto> PyList [MAXIMIZE]],
        key_trial := [0 \<mapsto> running_trial\<lparr>trial_values := Some [v0]\<rparr>,
                      1 \<mapsto> running_trial\<lparr>number := 1, trial_id := 1, trial_values := Some [v1]\<rparr>],
        key_trial_study_id := [0 \<mapsto> 0, 1 \<mapsto> 0],
        key_study_trial_list := [0 \<mapsto> [0, 1]],
        key_study_summary := [0 \<mapsto>
          \<lparr>summary_study_name = ''s'', summary_directions = [MAXIMIZE],
           summary_best_trial = None, summary_user_attrs = Map.empty,
           summary_system_attrs = Map.empty, summary_n_trials = Suc (Suc 0),
           summary_datetime_start = Some 1, summary_study_id = 0\<rparr>]\<rparr>"
  by (simp add: redis_two_def redis_study_eq empty_RedisStorage_def r_defs Let_def
        running_trial_def set_study_directions_r_def set_trial_values_r_def
        updatable_trial_r_def domIff)

lemma im_two_eq:
  "im_two v0 v1 =
     \<lparr>trial_id_to_study_id_and_number = [0 \<mapsto> (0, 0), 1 \<mapsto> (0, 1)],
      study_name_to_id = [''s'' \<mapsto> 0],
      studies = [0 \<mapsto> (study_info
         [running_trial\<lparr>trial_values := Some [v0]\<rparr>,
          running_trial\<lparr>number := 1, trial_id := 1, trial_values := Some [v1]\<rparr>] None)
            \<lparr>directions := [MAXIMIZE]\<rparr>],
      max_study_id = 0, max_trial_id = 1\<rparr>"
  by (simp add: im_two_def im_study_eq im_defs Let_def running_trial_def study_info_def
        set_study_directions_im_def set_trial_values_im_def)

lemma two_fresh:
  "no_completed_trial_r (redis_two v0 v1) 0 MAXIMIZE"
  "no_completed_trial_im (im_two v0 v1) 0 MAXIMIZE"
  by (simp_all add: no_completed_trial_r_def study_trial_list_r_def redis_two_eq redis_study_eq
        empty_RedisStorage_def running_trial_def create_running_trial_def
        get_study_directions_r_def check_study_id_r_def dict_get_def domIff
        no_completed_trial_im_def im_two_eq study_info_def)

lemma py_extremum_loop_member:
  "py_extremum_loop is_max item val xs = Inr m \<Longrightarrow> m \<in> insert item (set xs)"
proof (induction xs arbitrary: item val)
  case Nil
  then show ?case by simp
next
  case (Cons x xs)
  from Cons.prems obtain k where k: "value x = Inr k"
    by (cases "value x") simp_all
  from Cons.prems k obtain kv v where kv: "k = Some kv" "val = Some v"
    by (cases k; cases val) simp_all
  from Cons.prems k kv
  have "py_extremum_loop is_max x k xs = Inr m \<or> py_extremum_loop is_max item val xs = Inr m"
    by (simp split: if_splits)
  then show ?case using Cons.IH by auto
qed

lemma best_trial_by_scan_member:
  assumes "best_trial_by_scan ds xs = Inr m"
  shows "m \<in> set xs"
proof -
  let ?F = "filter (\<lambda>t. state t = COMPLETE) xs"
  from assms obtain M where M: "py_extremum M ?F = Inr m"
    by (auto simp: best_trial_by_scan_def Let_def bind_eq_Inr split: if_splits)
  then obtain x ys where F: "?F = x # ys" by (cases ?F) (simp_all add: py_extremum_def)
  with M obtain k where "py_extremum_loop M x k ys = Inr m"
    by (auto simp: py_extremum_def bind_eq_Inr)
  from py_extremum_loop_member [OF this] F have "m \<in> set ?F" by auto
  then show ?thesis by simp
qed

lemma distinct_values:
  assumes "distinct (map value H)" and "m \<in> set H"
  shows "\<forall>x\<in>set H. value x = value m \<longrightarrow> x = m"
  using assms by (auto simp: distinct_map dest: inj_onD)

lemma seed_hyps:
  "admissible_r (redis_two (Finite 5) (Finite 7)) 0 with_seed"
  "admissible_im (im_two (Finite 5) (Finite 7)) 0 with_seed"
  by (simp_all add: with_seed_def complete_template_def ready_to_complete_r_def
        ready_to_complete_im_def next_trial_id_r_def study_trial_list_r_def redis_two_eq
        im_two_eq redis_study_eq get_best_trial_r_def
        empty_RedisStorage_def r_defs im_defs Let_def running_trial_def study_info_def domIff)

lemma seed_run:
  "fst (complete_all_r (redis_two (Finite 5) (Finite 7)) 0 with_seed) = Inr [1, 2, 0]"
  "map_sum id (map value)
     (get_all_trials_loop (snd (complete_all_r (redis_two (Finite 5) (Finite 7)) 0 with_seed))
        None [1, 2, 0])
     = Inr [Inr (Some (Finite 7)), Inr (Some (Finite 6)), Inr (Some (Finite 5))]"
  "fst (complete_all_im (im_two (Finite 5) (Finite 7)) 0 with_seed) = Inr [1, 2, 0]"
  "map_sum id (map value)
     (get_trials_im (snd (complete_all_im (im_two (Finite 5) (Finite 7)) 0 with_seed)) [1, 2, 0])
     = Inr [Inr (Some (Finite 7)), Inr (Some (Finite 6)), Inr (Some (Finite 5))]"
  by (simp_all add: with_seed_def complete_template_def redis_two_eq
        im_two_eq redis_study_eq get_best_trial_r_def
        empty_RedisStorage_def r_defs im_defs Let_def running_trial_def study_info_def domIff)

text \<open>
  C3, as the claim states it, fails in two ways, on both backends. On a tie: two trials
  of a MAXIMIZE study both hold the value 5 and trial 1 completes before trial 0; the
  incrementally maintained pointer is trial 1, and the full scan of \<^verbatim>\<open>get_best_trial\<close>
  over the study's trials, which lists them in creation order, returns trial 0. On NaN:
  trial 0 holds the value 1, trial 1 holds NaN and completes first; every comparison
  with NaN is false, so the pointer stays on trial 1 with the value NaN, and the full scan
  returns trial 0 with the value 1.
\<close>

theorem best_pointer_differs_from_full_scan_counterexample:
  "complete_all_r (redis_two (Finite 5) (Finite 5)) 0 later_first
     = (Inr [1, 0], redis_tie_completed) \<and>
   key_best_trial redis_tie_completed 0 = Some 1 \<and>
   map_sum id trial_id
     (bind (get_all_trials_r redis_tie_completed 0 None) (best_trial_by_scan [MAXIMIZE])) = Inr 0 \<and>
   complete_all_im (im_two (Finite 5) (Finite 5)) 0 later_first
     = (Inr [1, 0], im_tie_completed) \<and>
   map_option best_trial_id (studies im_tie_completed 0) = Some (Some 1) \<and>
   map_sum id trial_id
     (bind (get_all_trials_im im_tie_completed 0 None) (best_trial_by_scan [MAXIMIZE])) = Inr 0 \<and>
   complete_all_r (redis_two (Finite 1) NaN) 0 later_first
     = (Inr [1, 0], redis_nan_completed) \<and>
   key_best_trial redis_nan_completed 0 = Some 1 \<and>
   bind (get_trial_r redis_nan_completed 1) value = Inr (Some NaN) \<and>
   bind (bind (get_all_trials_r redis_nan_completed 0 None) (best_trial_by_scan [MAXIMIZE])) value
     = Inr (Some (Finite 1)) \<and>
   complete_all_im (im_two (Finite 1) NaN) 0 later_first
     = (Inr [1, 0], im_nan_completed) \<and>
   map_option best_trial_id (studies im_nan_completed 0) = Some (Some 1) \<and>
   bind (get_trial_im im_nan_completed 1) value = Inr (Some NaN) \<and>
   bind (bind (get_all_trials_im im_nan_completed 0 None) (best_trial_by_scan [MAXIMIZE])) value
     = Inr (Some (Finite 1))"
  by (simp add: redis_tie_completed_def im_tie_completed_def redis_nan_completed_def
        im_nan_completed_def later_first_def redis_two_eq im_two_eq redis_study_eq
        empty_RedisStorage_def r_defs im_defs Let_def running_trial_def study_info_def
        best_trial_by_scan_def py_extremum_def get_best_trial_r_def get_all_trials_im_def domIff)

text \<open>
  C3, amended. Take a study with one direction, no best-trial pointer and no COMPLETE
  trial, and any non-empty sequence of completions, each of them either
  \<^verbatim>\<open>set_trial_state(trial_id, COMPLETE)\<close> on a trial of the study that is not finished and
  holds one value, or \<^verbatim>\<open>create_new_trial\<close> with a COMPLETE template that holds one value.
  On both backends every call returns, and the pointer maintained by \<^verbatim>\<open>_update_cache\<close> is
  then the trial \<open>m\<close> that the full scan of \<^verbatim>\<open>get_best_trial\<close> returns on the completed
  trials \<open>H\<close> listed in completion order. The full scan over all trials of the study in
  stored order returns a trial \<open>m'\<close>; when no completed trial holds NaN, \<open>m'\<close> has the same
  value as \<open>m\<close>, and \<open>m' = m\<close> whenever \<open>m\<close> is the only completed trial with that value.
\<close>

theorem best_pointer_and_full_scan:
  "(no_completed_trial_r r sid d \<and> cs \<noteq> [] \<and> admissible_r r sid cs \<longrightarrow>
      (\<exists>ids r' H m all_trials m'.
         complete_all_r r sid cs = (Inr ids, r') \<and>
         get_all_trials_loop r' None ids = Inr H \<and>
         best_trial_by_scan [d] H = Inr m \<and>
         key_best_trial r' sid = Some (trial_id m) \<and>
         get_all_trials_r r' sid None = Inr all_trials \<and>
         best_trial_by_scan [d] all_trials = Inr m' \<and>
         ((\<forall>x\<in>set H. value x \<noteq> Inr (Some NaN)) \<longrightarrow>
            value m' = value m \<and> ((\<forall>x\<in>set H. value x = value m \<longrightarrow> x = m) \<longrightarrow> m' = m)))) \<and>
   (no_completed_trial_im s sid' d' \<and> cs' \<noteq> [] \<and> admissible_im s sid' cs' \<longrightarrow>
      (\<exists>ids s' H m st' all_trials m'.
         complete_all_im s sid' cs' = (Inr ids, s') \<and>
         get_trials_im s' ids = Inr H \<and>
         best_trial_by_scan [d'] H = Inr m \<and>
         studies s' sid' = Some st' \<and> best_trial_id st' = Some (trial_id m) \<and>
         get_all_trials_im s' sid' None = Inr all_trials \<and>
         best_trial_by_scan [d'] all_trials = Inr m' \<and>
         ((\<forall>x\<in>set H. value x \<noteq> Inr (Some NaN)) \<longrightarrow>
            value m' = value m \<and> ((\<forall>x\<in>set H. value x = value m \<longrightarrow> x = m) \<longrightarrow> m' = m))))"
proof (intro conjI impI)
  assume "no_completed_trial_r r sid d \<and> cs \<noteq> [] \<and> admissible_r r sid cs"
  then have "no_completed_trial_r r sid d" "cs \<noteq> []" "admissible_r r sid cs" by simp_all
  then show "\<exists>ids r' H m all_trials m'.
         complete_all_r r sid cs = (Inr ids, r') \<and>
         get_all_trials_loop r' None ids = Inr H \<and>
         best_trial_by_scan [d] H = Inr m \<and>
         key_best_trial r' sid = Some (trial_id m) \<and>
         get_all_trials_r r' sid None = Inr all_trials \<and>
         best_trial_by_scan [d] all_trials = Inr m' \<and>
         ((\<forall>x\<in>set H. value x \<noteq> Inr (Some NaN)) \<longrightarrow>
            value m' = value m \<and> ((\<forall>x\<in>set H. value x = value m \<longrightarrow> x = m) \<longrightarrow> m' = m))"
    by (rule redis_pointer_vs_scan)
next
  assume "no_completed_trial_im s sid' d' \<and> cs' \<noteq> [] \<and> admissible_im s sid' cs'"
  then have "no_completed_trial_im s sid' d'" "cs' \<noteq> []" "admissible_im s sid' cs'"
    by simp_all
  then show "\<exists>ids s' H m st' all_trials m'.
         complete_all_im s sid' cs' = (Inr ids, s') \<and>
         get_trials_im s' ids = Inr H \<and>
         best_trial_by_scan [d'] H = Inr m \<and>
         studies s' sid' = Some st' \<and> best_trial_id st' = Some (trial_id m) \<and>
         get_all_trials_im s' sid' None = Inr all_trials \<and>
         best_trial_by_scan [d'] all_trials = Inr m' \<and>
         ((\<forall>x\<in>set H. value x \<noteq> Inr (Some NaN)) \<longrightarrow>
            value m' = value m \<and> ((\<forall>x\<in>set H. value x = value m \<longrightarrow> x = m) \<longrightarrow> m' = m))"
    by (rule im_pointer_vs_scan)
qed

text \<open>
  The amended statement at a MAXIMIZE study with the values 5 and 7, where trial 1
  completes, a COMPLETE trial with the value 6 is created from a template, and trial 0
  completes: the values are distinct and none is NaN, so the pointer and the full scan
  in stored order name the same trial.
\<close>

theorem best_pointer_and_full_scan_witness:
  "(\<exists>m. key_best_trial (snd (complete_all_r (redis_two (Finite 5) (Finite 7)) 0 with_seed)) 0
           = Some (trial_id m) \<and>
         bind (get_all_trials_r (snd (complete_all_r (redis_two (Finite 5) (Finite 7)) 0 with_seed))
                 0 None)
           (best_trial_by_scan [MAXIMIZE]) = Inr m) \<and>
   (\<exists>m st'. studies (snd (complete_all_im (im_two (Finite 5) (Finite 7)) 0 with_seed)) 0 = Some st' \<and>
         best_trial_id st' = Some (trial_id m) \<and>
         bind (get_all_trials_im (snd (complete_all_im (im_two (Finite 5) (Finite 7)) 0 with_seed))
                 0 None)
           (best_trial_by_scan [MAXIMIZE]) = Inr m)"
proof -
  let ?r = "redis_two (Finite 5) (Finite 7)" and ?s = "im_two (Finite 5) (Finite 7)"
  let ?vs = "[Inr (Some (Finite 7)), Inr (Some (Finite 6)), Inr (Some (Finite 5))]
               :: (error + pyfloat option) list"
  have ne: "with_seed \<noteq> []" by (simp add: with_seed_def)
  note both = best_pointer_and_full_scan [where r = ?r and sid = 0 and d = MAXIMIZE
      and cs = with_seed and s = ?s and sid' = 0 and d' = MAXIMIZE and cs' = with_seed]
  have sep: "\<And>(H :: ('a, 'd, 'p) FrozenTrial list) m. map value H = ?vs \<Longrightarrow> m \<in> set H \<Longrightarrow>
               (\<forall>x\<in>set H. value x \<noteq> Inr (Some NaN)) \<and> (\<forall>x\<in>set H. value x = value m \<longrightarrow> x = m)"
  proof -
    fix H :: "('a, 'd, 'p) FrozenTrial list" and m
    assume vs: "map value H = ?vs" and m: "m \<in> set H"
    have "\<forall>x\<in>set H. value x \<noteq> Inr (Some NaN)"
    proof
      fix x assume "x \<in> set H"
      then have "value x \<in> set (map value H)" by simp
      then show "value x \<noteq> Inr (Some NaN)" unfolding vs by auto
    qed
    moreover have "\<forall>x\<in>set H. value x = value m \<longrightarrow> x = m"
    proof -
      have "distinct (map value H)" unfolding vs by simp
      from distinct_values [OF this m] show ?thesis .
    qed
    ultimately show "(\<forall>x\<in>set H. value x \<noteq> Inr (Some NaN)) \<and>
                     (\<forall>x\<in>set H. value x = value m \<longrightarrow> x = m)" by simp
  qed
  have "\<exists>m. key_best_trial (snd (complete_all_r ?r 0 with_seed)) 0 = Some (trial_id m) \<and>
         bind (get_all_trials_r (snd (complete_all_r ?r 0 with_seed)) 0 None)
           (best_trial_by_scan [MAXIMIZE]) = Inr m"
  proof -
    from both two_fresh(1) [of "Finite 5" "Finite 7"] ne seed_hyps(1)
    obtain ids r' H m all_trials m' where R:
      "complete_all_r ?r 0 with_seed = (Inr ids, r')"
      "get_all_trials_loop r' None ids = Inr H"
      "best_trial_by_scan [MAXIMIZE] H = Inr m"
      "key_best_trial r' 0 = Some (trial_id m)"
      "get_all_trials_r r' 0 None = Inr all_trials"
      "best_trial_by_scan [MAXIMIZE] all_trials = Inr m'"
      "(\<forall>x\<in>set H. value x \<noteq> Inr (Some NaN)) \<longrightarrow>
         value m' = value m \<and> ((\<forall>x\<in>set H. value x = value m \<longrightarrow> x = m) \<longrightarrow> m' = m)"
      by blast
    from R(1) seed_run(1) have ids: "ids = [1, 2, 0]" and r': "snd (complete_all_r ?r 0 with_seed) = r'"
      by simp_all
    from seed_run(2) R(2) have vs: "map value H = ?vs" by (simp add: r' ids)
    from sep [OF vs best_trial_by_scan_member [OF R(3)]] R(7) have "m' = m" by blast
    with R(4,5,6) show ?thesis by (intro exI [of _ m]) (simp add: r')
  qed
  moreover
  have "\<exists>m st'. studies (snd (complete_all_im ?s 0 with_seed)) 0 = Some st' \<and>
         best_trial_id st' = Some (trial_id m) \<and>
         bind (get_all_trials_im (snd (complete_all_im ?s 0 with_seed)) 0 None)
           (best_trial_by_scan [MAXIMIZE]) = Inr m"
  proof -
    from both two_fresh(2) [of "Finite 5" "Finite 7"] ne seed_hyps(2)
    obtain ids s' H m st' all_trials m' where R:
      "complete_all_im ?s 0 with_seed = (Inr ids, s')"
      "get_trials_im s' ids = Inr H"
      "best_trial_by_scan [MAXIMIZE] H = Inr m"
      "studies s' 0 = Some st'" "best_trial_id st' = Some (trial_id m)"
      "get_all_trials_im s' 0 None = Inr all_trials"
      "best_trial_by_scan [MAXIMIZE] all_trials = Inr m'"
      "(\<forall>x\<in>set H. value x \<noteq> Inr (Some NaN)) \<longrightarrow>
         value m' = value m \<and> ((\<forall>x\<in>set H. value x = value m \<longrightarrow> x = m) \<longrightarrow> m' = m)"
      by blast
    from R(1) seed_run(3) have ids: "ids = [1, 2, 0]" and s': "snd (complete_all_im ?s 0 with_seed) = s'"
      by simp_all
    from seed_run(4) R(2) have vs: "map value H = ?vs" by (simp add: s' ids)
    from sep [OF vs best_trial_by_scan_member [OF R(3)]] R(8) have "m' = m" by blast
    with R(4,5,6,7) show ?thesis by (intro exI [of _ m] exI [of _ st']) (simp add: s')
  qed
  ultimately show ?thesis by simp
qed

end
